theory Spec2Isabelle
  imports Complex_Main "HOL-Library.AList"
begin


section \<open>Data model (shared schema)\<close>

text \<open>
  The tables of the shared schema: a user row and a prompt row. Nullable columns are
  options. A JavaScript \<open>Date\<close> is the record of what the code observes of it: the
  epoch milliseconds (\<open>getTime\<close>, used by comparisons and subtraction), the local
  calendar fields (\<open>getFullYear\<close>, \<open>getMonth\<close>, \<open>getDate\<close>), and the epoch
  milliseconds of the date that \<open>setDate(getDate() - n)\<close> makes of it (\<open>setDateBack n\<close>,
  \<open>None\<close> when that is an invalid date): the local calendar day \<open>n\<close> days earlier at
  the same local time, which depends on the time zone of the server. Row ids are the
  values of counters that start at 1 and are only ever incremented; they are natural
  numbers here (the loss of precision of a JavaScript number beyond \<open>2^53\<close> is not
  modelled).
\<close>

datatype UserRole = Writer | Developer | Designer | Marketer

datatype Plan = Free | Pro

record Date =
  getTime :: int
  getFullYear :: int
  getMonth :: nat
  getDate :: nat
  setDateBack :: "nat \<Rightarrow> int option"

record User =
  user_id :: nat
  username :: string
  password :: string
  clerkId :: "string option"
  user_role :: "UserRole option"
  plan :: Plan
  promptsUsedToday :: "nat option"
  lastPromptDate :: "Date option"
  user_createdAt :: "Date option"

record InsertUser =
  ins_username :: string
  ins_password :: string
  ins_clerkId :: "string option"
  ins_role :: "UserRole option"
  ins_plan :: "Plan option"

record Prompt =
  prompt_id :: nat
  userId :: "nat option"
  originalPrompt :: string
  enhancedPrompt :: string
  prompt_role :: "UserRole option"
  createdAt :: "Date option"

record InsertPrompt =
  ins_userId :: "nat option"
  ins_originalPrompt :: string
  ins_enhancedPrompt :: string
  ins_prompt_role :: "UserRole option"

text \<open>\<open>x || 0\<close> on a nullable number, and \<open>x || null\<close> on an optional number or string.\<close>

definition orZero :: "nat option \<Rightarrow> nat" where
  "orZero x = (case x of None \<Rightarrow> 0 | Some n \<Rightarrow> n)"

definition numOrNull :: "nat option \<Rightarrow> nat option" where
  "numOrNull x = (case x of None \<Rightarrow> None | Some n \<Rightarrow> (if n = 0 then None else Some n))"

definition strOrNull :: "string option \<Rightarrow> string option" where
  "strOrNull x = (case x of None \<Rightarrow> None | Some s \<Rightarrow> (if s = [] then None else Some s))"

section \<open>MemStorage\<close>

text \<open>
  The two \<open>Map\<close>s keep insertion order, which \<open>Array.from(map.values())\<close> exposes, so
  they are association lists: \<open>Map.set\<close> is \<open>AList.update\<close> (in place for a
  present key, at the end for a new one), \<open>Map.get\<close> is \<open>map_of\<close>, \<open>Map.delete\<close> is
  \<open>AList.delete\<close>. A method that evaluates \<open>new Date()\<close> once takes the value as its
  argument \<open>now\<close>; the two queries that may evaluate it several times take a clock,
  the function from \<open>k\<close> to the value of the \<open>k\<close>-th evaluation (counted from 0).
  A method that throws returns \<open>Inl\<close>.
\<close>

type_synonym Clock = "nat \<Rightarrow> Date"

record MemStorage =
  users :: "(nat \<times> User) list"
  prompts :: "(nat \<times> Prompt) list"
  userIdCounter :: nat
  promptIdCounter :: nat

datatype error = UserNotFound

definition newMemStorage :: MemStorage where
  "newMemStorage = \<lparr>users = [], prompts = [], userIdCounter = 1, promptIdCounter = 1\<rparr>"

definition getUser :: "MemStorage \<Rightarrow> nat \<Rightarrow> User option" where
  "getUser s uid = map_of (users s) uid"

definition getUserByUsername :: "MemStorage \<Rightarrow> string \<Rightarrow> User option" where
  "getUserByUsername s name = find (\<lambda>u. username u = name) (map snd (users s))"

definition getUserByClerkId :: "MemStorage \<Rightarrow> string \<Rightarrow> User option" where
  "getUserByClerkId s cid = find (\<lambda>u. clerkId u = Some cid) (map snd (users s))"

definition createUser :: "Date \<Rightarrow> MemStorage \<Rightarrow> InsertUser \<Rightarrow> User \<times> MemStorage" where
  "createUser now s insertUser =
     (let uid = userIdCounter s;
          user = \<lparr>user_id = uid,
                  username = ins_username insertUser,
                  password = ins_password insertUser,
                  clerkId = strOrNull (ins_clerkId insertUser),
                  user_role = ins_role insertUser,
                  plan = (case ins_plan insertUser of None \<Rightarrow> Free | Some p \<Rightarrow> p),
                  promptsUsedToday = Some 0,
                  lastPromptDate = Some now,
                  user_createdAt = Some now\<rparr>
      in (user, s\<lparr>userIdCounter := uid + 1, users := AList.update uid user (users s)\<rparr>))"

definition updateUserRole :: "MemStorage \<Rightarrow> nat \<Rightarrow> UserRole \<Rightarrow> error + (User \<times> MemStorage)" where
  "updateUserRole s uid r =
     (case getUser s uid of
        None \<Rightarrow> Inl UserNotFound
      | Some user \<Rightarrow>
          (let updatedUser = user\<lparr>user_role := Some r\<rparr>
           in Inr (updatedUser, s\<lparr>users := AList.update uid updatedUser (users s)\<rparr>)))"

definition resetUserPromptUsage :: "Date \<Rightarrow> MemStorage \<Rightarrow> nat \<Rightarrow> error + MemStorage" where
  "resetUserPromptUsage now s uid =
     (case getUser s uid of
        None \<Rightarrow> Inl UserNotFound
      | Some user \<Rightarrow>
          (let updatedUser = user\<lparr>promptsUsedToday := Some 0, lastPromptDate := Some now\<rparr>
           in Inr (s\<lparr>users := AList.update uid updatedUser (users s)\<rparr>)))"

definition incrementUserPromptUsage :: "Date \<Rightarrow> MemStorage \<Rightarrow> nat \<Rightarrow> error + MemStorage" where
  "incrementUserPromptUsage now s uid =
     (case getUser s uid of
        None \<Rightarrow> Inl UserNotFound
      | Some user \<Rightarrow>
          (let updatedUser = user\<lparr>promptsUsedToday := Some (orZero (promptsUsedToday user) + 1),
                                  lastPromptDate := Some now\<rparr>
           in Inr (s\<lparr>users := AList.update uid updatedUser (users s)\<rparr>)))"

definition getPromptById :: "MemStorage \<Rightarrow> nat \<Rightarrow> Prompt option" where
  "getPromptById s pid = map_of (prompts s) pid"

text \<open>
  \<open>createdAt ? new Date(createdAt).getTime() : 0\<close>, the sort key of the history.
\<close>

definition createdTime :: "Prompt \<Rightarrow> int" where
  "createdTime p = (case createdAt p of None \<Rightarrow> 0 | Some d \<Rightarrow> getTime d)"

text \<open>
  \<open>rows.filter(prompt => promptDate >= cutoffDate)\<close> with
  \<open>promptDate = createdAt ? new Date(createdAt) : new Date()\<close>: the comparison is on
  the epoch milliseconds and is false for an invalid cutoff date. Every row without
  \<open>createdAt\<close> evaluates \<open>new Date()\<close> again; \<open>k\<close> is the number of evaluations made
  so far.
\<close>

definition notBefore :: "int option \<Rightarrow> Date \<Rightarrow> bool" where
  "notBefore cutoff d = (case cutoff of None \<Rightarrow> False | Some c \<Rightarrow> c \<le> getTime d)"

fun sinceCutoff :: "int option \<Rightarrow> Clock \<Rightarrow> nat \<Rightarrow> Prompt list \<Rightarrow> Prompt list" where
  "sinceCutoff cutoff clock k [] = []"
| "sinceCutoff cutoff clock k (p # ps) =
     (case createdAt p of
        Some d \<Rightarrow>
          (if notBefore cutoff d then p # sinceCutoff cutoff clock k ps
           else sinceCutoff cutoff clock k ps)
      | None \<Rightarrow>
          (if notBefore cutoff (clock k) then p # sinceCutoff cutoff clock (k + 1) ps
           else sinceCutoff cutoff clock (k + 1) ps))"

text \<open>
  \<open>Array.prototype.sort\<close> is stable; with the comparator \<open>dateB - dateA\<close> it orders by
  descending time, which is the stable insertion sort on the negated key.
  \<open>limitDays\<close> is optional, and \<open>if (limitDays)\<close> also skips the filter for 0. The
  cutoff is the first evaluation of \<open>new Date()\<close>, moved back by \<open>setDate\<close>.
\<close>

definition getPromptsByUserId :: "Clock \<Rightarrow> MemStorage \<Rightarrow> nat \<Rightarrow> nat option \<Rightarrow> Prompt list" where
  "getPromptsByUserId clock s uid limitDays =
     (let userPrompts = sort_key (\<lambda>p. - createdTime p)
                          (filter (\<lambda>p. userId p = Some uid) (map snd (prompts s)))
      in case limitDays of
           None \<Rightarrow> userPrompts
         | Some n \<Rightarrow>
             (if n = 0 then userPrompts
              else sinceCutoff (setDateBack (clock 0) n) clock 1 userPrompts))"

definition createPrompt :: "Date \<Rightarrow> MemStorage \<Rightarrow> InsertPrompt \<Rightarrow> Prompt \<times> MemStorage" where
  "createPrompt now s insertPrompt =
     (let pid = promptIdCounter s;
          prompt = \<lparr>prompt_id = pid,
                    userId = numOrNull (ins_userId insertPrompt),
                    originalPrompt = ins_originalPrompt insertPrompt,
                    enhancedPrompt = ins_enhancedPrompt insertPrompt,
                    prompt_role = ins_prompt_role insertPrompt,
                    createdAt = Some now\<rparr>
      in (prompt, s\<lparr>promptIdCounter := pid + 1, prompts := AList.update pid prompt (prompts s)\<rparr>))"

definition deletePrompt :: "MemStorage \<Rightarrow> nat \<Rightarrow> MemStorage" where
  "deletePrompt s pid = s\<lparr>prompts := AList.delete pid (prompts s)\<rparr>"

definition roleName :: "UserRole \<Rightarrow> string" where
  "roleName r = (case r of Writer \<Rightarrow> ''writer'' | Developer \<Rightarrow> ''developer''
                   | Designer \<Rightarrow> ''designer'' | Marketer \<Rightarrow> ''marketer'')"

text \<open>\<open>roleBreakdown[role] = (roleBreakdown[role] || 0) + 1\<close> on an object whose keys keep
  their insertion order.\<close>

definition bumpRole :: "(string \<times> nat) list \<Rightarrow> string \<Rightarrow> (string \<times> nat) list" where
  "bumpRole m k = AList.update k (orZero (map_of m k) + 1) m"

record UsageStats =
  totalPrompts :: nat
  lastWeekPrompts :: nat
  roleBreakdown :: "(string \<times> nat) list"

definition getUserUsageStats :: "Clock \<Rightarrow> MemStorage \<Rightarrow> nat \<Rightarrow> UsageStats" where
  "getUserUsageStats clock s uid =
     (let userPrompts = filter (\<lambda>p. userId p = Some uid) (map snd (prompts s))
      in \<lparr>totalPrompts = length userPrompts,
          lastWeekPrompts = length (sinceCutoff (setDateBack (clock 0) 7) clock 1 userPrompts),
          roleBreakdown = foldl (\<lambda>m p. bumpRole m (case prompt_role p of None \<Rightarrow> ''unknown''
                                                      | Some r \<Rightarrow> roleName r)) [] userPrompts\<rparr>)"

text \<open>
  The mutating methods of the storage interface as one datatype, and their effect on the
  store. A method that throws leaves the store as it was.
\<close>

datatype StorageOp =
    CreateUser InsertUser
  | UpdateUserRole nat UserRole
  | ResetUserPromptUsage nat
  | IncrementUserPromptUsage nat
  | CreatePrompt InsertPrompt
  | DeletePrompt nat

fun exec_op :: "Date \<Rightarrow> StorageOp \<Rightarrow> MemStorage \<Rightarrow> MemStorage" where
  "exec_op now (CreateUser iu) s = snd (createUser now s iu)"
| "exec_op now (UpdateUserRole uid r) s =
     (case updateUserRole s uid r of Inl e \<Rightarrow> s | Inr (u, s') \<Rightarrow> s')"
| "exec_op now (ResetUserPromptUsage uid) s =
     (case resetUserPromptUsage now s uid of Inl e \<Rightarrow> s | Inr s' \<Rightarrow> s')"
| "exec_op now (IncrementUserPromptUsage uid) s =
     (case incrementUserPromptUsage now s uid of Inl e \<Rightarrow> s | Inr s' \<Rightarrow> s')"
| "exec_op now (CreatePrompt ip) s = snd (createPrompt now s ip)"
| "exec_op now (DeletePrompt pid) s = deletePrompt s pid"

fun exec_ops :: "(Date \<times> StorageOp) list \<Rightarrow> MemStorage \<Rightarrow> MemStorage" where
  "exec_ops [] s = s"
| "exec_ops ((now, op) # rest) s = exec_ops rest (exec_op now op s)"

fun isDelete :: "StorageOp \<Rightarrow> bool" where
  "isDelete (DeletePrompt pid) = True"
| "isDelete _ = False"

text \<open>
  What the constructor establishes and every method keeps: the keys of a \<open>Map\<close> are
  distinct, each row is stored under its own id, and every id in use is below the
  counter that issues the next one.
\<close>

definition storage_inv :: "MemStorage \<Rightarrow> bool" where
  "storage_inv s \<longleftrightarrow>
     distinct (map fst (users s)) \<and>
     distinct (map fst (prompts s)) \<and>
     list_all (\<lambda>(k, u). user_id u = k \<and> k < userIdCounter s) (users s) \<and>
     list_all (\<lambda>(k, p). prompt_id p = k \<and> k < promptIdCounter s) (prompts s)"

section \<open>Routes\<close>

text \<open>
  A handler takes the store, the \<open>x-clerk-user-id\<close> header (absent, or its string), what
  \<open>schema.parse(req.body)\<close> returns (\<open>None\<close> when it throws) or what
  \<open>parseInt(req.params.id)\<close> returns (\<open>None\<close> for \<open>NaN\<close>), and the clock of the
  request: \<open>clock k\<close> is the value of the \<open>k\<close>-th evaluation of \<open>new Date()\<close> while the
  request is served (counted from 0), in the handler or in the storage methods it
  calls. It returns the response and the store afterwards. \<open>res.json\<close> without
  \<open>res.status\<close> answers 200. An exception inside \<open>try\<close> is answered by the \<open>catch\<close>
  block, and the store keeps what was written before the throw. A request is served
  from start to end before the next one.
\<close>

definition FREE_TIER_DAILY_LIMIT :: nat where
  "FREE_TIER_DAILY_LIMIT = 10"

definition isSameDay :: "Date \<Rightarrow> Date \<Rightarrow> bool" where
  "isSameDay date1 date2 \<longleftrightarrow>
     getFullYear date1 = getFullYear date2 \<and>
     getMonth date1 = getMonth date2 \<and>
     getDate date1 = getDate date2"

datatype ResBody =
    Message string
  | LimitReached string nat
  | UserJson User
  | Success
  | MeJson nat string Plan nat
  | EnhanceAnonymous string string
  | EnhanceSaved nat string string
  | SaveOk nat
  | PromptsJson "Prompt list"
  | PromptJson Prompt
  | StatsJson UsageStats Plan "nat option" nat

record Response =
  status :: nat
  body :: ResBody

definition respond :: "nat \<Rightarrow> ResBody \<Rightarrow> Response" where
  "respond code b = \<lparr>status = code, body = b\<rparr>"

text \<open>\<open>!clerkId\<close>: the header is missing or the empty string.\<close>

definition noClerkId :: "string option \<Rightarrow> bool" where
  "noClerkId h \<longleftrightarrow> (case h of None \<Rightarrow> True | Some c \<Rightarrow> c = [])"

definition headerValue :: "string option \<Rightarrow> string" where
  "headerValue h = (case h of None \<Rightarrow> [] | Some c \<Rightarrow> c)"

record ClerkBody =
  body_clerkId :: string
  body_email :: string

record OnboardingBody =
  body_userId :: string
  body_role :: UserRole

record PromptBody =
  body_originalPrompt :: string
  body_enhancedPrompt :: string
  body_prompt_role :: UserRole

definition post_users_clerk ::
  "Clock \<Rightarrow> MemStorage \<Rightarrow> ClerkBody option \<Rightarrow> Response \<times> MemStorage" where
  "post_users_clerk clock s parsed =
     (case parsed of
        None \<Rightarrow> (respond 400 (Message ''Invalid request''), s)
      | Some b \<Rightarrow>
          (case getUserByClerkId s (body_clerkId b) of
             Some user \<Rightarrow> (respond 200 (UserJson user), s)
           | None \<Rightarrow>
               (let (user, s') = createUser (clock 0) s
                      \<lparr>ins_username = body_email b, ins_password = [],
                       ins_clerkId = Some (body_clerkId b), ins_role = None,
                       ins_plan = Some Free\<rparr>
                in (respond 200 (UserJson user), s'))))"

definition post_users_onboarding ::
  "MemStorage \<Rightarrow> OnboardingBody option \<Rightarrow> Response \<times> MemStorage" where
  "post_users_onboarding s parsed =
     (case parsed of
        None \<Rightarrow> (respond 400 (Message ''Invalid request''), s)
      | Some b \<Rightarrow>
          (case getUserByClerkId s (body_userId b) of
             None \<Rightarrow> (respond 404 (Message ''User not found''), s)
           | Some user \<Rightarrow>
               (case updateUserRole s (user_id user) (body_role b) of
                  Inl e \<Rightarrow> (respond 400 (Message ''Invalid request''), s)
                | Inr (u, s') \<Rightarrow> (respond 200 Success, s'))))"

definition get_users_me :: "MemStorage \<Rightarrow> string option \<Rightarrow> Response \<times> MemStorage" where
  "get_users_me s hdr =
     (if noClerkId hdr then (respond 401 (Message ''Unauthorized''), s)
      else case getUserByClerkId s (headerValue hdr) of
             None \<Rightarrow> (respond 404 (Message ''User not found''), s)
           | Some user \<Rightarrow>
               (respond 200
                  (MeJson (user_id user)
                     (case user_role user of None \<Rightarrow> ''writer'' | Some r \<Rightarrow> roleName r)
                     (plan user) (orZero (promptsUsedToday user))), s))"

text \<open>
  The quota check of \<open>/api/prompts/enhance\<close>: for a free user, \<open>today\<close> is the first
  evaluation of \<open>new Date()\<close>; either the counter is reset (no last date, or a last
  date on another day; the reset stamps the row with the next evaluation), or the
  request is refused when the counter has reached the limit, or nothing happens.
  \<open>Proceed k s\<close> carries the number \<open>k\<close> of evaluations made and the store.
\<close>

datatype QuotaCheck = Proceed nat MemStorage | Refused | Thrown

definition checkDailyLimit :: "Clock \<Rightarrow> MemStorage \<Rightarrow> User \<Rightarrow> QuotaCheck" where
  "checkDailyLimit clock s user =
     (if plan user = Free then
        (let today = clock 0
         in if (case lastPromptDate user of None \<Rightarrow> True | Some d \<Rightarrow> \<not> isSameDay today d) then
              (case resetUserPromptUsage (clock 1) s (user_id user) of
                 Inl e \<Rightarrow> Thrown
               | Inr s' \<Rightarrow> Proceed 2 s')
            else if FREE_TIER_DAILY_LIMIT \<le> orZero (promptsUsedToday user) then Refused
            else Proceed 1 s)
      else Proceed 0 s)"

text \<open>
  After the check, \<open>incrementUserPromptUsage\<close> stamps the row with the next evaluation
  of \<open>new Date()\<close> and \<open>createPrompt\<close> stamps the prompt with the one after that.
\<close>

definition post_prompts_enhance ::
  "Clock \<Rightarrow> MemStorage \<Rightarrow> string option \<Rightarrow> PromptBody option \<Rightarrow> Response \<times> MemStorage" where
  "post_prompts_enhance clock s hdr parsed =
     (case parsed of
        None \<Rightarrow> (respond 400 (Message ''Invalid request''), s)
      | Some b \<Rightarrow>
          (if noClerkId hdr then
             (respond 200 (EnhanceAnonymous (body_originalPrompt b) (body_enhancedPrompt b)), s)
           else case getUserByClerkId s (headerValue hdr) of
             None \<Rightarrow> (respond 404 (Message ''User not found''), s)
           | Some user \<Rightarrow>
               (case checkDailyLimit clock s user of
                  Thrown \<Rightarrow> (respond 400 (Message ''Invalid request''), s)
                | Refused \<Rightarrow>
                    (respond 402 (LimitReached ''Free tier daily limit reached''
                                    FREE_TIER_DAILY_LIMIT), s)
                | Proceed k s1 \<Rightarrow>
                    (case incrementUserPromptUsage (clock k) s1 (user_id user) of
                       Inl e \<Rightarrow> (respond 400 (Message ''Invalid request''), s1)
                     | Inr s2 \<Rightarrow>
                         (let (prompt, s3) = createPrompt (clock (k + 1)) s2
                                \<lparr>ins_userId = Some (user_id user),
                                 ins_originalPrompt = body_originalPrompt b,
                                 ins_enhancedPrompt = body_enhancedPrompt b,
                                 ins_prompt_role = Some (body_prompt_role b)\<rparr>
                          in (respond 200 (EnhanceSaved (prompt_id prompt)
                                (body_originalPrompt b) (body_enhancedPrompt b)), s3))))))"

definition post_prompts_save ::
  "Clock \<Rightarrow> MemStorage \<Rightarrow> string option \<Rightarrow> PromptBody option \<Rightarrow> Response \<times> MemStorage" where
  "post_prompts_save clock s hdr parsed =
     (case parsed of
        None \<Rightarrow> (respond 400 (Message ''Invalid request''), s)
      | Some b \<Rightarrow>
          (if noClerkId hdr then (respond 401 (Message ''Unauthorized''), s)
           else case getUserByClerkId s (headerValue hdr) of
             None \<Rightarrow> (respond 404 (Message ''User not found''), s)
           | Some user \<Rightarrow>
               (let (prompt, s') = createPrompt (clock 0) s
                      \<lparr>ins_userId = Some (user_id user),
                       ins_originalPrompt = body_originalPrompt b,
                       ins_enhancedPrompt = body_enhancedPrompt b,
                       ins_prompt_role = Some (body_prompt_role b)\<rparr>
                in (respond 200 (SaveOk (prompt_id prompt)), s'))))"

definition get_prompts_history ::
  "Clock \<Rightarrow> MemStorage \<Rightarrow> string option \<Rightarrow> Response \<times> MemStorage" where
  "get_prompts_history clock s hdr =
     (if noClerkId hdr then (respond 401 (Message ''Unauthorized''), s)
      else case getUserByClerkId s (headerValue hdr) of
             None \<Rightarrow> (respond 404 (Message ''User not found''), s)
           | Some user \<Rightarrow>
               (let limitDays = (if plan user = Free then Some 7 else None)
                in (respond 200 (PromptsJson (getPromptsByUserId clock s (user_id user) limitDays)), s)))"

text \<open>
  \<open>Map.get\<close> with the parsed id: \<open>NaN\<close> and negative numbers are keys of no row.
\<close>

definition lookupPrompt :: "MemStorage \<Rightarrow> int option \<Rightarrow> Prompt option" where
  "lookupPrompt s promptId =
     (case promptId of
        None \<Rightarrow> None
      | Some i \<Rightarrow> (if i < 0 then None else getPromptById s (nat i)))"

definition ownedPrompt :: "MemStorage \<Rightarrow> User \<Rightarrow> int option \<Rightarrow> Prompt option" where
  "ownedPrompt s user promptId =
     (case lookupPrompt s promptId of
        None \<Rightarrow> None
      | Some p \<Rightarrow> (if userId p \<noteq> Some (user_id user) then None else Some p))"

definition get_prompt ::
  "MemStorage \<Rightarrow> string option \<Rightarrow> int option \<Rightarrow> Response \<times> MemStorage" where
  "get_prompt s hdr promptId =
     (if noClerkId hdr then (respond 401 (Message ''Unauthorized''), s)
      else case getUserByClerkId s (headerValue hdr) of
             None \<Rightarrow> (respond 404 (Message ''User not found''), s)
           | Some user \<Rightarrow>
               (case ownedPrompt s user promptId of
                  None \<Rightarrow> (respond 404 (Message ''Prompt not found''), s)
                | Some p \<Rightarrow> (respond 200 (PromptJson p), s)))"

definition delete_prompt ::
  "MemStorage \<Rightarrow> string option \<Rightarrow> int option \<Rightarrow> Response \<times> MemStorage" where
  "delete_prompt s hdr promptId =
     (if noClerkId hdr then (respond 401 (Message ''Unauthorized''), s)
      else case getUserByClerkId s (headerValue hdr) of
             None \<Rightarrow> (respond 404 (Message ''User not found''), s)
           | Some user \<Rightarrow>
               (case ownedPrompt s user promptId of
                  None \<Rightarrow> (respond 404 (Message ''Prompt not found''), s)
                | Some p \<Rightarrow>
                    (respond 200 Success,
                     deletePrompt s (case promptId of None \<Rightarrow> 0 | Some i \<Rightarrow> nat i))))"

definition get_stats_usage ::
  "Clock \<Rightarrow> MemStorage \<Rightarrow> string option \<Rightarrow> Response \<times> MemStorage" where
  "get_stats_usage clock s hdr =
     (if noClerkId hdr then (respond 401 (Message ''Unauthorized''), s)
      else case getUserByClerkId s (headerValue hdr) of
             None \<Rightarrow> (respond 404 (Message ''User not found''), s)
           | Some user \<Rightarrow>
               (respond 200
                  (StatsJson (getUserUsageStats clock s (user_id user)) (plan user)
                     (if plan user = Free then Some FREE_TIER_DAILY_LIMIT else None)
                     (orZero (promptsUsedToday user))), s))"

text \<open>The requests of the prompt and user API, and the dispatch to the handlers.\<close>

datatype Request =
    PostUsersClerk "ClerkBody option"
  | PostUsersOnboarding "OnboardingBody option"
  | GetUsersMe
  | PostPromptsEnhance "PromptBody option"
  | PostPromptsSave "PromptBody option"
  | GetPromptsHistory
  | GetPrompt "int option"
  | DeletePromptReq "int option"
  | GetStatsUsage

fun handle :: "Clock \<Rightarrow> MemStorage \<Rightarrow> string option \<Rightarrow> Request \<Rightarrow> Response \<times> MemStorage" where
  "handle clock s hdr (PostUsersClerk b) = post_users_clerk clock s b"
| "handle clock s hdr (PostUsersOnboarding b) = post_users_onboarding s b"
| "handle clock s hdr GetUsersMe = get_users_me s hdr"
| "handle clock s hdr (PostPromptsEnhance b) = post_prompts_enhance clock s hdr b"
| "handle clock s hdr (PostPromptsSave b) = post_prompts_save clock s hdr b"
| "handle clock s hdr GetPromptsHistory = get_prompts_history clock s hdr"
| "handle clock s hdr (GetPrompt i) = get_prompt s hdr i"
| "handle clock s hdr (DeletePromptReq i) = delete_prompt s hdr i"
| "handle clock s hdr GetStatsUsage = get_stats_usage clock s hdr"

text \<open>A sequence of requests, each with its clock and its header.\<close>

fun serve :: "(Clock \<times> string option \<times> Request) list \<Rightarrow> MemStorage \<Rightarrow> MemStorage" where
  "serve [] s = s"
| "serve ((clock, hdr, req) # rest) s = serve rest (snd (handle clock s hdr req))"

text \<open>
  A prompt id is \<open>gone\<close> from a store when no row has it and the counter has passed it,
  so that no later row can get it.
\<close>

definition gone :: "nat \<Rightarrow> MemStorage \<Rightarrow> bool" where
  "gone k s \<longleftrightarrow> storage_inv s \<and> k < promptIdCounter s \<and> getPromptById s k = None"

text \<open>
  Example values, for a server whose time zone is UTC: two dates at 10:00 on consecutive
  days, the last millisecond of the first day and the first millisecond of the second,
  a clock that stands still while a request is served and one that passes midnight
  after its first reading, a request body, and requests of a user who signs up with
  the Clerk id \<open>c1\<close>.
\<close>

definition utc :: "int \<Rightarrow> int \<Rightarrow> nat \<Rightarrow> nat \<Rightarrow> Date" where
  "utc t y mo d = \<lparr>getTime = t, getFullYear = y, getMonth = mo, getDate = d,
                    setDateBack = (\<lambda>n. Some (t - int n * 86400000))\<rparr>"

definition day1 :: Date where
  "day1 = utc 1735725600000 2025 0 1"

definition day2 :: Date where
  "day2 = utc 1735812000000 2025 0 2"

definition endOfDay1 :: Date where
  "endOfDay1 = utc 1735775999999 2025 0 1"

definition startOfDay2 :: Date where
  "startOfDay2 = utc 1735776000000 2025 0 2"

definition steady :: "Date \<Rightarrow> Clock" where
  "steady d = (\<lambda>k. d)"

definition acrossMidnight :: Clock where
  "acrossMidnight = (\<lambda>k. if k = 0 then endOfDay1 else startOfDay2)"

definition logoBody :: PromptBody where
  "logoBody = \<lparr>body_originalPrompt = ''a logo'', body_enhancedPrompt = ''a logo, in detail'',
               body_prompt_role = Designer\<rparr>"

definition signUp :: "Clock \<times> string option \<times> Request" where
  "signUp = (steady day1, None,
             PostUsersClerk (Some \<lparr>body_clerkId = ''c1'', body_email = ''a@b.co''\<rparr>))"

definition enhanceOnDay1 :: "Clock \<times> string option \<times> Request" where
  "enhanceOnDay1 = (steady day1, Some ''c1'', PostPromptsEnhance (Some logoBody))"

definition enhanceAcrossMidnight :: "Clock \<times> string option \<times> Request" where
  "enhanceAcrossMidnight = (acrossMidnight, Some ''c1'', PostPromptsEnhance (Some logoBody))"

definition saveOnDay1 :: "Clock \<times> string option \<times> Request" where
  "saveOnDay1 = (steady day1, Some ''c1'', PostPromptsSave (Some logoBody))"

definition logoInsert :: InsertPrompt where
  "logoInsert = \<lparr>ins_userId = Some 1, ins_originalPrompt = ''a logo'',
                  ins_enhancedPrompt = ''a logo, in detail'', ins_prompt_role = Some Designer\<rparr>"

definition logoPrompt :: Prompt where
  "logoPrompt = \<lparr>prompt_id = 1, userId = Some 1, originalPrompt = ''a logo'',
                  enhancedPrompt = ''a logo, in detail'', prompt_role = Some Designer,
                  createdAt = Some day1\<rparr>"

definition someUser :: InsertUser where
  "someUser = \<lparr>ins_username = ''a@b.co'', ins_password = [], ins_clerkId = Some ''c1'',
                ins_role = None, ins_plan = Some Free\<rparr>"

text \<open>
  The number of enhancements that a run of requests accepts for the user with the Clerk
  id \<open>c\<close>: the \<open>POST /api/prompts/enhance\<close> requests under that header answered 200.
\<close>

fun isEnhance :: "Request \<Rightarrow> bool" where
  "isEnhance (PostPromptsEnhance b) = True"
| "isEnhance _ = False"

fun acceptedEnhancements ::
  "string \<Rightarrow> (Clock \<times> string option \<times> Request) list \<Rightarrow> MemStorage \<Rightarrow> nat" where
  "acceptedEnhancements c [] s = 0"
| "acceptedEnhancements c ((clock, hdr, req) # rest) s =
     (if hdr = Some c \<and> isEnhance req \<and> status (fst (handle clock s hdr req)) = 200 then 1 else 0)
     + acceptedEnhancements c rest (snd (handle clock s hdr req))"

text \<open>
  What holds of the free-tier user \<open>c\<close> after \<open>n\<close> accepted enhancements on the day
  \<open>today\<close>: the counter is at least \<open>n\<close>, and once \<open>n\<close> is positive the last use was on
  that day.
\<close>

definition usedToday :: "string \<Rightarrow> Date \<Rightarrow> nat \<Rightarrow> MemStorage \<Rightarrow> bool" where
  "usedToday c today n s \<longleftrightarrow>
     storage_inv s \<and>
     (case getUserByClerkId s c of
        None \<Rightarrow> False
      | Some u \<Rightarrow>
          plan u = Free \<and> n \<le> orZero (promptsUsedToday u) \<and>
          (n = 0 \<or> (case lastPromptDate u of None \<Rightarrow> False | Some d \<Rightarrow> isSameDay today d)))"

section \<open>Strings and regular expressions of the JavaScript runtime\<close>

text \<open>
  A string is a list of characters; the characters are the code units below 256
  (ASCII and Latin-1), so texts with other characters are outside this development.
  The predicates below are the character classes of regular expressions restricted to
  these code units: \<open>\d\<close>, \<open>\w\<close>, \<open>\s\<close> (which is also what \<open>trim\<close> removes), the
  line terminators that \<open>.\<close> excludes, and the case folding of the \<open>i\<close> flag and of
  \<open>toLowerCase\<close>.
\<close>

definition isLineTerminator :: "char \<Rightarrow> bool" where
  "isLineTerminator c \<longleftrightarrow> c = CHR 0x0A \<or> c = CHR 0x0D"

definition isDigit :: "char \<Rightarrow> bool" where
  "isDigit c \<longleftrightarrow> c \<in> set ''0123456789''"

definition lowerLetters :: string where
  "lowerLetters = ''abcdefghijklmnopqrstuvwxyz''"

definition upperLetters :: string where
  "upperLetters = ''ABCDEFGHIJKLMNOPQRSTUVWXYZ''"

definition isWordChar :: "char \<Rightarrow> bool" where
  "isWordChar c \<longleftrightarrow> c \<in> set lowerLetters \<or> c \<in> set upperLetters \<or> isDigit c \<or> c = CHR ''_''"

definition isWhiteSpace :: "char \<Rightarrow> bool" where
  "isWhiteSpace c \<longleftrightarrow>
     c \<in> set [CHR 0x09, CHR 0x0A, CHR 0x0B, CHR 0x0C, CHR 0x0D, CHR 0x20, CHR 0xA0]"

definition lowerLatin1 :: string where
  "lowerLatin1 =
     [CHR 0xE0, CHR 0xE1, CHR 0xE2, CHR 0xE3, CHR 0xE4, CHR 0xE5, CHR 0xE6, CHR 0xE7,
      CHR 0xE8, CHR 0xE9, CHR 0xEA, CHR 0xEB, CHR 0xEC, CHR 0xED, CHR 0xEE, CHR 0xEF,
      CHR 0xF0, CHR 0xF1, CHR 0xF2, CHR 0xF3, CHR 0xF4, CHR 0xF5, CHR 0xF6,
      CHR 0xF8, CHR 0xF9, CHR 0xFA, CHR 0xFB, CHR 0xFC, CHR 0xFD, CHR 0xFE]"

definition upperLatin1 :: string where
  "upperLatin1 =
     [CHR 0xC0, CHR 0xC1, CHR 0xC2, CHR 0xC3, CHR 0xC4, CHR 0xC5, CHR 0xC6, CHR 0xC7,
      CHR 0xC8, CHR 0xC9, CHR 0xCA, CHR 0xCB, CHR 0xCC, CHR 0xCD, CHR 0xCE, CHR 0xCF,
      CHR 0xD0, CHR 0xD1, CHR 0xD2, CHR 0xD3, CHR 0xD4, CHR 0xD5, CHR 0xD6,
      CHR 0xD8, CHR 0xD9, CHR 0xDA, CHR 0xDB, CHR 0xDC, CHR 0xDD, CHR 0xDE]"

definition translate :: "string \<Rightarrow> string \<Rightarrow> char \<Rightarrow> char" where
  "translate from to c = (case map_of (zip from to) c of None \<Rightarrow> c | Some c' \<Rightarrow> c')"

definition canonicalize :: "char \<Rightarrow> char" where
  "canonicalize c = translate (lowerLetters @ lowerLatin1) (upperLetters @ upperLatin1) c"

definition toLowerCase :: "string \<Rightarrow> string" where
  "toLowerCase s = map (translate (upperLetters @ upperLatin1) (lowerLetters @ lowerLatin1)) s"

definition trim :: "string \<Rightarrow> string" where
  "trim s = rev (dropWhile isWhiteSpace (rev (dropWhile isWhiteSpace s)))"

fun startsWith :: "string \<Rightarrow> string \<Rightarrow> bool" where
  "startsWith s [] = True"
| "startsWith [] (k # ks) = False"
| "startsWith (c # cs) (k # ks) = (c = k \<and> startsWith cs ks)"

fun includesStr :: "string \<Rightarrow> string \<Rightarrow> bool" where
  "includesStr [] k = (k = [])"
| "includesStr (c # cs) k = (startsWith (c # cs) k \<or> includesStr cs k)"

fun join :: "string \<Rightarrow> string list \<Rightarrow> string" where
  "join sep [] = []"
| "join sep [x] = x"
| "join sep (x # y # ys) = x @ sep @ join sep (y # ys)"

text \<open>
  \<open>text.split(/\s+/)\<close>: the pieces between the maximal runs of white space; a run at
  the start or at the end leaves an empty piece there, and the empty text gives one
  empty piece. \<open>inSeparator\<close> says that the character before was white space; \<open>piece\<close>
  is the current piece, reversed.
\<close>

fun splitFrom :: "bool \<Rightarrow> string \<Rightarrow> string \<Rightarrow> string list" where
  "splitFrom inSeparator piece [] = [rev piece]"
| "splitFrom inSeparator piece (c # cs) =
     (if isWhiteSpace c then
        (if inSeparator then splitFrom True piece cs
         else rev piece # splitFrom True [] cs)
      else splitFrom False (c # piece) cs)"

definition splitWhiteSpace :: "string \<Rightarrow> string list" where
  "splitWhiteSpace text = splitFrom False [] text"

text \<open>
  The number of words that start in a text; \<open>inWord\<close> says that the character before
  belongs to a word. It is the number of non-empty pieces of \<open>splitWhiteSpace\<close>.
\<close>

fun wordStarts :: "bool \<Rightarrow> string \<Rightarrow> nat" where
  "wordStarts inWord [] = 0"
| "wordStarts inWord (c # cs) =
     (if isWhiteSpace c then wordStarts False cs
      else (if inWord then 0 else 1) + wordStarts True cs)"

text \<open>Decimal digits of a number, as \<open>String(n)\<close> gives them.\<close>

fun showNat :: "nat \<Rightarrow> string" where
  "showNat n = (if n < 10 then [''0123456789'' ! n] else showNat (n div 10) @ [''0123456789'' ! (n mod 10)])"

subsection \<open>Regular expressions\<close>

text \<open>
  The syntax of the regular expressions the code uses, and a backtracking matcher in
  the style of the language specification: a matcher takes a continuation and a
  position and returns the end of the first match in priority order (alternatives left
  to right, greedy repetition longest first, lazy repetition shortest first). A
  position is a cursor: the text before it, reversed, and the text after it.
  Capture groups do not influence where a pattern matches and are left out.
  \<open>Rep lo hi greedy r\<close> is \<open>r{lo,hi}\<close> (\<open>hi = None\<close> for no upper bound). After the
  \<open>lo\<close> mandatory iterations, an iteration that consumes nothing is rejected
  (\<open>progress\<close>), so an unbounded repetition makes at most as many further iterations
  as characters are left. A lookbehind is tried from every earlier position and must
  end at the current one.
\<close>

datatype cls_item = CDigit | CSpace | CWord | CChar char

datatype regex =
    Eps
  | Chr char
  | Dot
  | Cls bool "cls_item list"
  | Seq regex regex
  | Alt regex regex
  | Rep nat "nat option" bool regex
  | Bol
  | Eol
  | WordB
  | Look bool regex
  | LookBehind bool regex

record flags =
  ignoreCase :: bool
  multiline :: bool

fun itemMatches :: "bool \<Rightarrow> cls_item \<Rightarrow> char \<Rightarrow> bool" where
  "itemMatches ic CDigit x = isDigit x"
| "itemMatches ic CSpace x = isWhiteSpace x"
| "itemMatches ic CWord x = isWordChar x"
| "itemMatches ic (CChar c) x = (if ic then canonicalize c = canonicalize x else c = x)"

definition charMatches :: "bool \<Rightarrow> char \<Rightarrow> char \<Rightarrow> bool" where
  "charMatches ic c x = (if ic then canonicalize c = canonicalize x else c = x)"

type_synonym cursor = "string \<times> string"

type_synonym kont = "cursor \<Rightarrow> cursor option"

definition progress :: "nat \<Rightarrow> kont \<Rightarrow> kont" where
  "progress n k z = (if length (snd z) < n then k z else None)"

primrec rep :: "(kont \<Rightarrow> kont) \<Rightarrow> bool \<Rightarrow> nat \<Rightarrow> kont \<Rightarrow> kont" where
  "rep step greedy 0 k = k"
| "rep step greedy (Suc n) k =
     (\<lambda>z. if greedy then
            (case step (progress (length (snd z)) (rep step greedy n k)) z of
               Some e \<Rightarrow> Some e
             | None \<Rightarrow> k z)
          else
            (case k z of
               Some e \<Rightarrow> Some e
             | None \<Rightarrow> step (progress (length (snd z)) (rep step greedy n k)) z))"

primrec times :: "(kont \<Rightarrow> kont) \<Rightarrow> nat \<Rightarrow> kont \<Rightarrow> kont" where
  "times step 0 k = k"
| "times step (Suc n) k = step (times step n k)"

definition optional :: "(kont \<Rightarrow> kont) \<Rightarrow> bool \<Rightarrow> nat option \<Rightarrow> kont \<Rightarrow> kont" where
  "optional step greedy left k z =
     rep step greedy (case left of None \<Rightarrow> length (snd z) | Some n \<Rightarrow> n) k z"

definition backBy :: "nat \<Rightarrow> cursor \<Rightarrow> cursor" where
  "backBy n z = (drop n (fst z), rev (take n (fst z)) @ snd z)"

definition endsAt :: "cursor \<Rightarrow> kont" where
  "endsAt z z' = (if z' = z then Some z' else None)"

definition wordBefore :: "cursor \<Rightarrow> bool" where
  "wordBefore z = (case fst z of [] \<Rightarrow> False | x # xs \<Rightarrow> isWordChar x)"

definition wordAfter :: "cursor \<Rightarrow> bool" where
  "wordAfter z = (case snd z of [] \<Rightarrow> False | x # xs \<Rightarrow> isWordChar x)"

primrec m :: "flags \<Rightarrow> regex \<Rightarrow> kont \<Rightarrow> kont" where
  "m f Eps k = k"
| "m f (Chr c) k =
     (\<lambda>z. case snd z of [] \<Rightarrow> None
          | x # xs \<Rightarrow> if charMatches (ignoreCase f) c x then k (x # fst z, xs) else None)"
| "m f Dot k =
     (\<lambda>z. case snd z of [] \<Rightarrow> None
          | x # xs \<Rightarrow> if isLineTerminator x then None else k (x # fst z, xs))"
| "m f (Cls neg items) k =
     (\<lambda>z. case snd z of [] \<Rightarrow> None
          | x # xs \<Rightarrow> if list_ex (\<lambda>i. itemMatches (ignoreCase f) i x) items \<noteq> neg
                      then k (x # fst z, xs) else None)"
| "m f (Seq r1 r2) k = m f r1 (m f r2 k)"
| "m f (Alt r1 r2) k = (\<lambda>z. case m f r1 k z of Some e \<Rightarrow> Some e | None \<Rightarrow> m f r2 k z)"
| "m f (Rep lo hi greedy r) k =
     times (m f r) lo (optional (m f r) greedy (map_option (\<lambda>h. h - lo) hi) k)"
| "m f Bol k =
     (\<lambda>z. if (case fst z of [] \<Rightarrow> True | x # xs \<Rightarrow> multiline f \<and> isLineTerminator x)
          then k z else None)"
| "m f Eol k =
     (\<lambda>z. if (case snd z of [] \<Rightarrow> True | x # xs \<Rightarrow> multiline f \<and> isLineTerminator x)
          then k z else None)"
| "m f WordB k = (\<lambda>z. if wordBefore z \<noteq> wordAfter z then k z else None)"
| "m f (Look neg r) k = (\<lambda>z. if (m f r Some z = None) = neg then k z else None)"
| "m f (LookBehind neg r) k =
     (\<lambda>z. if list_ex (\<lambda>z0. m f r (endsAt z) z0 \<noteq> None)
                (map (\<lambda>n. backBy n z) [0..<Suc (length (fst z))]) \<noteq> neg
          then k z else None)"

lemma rep_code [code]:
  "rep step greedy 0 k z = k z"
  "rep step greedy (Suc n) k z =
     (if greedy then
        (case step (progress (length (snd z)) (rep step greedy n k)) z of
           Some e \<Rightarrow> Some e
         | None \<Rightarrow> k z)
      else
        (case k z of
           Some e \<Rightarrow> Some e
         | None \<Rightarrow> step (progress (length (snd z)) (rep step greedy n k)) z))"
  by simp_all

lemma times_code [code]:
  "times step 0 k z = k z"
  "times step (Suc n) k z = step (times step n k) z"
  by simp_all

lemma m_code [code]:
  "m f Eps k z = k z"
  "m f (Chr c) k z =
     (case snd z of [] \<Rightarrow> None
      | x # xs \<Rightarrow> if charMatches (ignoreCase f) c x then k (x # fst z, xs) else None)"
  "m f Dot k z =
     (case snd z of [] \<Rightarrow> None
      | x # xs \<Rightarrow> if isLineTerminator x then None else k (x # fst z, xs))"
  "m f (Cls neg items) k z =
     (case snd z of [] \<Rightarrow> None
      | x # xs \<Rightarrow> if list_ex (\<lambda>i. itemMatches (ignoreCase f) i x) items \<noteq> neg
                  then k (x # fst z, xs) else None)"
  "m f (Seq r1 r2) k z = m f r1 (m f r2 k) z"
  "m f (Alt r1 r2) k z = (case m f r1 k z of Some e \<Rightarrow> Some e | None \<Rightarrow> m f r2 k z)"
  "m f (Rep lo hi greedy r) k z =
     times (m f r) lo (optional (m f r) greedy (map_option (\<lambda>h. h - lo) hi) k) z"
  "m f Bol k z =
     (if (case fst z of [] \<Rightarrow> True | x # xs \<Rightarrow> multiline f \<and> isLineTerminator x)
      then k z else None)"
  "m f Eol k z =
     (if (case snd z of [] \<Rightarrow> True | x # xs \<Rightarrow> multiline f \<and> isLineTerminator x)
      then k z else None)"
  "m f WordB k z = (if wordBefore z \<noteq> wordAfter z then k z else None)"
  "m f (Look neg r) k z = (if (m f r Some z = None) = neg then k z else None)"
  "m f (LookBehind neg r) k z =
     (if list_ex (\<lambda>z0. m f r (endsAt z) z0 \<noteq> None)
           (map (\<lambda>n. backBy n z) [0..<Suc (length (fst z))]) \<noteq> neg
      then k z else None)"
  by simp_all

definition Str :: "string \<Rightarrow> regex" where
  "Str s = foldr (\<lambda>c r. Seq (Chr c) r) s Eps"

fun alts :: "regex list \<Rightarrow> regex" where
  "alts [] = Eps"
| "alts [r] = r"
| "alts (r # rs) = Alt r (alts rs)"

fun seqs :: "regex list \<Rightarrow> regex" where
  "seqs [] = Eps"
| "seqs [r] = r"
| "seqs (r # rs) = Seq r (seqs rs)"

definition words :: "string list \<Rightarrow> regex" where
  "words ws = alts (map Str ws)"


definition Opt :: "regex \<Rightarrow> regex" where
  "Opt r = Rep 0 (Some 1) True r"

definition Star :: "regex \<Rightarrow> regex" where
  "Star r = Rep 0 None True r"

definition Plus :: "regex \<Rightarrow> regex" where
  "Plus r = Rep 1 None True r"

definition LazyStar :: "regex \<Rightarrow> regex" where
  "LazyStar r = Rep 0 None False r"

definition digit :: regex where
  "digit = Cls False [CDigit]"

definition space :: regex where
  "space = Cls False [CSpace]"

definition wordChar :: regex where
  "wordChar = Cls False [CWord]"

definition notChar :: "char \<Rightarrow> regex" where
  "notChar c = Cls True [CChar c]"

definition boundedWords :: "string list \<Rightarrow> regex" where
  "boundedWords ws = seqs [WordB, words ws, WordB]"

text \<open>
  A \<open>RegExp\<close> object: its pattern and flags. \<open>searchFrom\<close> finds the leftmost match at
  or after a cursor and returns where it starts and ends. \<open>allMatches\<close> is the
  sequence of matches that \<open>String.prototype.match\<close> and \<open>matchAll\<close> with a global
  pattern, \<open>replace\<close>, and a \<open>while ((match = pattern.exec(text)) !== null)\<close> loop
  started at \<open>lastIndex = 0\<close> enumerate: each search resumes where the last match
  ended (one character further after an empty match; no pattern of the code matches
  the empty string).
\<close>

record RegExp =
  rx :: regex
  fl :: flags
  global :: bool

fun searchFrom :: "flags \<Rightarrow> regex \<Rightarrow> string \<Rightarrow> string \<Rightarrow> (cursor \<times> cursor) option" where
  "searchFrom f r b [] =
     (case m f r Some (b, []) of None \<Rightarrow> None | Some e \<Rightarrow> Some ((b, []), e))"
| "searchFrom f r b (x # xs) =
     (case m f r Some (b, x # xs) of
        Some e \<Rightarrow> Some ((b, x # xs), e)
      | None \<Rightarrow> searchFrom f r (x # b) xs)"

definition nextStart :: "cursor \<Rightarrow> cursor \<Rightarrow> cursor option" where
  "nextStart s e =
     (if e \<noteq> s then Some e
      else case snd e of [] \<Rightarrow> None | x # xs \<Rightarrow> Some (x # fst e, xs))"

function allMatches :: "flags \<Rightarrow> regex \<Rightarrow> string \<Rightarrow> string \<Rightarrow> (cursor \<times> cursor) list" where
  "allMatches f r b rest =
     (case searchFrom f r b rest of
        None \<Rightarrow> []
      | Some (s, e) \<Rightarrow>
          (s, e) # (case nextStart s e of
                      None \<Rightarrow> []
                    | Some z \<Rightarrow> if length (snd z) < length rest
                                then allMatches f r (fst z) (snd z) else []))"
  by pat_completeness auto
termination
  by (relation "measure (\<lambda>(f, r, b, rest). length rest)") auto

declare allMatches.simps [simp del]

definition matchCount :: "RegExp \<Rightarrow> string \<Rightarrow> nat" where
  "matchCount re text = length (allMatches (fl re) (rx re) [] text)"

definition test :: "RegExp \<Rightarrow> string \<Rightarrow> bool" where
  "test re text = (searchFrom (fl re) (rx re) [] text \<noteq> None)"

definition testFrom :: "RegExp \<Rightarrow> nat \<Rightarrow> string \<Rightarrow> bool \<times> nat" where
  "testFrom re lastIndex text =
     (if length text < lastIndex then (False, 0)
      else case searchFrom (fl re) (rx re) (rev (take lastIndex text)) (drop lastIndex text) of
             None \<Rightarrow> (False, 0)
           | Some (s, e) \<Rightarrow> (True, length (fst e)))"

text \<open>
  \<open>pattern.test(text)\<close>. Without the \<open>g\<close> flag the search starts at 0 and the
  object is not changed (\<open>test\<close>). With the \<open>g\<close> flag (\<open>testFrom\<close>) it starts at
  \<open>lastIndex\<close> and stores there the end of the match, or 0 when there is none.
\<close>

definition re_gi :: "regex \<Rightarrow> RegExp" where
  "re_gi r = \<lparr>rx = r, fl = \<lparr>ignoreCase = True, multiline = False\<rparr>, global = True\<rparr>"

definition re_gm :: "regex \<Rightarrow> RegExp" where
  "re_gm r = \<lparr>rx = r, fl = \<lparr>ignoreCase = False, multiline = True\<rparr>, global = True\<rparr>"

definition re_g :: "regex \<Rightarrow> RegExp" where
  "re_g r = \<lparr>rx = r, fl = \<lparr>ignoreCase = False, multiline = False\<rparr>, global = True\<rparr>"

definition re_i :: "regex \<Rightarrow> RegExp" where
  "re_i r = \<lparr>rx = r, fl = \<lparr>ignoreCase = True, multiline = False\<rparr>, global = False\<rparr>"

definition matchedText :: "cursor \<Rightarrow> cursor \<Rightarrow> string" where
  "matchedText s e = take (length (fst e) - length (fst s)) (snd s)"

section \<open>Patterns built at run time\<close>

text \<open>
  \<open>new RegExp(source, 'g')\<close> reads a text as a pattern. The syntax is the one of
  ECMAScript 2023 for a pattern without the \<open>u\<close> and \<open>v\<close> flags, with the additions
  for web browsers (Annex B) that every engine implements: a brace or a closing
  bracket that belongs to no quantifier or class stands for itself, an escaped
  character that is no escape stands for itself, and a backslash with digits is an
  octal escape when there are not that many groups. Such a pattern may have capture groups and back references, so the matcher
  for it carries the captures, and it matches backwards inside a lookbehind as the
  specification does. Groups opened with \<open>(?\<close> other than \<open>(?:\<close>, \<open>(?=\<close>, \<open>(?!\<close>,
  \<open>(?<=\<close> and \<open>(?<!\<close> (named groups, and the modifiers of later editions) are not
  modelled: \<open>compile\<close> answers \<open>NotModelled\<close> for them, and nothing is said about what
  the code does with them.

  A class item is a range of code units \<open>lo..hi\<close> or one of \<open>\d\<close>, \<open>\s\<close>, \<open>\w\<close> (its
  complement when the flag is set). \<open>PNever\<close> is a code unit above 255, which is no
  character of a text here. In \<open>PLook ahead negated r\<close>, \<open>ahead\<close> tells a lookahead
  from a lookbehind. Groups are numbered from 1 in the order of their opening
  parentheses.
\<close>

datatype class_item = Codes nat nat | DigitClass bool | SpaceClass bool | WordClass bool

datatype pattern =
    PEmpty
  | PChar char
  | PNever
  | PAny
  | PSet bool "class_item list"
  | PSeq pattern pattern
  | PAlt pattern pattern
  | PRep nat "nat option" bool pattern
  | PBol
  | PEol
  | PWordB bool
  | PLook bool bool pattern
  | PGroup nat pattern
  | PBackref nat

datatype group_kind = Capturing nat | NonCapturing | LookAhead bool | LookBehindGroup bool

datatype token =
    TAtom pattern
  | TAssertion pattern
  | TQuantifier nat "nat option" bool
  | TBar
  | TOpen group_kind
  | TClose
  | TSyntaxError
  | TNotModelled

subsection \<open>Reading the source text\<close>

definition decimalValue :: "string \<Rightarrow> nat" where
  "decimalValue ds =
     foldl (\<lambda>n c. 10 * n + (case map_of (zip ''0123456789'' [0..<10]) c of None \<Rightarrow> 0 | Some v \<Rightarrow> v))
       0 ds"

definition hexValue :: "char \<Rightarrow> nat option" where
  "hexValue c = map_of (zip ''0123456789abcdefABCDEF'' ([0..<16] @ [10..<16])) c"

definition isOctalDigit :: "char \<Rightarrow> bool" where
  "isOctalDigit c \<longleftrightarrow> c \<in> set ''01234567''"

definition isAsciiLetter :: "char \<Rightarrow> bool" where
  "isAsciiLetter c \<longleftrightarrow> c \<in> set lowerLetters \<or> c \<in> set upperLetters"

definition codeOf :: "char \<Rightarrow> nat" where
  "codeOf c = of_char c"

definition charPattern :: "nat \<Rightarrow> pattern" where
  "charPattern code = (if code < 256 then PChar (char_of code) else PNever)"

text \<open>
  A legacy octal escape, read at its first digit: up to three octal digits with a value
  below 256. The result is the value and the number of digits.
\<close>

definition octalEscape :: "string \<Rightarrow> nat \<times> nat" where
  "octalEscape cs =
     (case cs of
        [] \<Rightarrow> (0, 0)
      | a # r1 \<Rightarrow>
          (case r1 of
             [] \<Rightarrow> (decimalValue [a], 1)
           | b # r2 \<Rightarrow>
               (if \<not> isOctalDigit b then (decimalValue [a], 1)
                else if a \<in> set ''4567'' then (8 * decimalValue [a] + decimalValue [b], 2)
                else (case r2 of
                        [] \<Rightarrow> (8 * decimalValue [a] + decimalValue [b], 2)
                      | c # r3 \<Rightarrow>
                          (if isOctalDigit c
                           then (64 * decimalValue [a] + 8 * decimalValue [b] + decimalValue [c], 3)
                           else (8 * decimalValue [a] + decimalValue [b], 2))))))"

text \<open>
  A character escape, read after the backslash: a control escape, \<open>\cA\<close> to \<open>\cZ\<close>
  (inside a class also \<open>\c0\<close> to \<open>\c9\<close> and \<open>\c_\<close>), an octal escape, \<open>\xHH\<close>,
  \<open>\uHHHH\<close>, or the character itself. The result is the code unit and the number of
  characters read; \<open>None\<close> for \<open>\c\<close> before any other character, where the backslash
  stands for itself.
\<close>

definition characterEscape :: "bool \<Rightarrow> string \<Rightarrow> (nat \<times> nat) option" where
  "characterEscape inClass cs =
     (case cs of
        [] \<Rightarrow> None
      | d # ds \<Rightarrow>
          (if d = CHR ''f'' then Some (12, 1)
           else if d = CHR ''n'' then Some (10, 1)
           else if d = CHR ''r'' then Some (13, 1)
           else if d = CHR ''t'' then Some (9, 1)
           else if d = CHR ''v'' then Some (11, 1)
           else if d = CHR ''c'' then
             (case ds of
                [] \<Rightarrow> None
              | e # es \<Rightarrow>
                  (if isAsciiLetter e \<or> (inClass \<and> (isDigit e \<or> e = CHR ''_''))
                   then Some (codeOf e mod 32, 2) else None))
           else if isOctalDigit d then
             (let (v, n) = octalEscape (d # ds) in Some (v, n))
           else if d = CHR ''x'' then
             (case ds of
                h1 # h2 # es \<Rightarrow>
                  (case (hexValue h1, hexValue h2) of
                     (Some v1, Some v2) \<Rightarrow> Some (16 * v1 + v2, 3)
                   | _ \<Rightarrow> Some (codeOf d, 1))
              | _ \<Rightarrow> Some (codeOf d, 1))
           else if d = CHR ''u'' then
             (case ds of
                h1 # h2 # h3 # h4 # es \<Rightarrow>
                  (case (hexValue h1, hexValue h2, hexValue h3, hexValue h4) of
                     (Some v1, Some v2, Some v3, Some v4) \<Rightarrow>
                       Some (4096 * v1 + 256 * v2 + 16 * v3 + v4, 5)
                   | _ \<Rightarrow> Some (codeOf d, 1))
              | _ \<Rightarrow> Some (codeOf d, 1))
           else Some (codeOf d, 1)))"

definition classEscape :: "char \<Rightarrow> class_item option" where
  "classEscape d =
     (if d = CHR ''d'' then Some (DigitClass False)
      else if d = CHR ''D'' then Some (DigitClass True)
      else if d = CHR ''s'' then Some (SpaceClass False)
      else if d = CHR ''S'' then Some (SpaceClass True)
      else if d = CHR ''w'' then Some (WordClass False)
      else if d = CHR ''W'' then Some (WordClass True)
      else None)"

text \<open>
  An escape outside a class, read after the backslash; \<open>n\<close> is the number of groups
  of the whole pattern, which decides whether \<open>\1\<close> to \<open>\9...\<close> is a back reference.
  The result is the token and the number of characters it takes with its backslash.
\<close>

definition atomEscape :: "nat \<Rightarrow> string \<Rightarrow> token \<times> nat" where
  "atomEscape n cs =
     (case cs of
        [] \<Rightarrow> (TSyntaxError, 1)
      | d # ds \<Rightarrow>
          (if d = CHR ''b'' then (TAssertion (PWordB False), 2)
           else if d = CHR ''B'' then (TAssertion (PWordB True), 2)
           else case classEscape d of
             Some item \<Rightarrow> (TAtom (PSet False [item]), 2)
           | None \<Rightarrow>
               (let digits = takeWhile isDigit (d # ds)
                in if d \<in> set ''123456789'' \<and> decimalValue digits \<le> n
                   then (TAtom (PBackref (decimalValue digits)), 1 + length digits)
                   else case characterEscape False (d # ds) of
                          None \<Rightarrow> (TAtom (PChar (CHR 0x5C)), 1)
                        | Some (code, k) \<Rightarrow> (TAtom (charPattern code), 1 + k))))"

text \<open>
  A class, read after \<open>[\<close> and \<open>^\<close>. An atom of a class is a code unit or one of
  \<open>\d\<close>, \<open>\s\<close>, \<open>\w\<close> and their complements. \<open>a-b\<close> is a range when both ends are code
  units (an error when they are out of order), and the three items \<open>a\<close>, \<open>-\<close>, \<open>b\<close>
  otherwise. The state of the loop is the atom read last, if it can still start a
  range, and whether the dash has been read. The result is the items and the number
  of characters up to the closing bracket; \<open>None\<close> when the class is not closed or a
  range is out of order.
\<close>

datatype class_atom = ACode nat | AEscape class_item

datatype class_state = Fresh | Pending class_atom | Dashed class_atom

definition classAtomAt :: "string \<Rightarrow> class_atom \<times> nat" where
  "classAtomAt cs =
     (case cs of
        [] \<Rightarrow> (ACode 0, 0)
      | c # r \<Rightarrow>
          (if c \<noteq> CHR 0x5C then (ACode (codeOf c), 1)
           else case r of
             [] \<Rightarrow> (ACode (codeOf c), 1)
           | d # ds \<Rightarrow>
               (if d = CHR ''b'' then (ACode 8, 2)
                else case classEscape d of
                  Some item \<Rightarrow> (AEscape item, 2)
                | None \<Rightarrow>
                    (case characterEscape True (d # ds) of
                       None \<Rightarrow> (ACode (codeOf c), 1)
                     | Some (code, k) \<Rightarrow> (ACode code, 1 + k)))))"

definition itemOf :: "class_atom \<Rightarrow> class_item" where
  "itemOf a = (case a of ACode x \<Rightarrow> Codes x x | AEscape i \<Rightarrow> i)"

definition pendingItems :: "class_state \<Rightarrow> class_item list" where
  "pendingItems st =
     (case st of
        Fresh \<Rightarrow> []
      | Pending a \<Rightarrow> [itemOf a]
      | Dashed a \<Rightarrow> [itemOf a, Codes 45 45])"

fun classLoop :: "class_state \<Rightarrow> string \<Rightarrow> (class_item list \<times> nat) option" where
  "classLoop st [] = None"
| "classLoop st (c # cs) =
     (if c = CHR '']'' then Some (pendingItems st, 1)
      else
        (let (b, len) = classAtomAt (c # cs);
             rest = drop (len - 1) cs
         in case st of
              Fresh \<Rightarrow>
                map_option (\<lambda>(items, k). (items, len + k)) (classLoop (Pending b) rest)
            | Pending a \<Rightarrow>
                (if c = CHR ''-''
                 then map_option (\<lambda>(items, k). (items, len + k)) (classLoop (Dashed a) rest)
                 else map_option (\<lambda>(items, k). (itemOf a # items, len + k))
                        (classLoop (Pending b) rest))
            | Dashed a \<Rightarrow>
                (case (a, b) of
                   (ACode x, ACode y) \<Rightarrow>
                     (if y < x then None
                      else map_option (\<lambda>(items, k). (Codes x y # items, len + k))
                             (classLoop Fresh rest))
                 | _ \<Rightarrow>
                     map_option (\<lambda>(items, k). (itemOf a # Codes 45 45 # itemOf b # items, len + k))
                       (classLoop Fresh rest))))"

text \<open>
  A quantifier in braces, read after \<open>{\<close>: \<open>{n}\<close>, \<open>{n,}\<close> or \<open>{n,m}\<close>. The result is
  the bounds and the number of characters up to the closing brace.
\<close>

definition braceQuantifier :: "string \<Rightarrow> (nat \<times> nat option \<times> nat) option" where
  "braceQuantifier cs =
     (let ds1 = takeWhile isDigit cs; r1 = drop (length ds1) cs
      in if ds1 = [] then None
         else case r1 of
           [] \<Rightarrow> None
         | x # r2 \<Rightarrow>
             (if x = CHR ''}'' then
                Some (decimalValue ds1, Some (decimalValue ds1), length ds1 + 1)
              else if x = CHR '','' then
                (let ds2 = takeWhile isDigit r2; r3 = drop (length ds2) r2
                 in case r3 of
                      [] \<Rightarrow> None
                    | y # r4 \<Rightarrow>
                        (if y = CHR ''}'' then
                           Some (decimalValue ds1,
                                 (if ds2 = [] then None else Some (decimalValue ds2)),
                                 length ds1 + length ds2 + 2)
                         else None))
              else None))"

text \<open>
  A quantifier with its bounds, followed by \<open>?\<close> when it is lazy; \<open>k\<close> is the number
  of characters of the quantifier and \<open>rest\<close> the text after it.
\<close>

definition quantifier :: "nat \<Rightarrow> nat option \<Rightarrow> nat \<Rightarrow> string \<Rightarrow> token \<times> nat" where
  "quantifier lo hi k rest =
     (let lazy = (case rest of [] \<Rightarrow> False | x # xs \<Rightarrow> x = CHR ''?'');
          len = (if lazy then k + 1 else k)
      in if (case hi of None \<Rightarrow> False | Some h \<Rightarrow> h < lo) then (TSyntaxError, len)
         else (TQuantifier lo hi (\<not> lazy), len))"

text \<open>
  The token at the start of a text, and the number of characters it takes; \<open>n\<close> is
  the number of groups of the whole pattern and \<open>i\<close> the number of groups opened so
  far.
\<close>

definition tokenAt :: "nat \<Rightarrow> nat \<Rightarrow> string \<Rightarrow> token \<times> nat" where
  "tokenAt n i text =
     (case text of
        [] \<Rightarrow> (TSyntaxError, 0)
      | c # cs \<Rightarrow>
          (if c = CHR 0x5C then atomEscape n cs
           else if c = CHR ''('' then
             (case cs of
                [] \<Rightarrow> (TOpen (Capturing (i + 1)), 1)
              | q # r \<Rightarrow>
                  (if q \<noteq> CHR ''?'' then (TOpen (Capturing (i + 1)), 1)
                   else case r of
                     [] \<Rightarrow> (TNotModelled, 2)
                   | x # r2 \<Rightarrow>
                       (if x = CHR '':'' then (TOpen NonCapturing, 3)
                        else if x = CHR ''='' then (TOpen (LookAhead False), 3)
                        else if x = CHR ''!'' then (TOpen (LookAhead True), 3)
                        else if x = CHR ''<'' then
                          (case r2 of
                             [] \<Rightarrow> (TNotModelled, 3)
                           | y # r3 \<Rightarrow>
                               (if y = CHR ''='' then (TOpen (LookBehindGroup False), 4)
                                else if y = CHR ''!'' then (TOpen (LookBehindGroup True), 4)
                                else (TNotModelled, 3)))
                        else (TNotModelled, 2))))
           else if c = CHR '')'' then (TClose, 1)
           else if c = CHR ''|'' then (TBar, 1)
           else if c = CHR ''^'' then (TAssertion PBol, 1)
           else if c = CHR ''$'' then (TAssertion PEol, 1)
           else if c = CHR ''.'' then (TAtom PAny, 1)
           else if c = CHR ''*'' then quantifier 0 None 1 cs
           else if c = CHR ''+'' then quantifier 1 None 1 cs
           else if c = CHR ''?'' then quantifier 0 (Some 1) 1 cs
           else if c = CHR ''{'' then
             (case braceQuantifier cs of
                None \<Rightarrow> (TAtom (PChar c), 1)
              | Some (lo, hi, k) \<Rightarrow> quantifier lo hi (1 + k) (drop k cs))
           else if c = CHR ''['' then
             (let negated = (case cs of [] \<Rightarrow> False | x # xs \<Rightarrow> x = CHR ''^'');
                  inner = (if negated then drop 1 cs else cs)
              in case classLoop Fresh inner of
                   None \<Rightarrow> (TSyntaxError, 1 + length cs)
                 | Some (items, k) \<Rightarrow>
                     (TAtom (PSet negated items), (if negated then 2 else 1) + k))
           else (TAtom (PChar c), 1)))"

definition opensGroup :: "token \<Rightarrow> bool" where
  "opensGroup t = (case t of TOpen (Capturing j) \<Rightarrow> True | _ \<Rightarrow> False)"

fun tokens :: "nat \<Rightarrow> nat \<Rightarrow> string \<Rightarrow> token list" where
  "tokens n i [] = []"
| "tokens n i (c # cs) =
     (let (t, len) = tokenAt n i (c # cs)
      in t # tokens n (if opensGroup t then i + 1 else i) (drop (len - 1) cs))"

subsection \<open>Building the pattern\<close>

text \<open>
  The tokens are read from left to right with a stack of open groups. A frame holds
  the kind of its group, the alternatives that are complete and the terms of the
  current alternative (both newest first), and whether the newest term can take a
  quantifier: an atom, a group or a lookahead can, an assertion, a lookbehind and a
  quantified term cannot. \<open>None\<close> is a \<open>SyntaxError\<close>.
\<close>

type_synonym frame = "group_kind \<times> pattern list \<times> pattern list \<times> bool"

fun seqOf :: "pattern list \<Rightarrow> pattern" where
  "seqOf [] = PEmpty"
| "seqOf [p] = p"
| "seqOf (p # ps) = PSeq p (seqOf ps)"

fun altOf :: "pattern list \<Rightarrow> pattern" where
  "altOf [] = PEmpty"
| "altOf [p] = p"
| "altOf (p # ps) = PAlt p (altOf ps)"

definition wrap :: "group_kind \<Rightarrow> pattern \<Rightarrow> pattern" where
  "wrap kind p =
     (case kind of
        Capturing j \<Rightarrow> PGroup j p
      | NonCapturing \<Rightarrow> p
      | LookAhead negated \<Rightarrow> PLook True negated p
      | LookBehindGroup negated \<Rightarrow> PLook False negated p)"

definition closeFrame :: "frame \<Rightarrow> pattern" where
  "closeFrame f =
     (case f of (kind, branches, terms, canRepeat) \<Rightarrow>
        wrap kind (altOf (rev (seqOf (rev terms) # branches))))"

definition quantifiable :: "group_kind \<Rightarrow> bool" where
  "quantifiable kind = (case kind of LookBehindGroup negated \<Rightarrow> False | _ \<Rightarrow> True)"

fun parse :: "frame list \<Rightarrow> token list \<Rightarrow> pattern option" where
  "parse stack [] = (case stack of [f] \<Rightarrow> Some (closeFrame f) | _ \<Rightarrow> None)"
| "parse stack (t # ts) =
     (case stack of
        [] \<Rightarrow> None
      | (kind, branches, terms, canRepeat) # below \<Rightarrow>
          (case t of
             TAtom p \<Rightarrow> parse ((kind, branches, p # terms, True) # below) ts
           | TAssertion p \<Rightarrow> parse ((kind, branches, p # terms, False) # below) ts
           | TQuantifier lo hi greedy \<Rightarrow>
               (case terms of
                  [] \<Rightarrow> None
                | p # ps \<Rightarrow>
                    (if canRepeat
                     then parse ((kind, branches, PRep lo hi greedy p # ps, False) # below) ts
                     else None))
           | TBar \<Rightarrow> parse ((kind, seqOf (rev terms) # branches, [], False) # below) ts
           | TOpen kind' \<Rightarrow> parse ((kind', [], [], False) # stack) ts
           | TClose \<Rightarrow>
               (case below of
                  [] \<Rightarrow> None
                | (kind2, branches2, terms2, canRepeat2) # below2 \<Rightarrow>
                    parse ((kind2, branches2, closeFrame (kind, branches, terms, canRepeat) # terms2,
                            quantifiable kind) # below2) ts)
           | TSyntaxError \<Rightarrow> None
           | TNotModelled \<Rightarrow> None))"

text \<open>
  \<open>compile\<close>: the groups are counted first (with no back reference, which changes no
  parenthesis), then the text is read with that number.
\<close>

datatype compiled = Compiled pattern nat | SyntaxError | NotModelled

definition compile :: "string \<Rightarrow> compiled" where
  "compile source =
     (let n = length (filter opensGroup (tokens 0 0 source));
          ts = tokens n 0 source
      in if TNotModelled \<in> set ts then NotModelled
         else case parse [(NonCapturing, [], [], False)] ts of
                None \<Rightarrow> SyntaxError
              | Some p \<Rightarrow> Compiled p n)"

subsection \<open>Matching with captures\<close>

text \<open>
  The state of a match is the cursor and the captures: the text of each group, or
  \<open>None\<close> while it has none. A matcher takes the direction (forwards, or backwards
  inside a lookbehind), a continuation and a state. A group records the text between
  the position where it started and the position where it ended. An iteration of a
  repetition starts with the groups inside it cleared, and after the mandatory
  iterations one that does not move is rejected. A lookaround restores the position
  and, when it is positive, keeps the captures it made.
\<close>

type_synonym mstate = "cursor \<times> string option list"

type_synonym mkont = "mstate \<Rightarrow> mstate option"

fun itemHas :: "class_item \<Rightarrow> char \<Rightarrow> bool" where
  "itemHas (Codes lo hi) x = (lo \<le> codeOf x \<and> codeOf x \<le> hi)"
| "itemHas (DigitClass complement) x = (isDigit x \<noteq> complement)"
| "itemHas (SpaceClass complement) x = (isWhiteSpace x \<noteq> complement)"
| "itemHas (WordClass complement) x = (isWordChar x \<noteq> complement)"

definition stepChar :: "bool \<Rightarrow> (char \<Rightarrow> bool) \<Rightarrow> mkont \<Rightarrow> mkont" where
  "stepChar forwards ok k st =
     (if forwards then
        (case snd (fst st) of
           [] \<Rightarrow> None
         | x # xs \<Rightarrow> if ok x then k ((x # fst (fst st), xs), snd st) else None)
      else
        (case fst (fst st) of
           [] \<Rightarrow> None
         | x # xs \<Rightarrow> if ok x then k ((xs, x # snd (fst st)), snd st) else None))"

definition between :: "bool \<Rightarrow> cursor \<Rightarrow> cursor \<Rightarrow> string" where
  "between forwards z z' =
     (if forwards then take (length (snd z) - length (snd z')) (snd z)
      else take (length (snd z') - length (snd z)) (snd z'))"

definition capture :: "nat \<Rightarrow> bool \<Rightarrow> mstate \<Rightarrow> mkont \<Rightarrow> mkont" where
  "capture j forwards st k st' =
     k (fst st', (snd st')[j - 1 := Some (between forwards (fst st) (fst st'))])"

definition backReference :: "nat \<Rightarrow> bool \<Rightarrow> mkont \<Rightarrow> mkont" where
  "backReference j forwards k st =
     (if j = 0 \<or> length (snd st) < j then k st
      else case snd st ! (j - 1) of
        None \<Rightarrow> k st
      | Some s \<Rightarrow>
          (if forwards then
             (if startsWith (snd (fst st)) s
              then k ((rev s @ fst (fst st), drop (length s) (snd (fst st))), snd st)
              else None)
           else
             (if startsWith (fst (fst st)) (rev s)
              then k ((drop (length s) (fst (fst st)), s @ snd (fst st)), snd st)
              else None)))"

primrec groupsIn :: "pattern \<Rightarrow> nat list" where
  "groupsIn PEmpty = []"
| "groupsIn (PChar c) = []"
| "groupsIn PNever = []"
| "groupsIn PAny = []"
| "groupsIn (PSet negated items) = []"
| "groupsIn (PSeq a b) = groupsIn a @ groupsIn b"
| "groupsIn (PAlt a b) = groupsIn a @ groupsIn b"
| "groupsIn (PRep lo hi greedy r) = groupsIn r"
| "groupsIn PBol = []"
| "groupsIn PEol = []"
| "groupsIn (PWordB negated) = []"
| "groupsIn (PLook ahead negated r) = groupsIn r"
| "groupsIn (PGroup j r) = j # groupsIn r"
| "groupsIn (PBackref j) = []"

definition clearGroups :: "nat list \<Rightarrow> mstate \<Rightarrow> mstate" where
  "clearGroups js st = (fst st, foldr (\<lambda>j caps. caps[j - 1 := None]) js (snd st))"

definition position :: "mstate \<Rightarrow> nat" where
  "position st = length (fst (fst st))"

definition moved :: "nat \<Rightarrow> mkont \<Rightarrow> mkont" where
  "moved from k st = (if position st \<noteq> from then k st else None)"

primrec upTo :: "(mkont \<Rightarrow> mkont) \<Rightarrow> bool \<Rightarrow> nat \<Rightarrow> mkont \<Rightarrow> mkont" where
  "upTo iteration greedy 0 k = k"
| "upTo iteration greedy (Suc n) k =
     (\<lambda>st. if greedy then
             (case iteration (moved (position st) (upTo iteration greedy n k)) st of
                Some e \<Rightarrow> Some e
              | None \<Rightarrow> k st)
           else
             (case k st of
                Some e \<Rightarrow> Some e
              | None \<Rightarrow> iteration (moved (position st) (upTo iteration greedy n k)) st))"

primrec exactly :: "(mkont \<Rightarrow> mkont) \<Rightarrow> nat \<Rightarrow> mkont \<Rightarrow> mkont" where
  "exactly iteration 0 k = k"
| "exactly iteration (Suc n) k = iteration (exactly iteration n k)"

text \<open>
  The iterations that may follow the mandatory ones: as many as the bound allows, and
  for no bound as many as characters are left in the direction of the match, since
  each of them has to move.
\<close>

definition further :: "bool \<Rightarrow> nat option \<Rightarrow> mstate \<Rightarrow> nat" where
  "further forwards left st =
     (case left of
        Some n \<Rightarrow> n
      | None \<Rightarrow> if forwards then length (snd (fst st)) else length (fst (fst st)))"

primrec pm :: "pattern \<Rightarrow> bool \<Rightarrow> mkont \<Rightarrow> mkont" where
  "pm PEmpty forwards k = k"
| "pm (PChar c) forwards k = stepChar forwards (\<lambda>x. x = c) k"
| "pm PNever forwards k = (\<lambda>st. None)"
| "pm PAny forwards k = stepChar forwards (\<lambda>x. \<not> isLineTerminator x) k"
| "pm (PSet negated items) forwards k =
     stepChar forwards (\<lambda>x. list_ex (\<lambda>i. itemHas i x) items \<noteq> negated) k"
| "pm (PSeq a b) forwards k =
     (if forwards then pm a forwards (pm b forwards k) else pm b forwards (pm a forwards k))"
| "pm (PAlt a b) forwards k =
     (\<lambda>st. case pm a forwards k st of Some e \<Rightarrow> Some e | None \<Rightarrow> pm b forwards k st)"
| "pm (PRep lo hi greedy r) forwards k =
     exactly (\<lambda>k' st. pm r forwards k' (clearGroups (groupsIn r) st)) lo
       (\<lambda>st. upTo (\<lambda>k' st'. pm r forwards k' (clearGroups (groupsIn r) st')) greedy
               (further forwards (map_option (\<lambda>h. h - lo) hi) st) k st)"
| "pm PBol forwards k = (\<lambda>st. if fst (fst st) = [] then k st else None)"
| "pm PEol forwards k = (\<lambda>st. if snd (fst st) = [] then k st else None)"
| "pm (PWordB negated) forwards k =
     (\<lambda>st. if (wordBefore (fst st) \<noteq> wordAfter (fst st)) \<noteq> negated then k st else None)"
| "pm (PLook ahead negated r) forwards k =
     (\<lambda>st. case pm r ahead Some st of
             None \<Rightarrow> if negated then k st else None
           | Some e \<Rightarrow> if negated then None else k (fst st, snd e))"
| "pm (PGroup j r) forwards k = (\<lambda>st. pm r forwards (capture j forwards st k) st)"
| "pm (PBackref j) forwards k = backReference j forwards k"

lemma upTo_code [code]:
  "upTo iteration greedy 0 k st = k st"
  "upTo iteration greedy (Suc n) k st =
     (if greedy then
        (case iteration (moved (position st) (upTo iteration greedy n k)) st of
           Some e \<Rightarrow> Some e
         | None \<Rightarrow> k st)
      else
        (case k st of
           Some e \<Rightarrow> Some e
         | None \<Rightarrow> iteration (moved (position st) (upTo iteration greedy n k)) st))"
  by simp_all

lemma exactly_code [code]:
  "exactly iteration 0 k st = k st"
  "exactly iteration (Suc n) k st = iteration (exactly iteration n k) st"
  by simp_all

lemma pm_code [code]:
  "pm PEmpty forwards k st = k st"
  "pm (PChar c) forwards k st = stepChar forwards (\<lambda>x. x = c) k st"
  "pm PNever forwards k st = None"
  "pm PAny forwards k st = stepChar forwards (\<lambda>x. \<not> isLineTerminator x) k st"
  "pm (PSet negated items) forwards k st =
     stepChar forwards (\<lambda>x. list_ex (\<lambda>i. itemHas i x) items \<noteq> negated) k st"
  "pm (PSeq a b) forwards k st =
     (if forwards then pm a forwards (pm b forwards k) st else pm b forwards (pm a forwards k) st)"
  "pm (PAlt a b) forwards k st =
     (case pm a forwards k st of Some e \<Rightarrow> Some e | None \<Rightarrow> pm b forwards k st)"
  "pm (PRep lo hi greedy r) forwards k st =
     exactly (\<lambda>k' st. pm r forwards k' (clearGroups (groupsIn r) st)) lo
       (\<lambda>st. upTo (\<lambda>k' st'. pm r forwards k' (clearGroups (groupsIn r) st')) greedy
               (further forwards (map_option (\<lambda>h. h - lo) hi) st) k st) st"
  "pm PBol forwards k st = (if fst (fst st) = [] then k st else None)"
  "pm PEol forwards k st = (if snd (fst st) = [] then k st else None)"
  "pm (PWordB negated) forwards k st =
     (if (wordBefore (fst st) \<noteq> wordAfter (fst st)) \<noteq> negated then k st else None)"
  "pm (PLook ahead negated r) forwards k st =
     (case pm r ahead Some st of
        None \<Rightarrow> if negated then k st else None
      | Some e \<Rightarrow> if negated then None else k (fst st, snd e))"
  "pm (PGroup j r) forwards k st = pm r forwards (capture j forwards st k) st"
  "pm (PBackref j) forwards k st = backReference j forwards k st"
  by simp_all

subsection \<open>Searching and replacing\<close>

text \<open>
  \<open>searchAt\<close> finds the leftmost match at or after a cursor, for a pattern with \<open>n\<close>
  groups, and returns where it starts and the state at its end.
\<close>

fun searchAt :: "pattern \<Rightarrow> nat \<Rightarrow> string \<Rightarrow> string \<Rightarrow> (cursor \<times> mstate) option" where
  "searchAt p n b [] =
     (case pm p True Some ((b, []), replicate n None) of
        None \<Rightarrow> None
      | Some e \<Rightarrow> Some ((b, []), e))"
| "searchAt p n b (x # xs) =
     (case pm p True Some ((b, x # xs), replicate n None) of
        Some e \<Rightarrow> Some ((b, x # xs), e)
      | None \<Rightarrow> searchAt p n (x # b) xs)"

text \<open>
  \<open>GetSubstitution\<close>: in the replacement text, \<open>$$\<close> is a dollar sign, \<open>$&\<close> the
  matched text, \<open>$`\<close> the text before the match, \<open>$'\<close> the text after it, and \<open>$n\<close>
  or \<open>$nn\<close> the text of the group with that number (empty when the group has none);
  two digits that exceed the number of groups are read as one digit and a character.
  A reference to no group, \<open>$<\<close> (there are no named groups) and a dollar sign before
  anything else stand for themselves.
\<close>

definition groupRef :: "string option list \<Rightarrow> nat \<Rightarrow> string \<Rightarrow> string" where
  "groupRef captures j literal =
     (if 1 \<le> j \<and> j \<le> length captures
      then (case captures ! (j - 1) of None \<Rightarrow> [] | Some s \<Rightarrow> s)
      else literal)"

fun getSubstitution :: "string \<Rightarrow> string \<Rightarrow> string \<Rightarrow> string option list \<Rightarrow> string \<Rightarrow> string" where
  "getSubstitution matched leftText rightText captures [] = []"
| "getSubstitution matched leftText rightText captures [c] = [c]"
| "getSubstitution matched leftText rightText captures (c # d # rest) =
     (if c \<noteq> CHR ''$'' then c # getSubstitution matched leftText rightText captures (d # rest)
      else if d = CHR ''$'' then CHR ''$'' # getSubstitution matched leftText rightText captures rest
      else if d = CHR ''&'' then matched @ getSubstitution matched leftText rightText captures rest
      else if d = CHR 0x60 then leftText @ getSubstitution matched leftText rightText captures rest
      else if d = CHR 0x27 then rightText @ getSubstitution matched leftText rightText captures rest
      else if isDigit d then
        (case rest of
           [] \<Rightarrow> groupRef captures (decimalValue [d]) [c, d]
         | e # rest' \<Rightarrow>
             (if isDigit e \<and> decimalValue [d, e] \<le> length captures
              then groupRef captures (decimalValue [d, e]) [c, d, e]
                   @ getSubstitution matched leftText rightText captures rest'
              else groupRef captures (decimalValue [d]) [c, d]
                   @ getSubstitution matched leftText rightText captures (e # rest')))
      else c # getSubstitution matched leftText rightText captures (d # rest))"

text \<open>
  \<open>text.replace(pattern, replacement)\<close> with a global pattern and a replacement string:
  every match from left to right is replaced, each search resuming where the last
  match ended (one character further after an empty match).
\<close>

function replaceFrom :: "pattern \<Rightarrow> nat \<Rightarrow> string \<Rightarrow> string \<Rightarrow> string \<Rightarrow> string" where
  "replaceFrom p n replacement b rest =
     (case searchAt p n b rest of
        None \<Rightarrow> rest
      | Some (s, e) \<Rightarrow>
          take (length (fst s) - length b) rest @
          getSubstitution (matchedText s (fst e)) (rev (fst s)) (snd (fst e)) (snd e) replacement @
          (case nextStart s (fst e) of
             None \<Rightarrow> snd (fst e)
           | Some z \<Rightarrow>
               take (length (fst z) - length (fst (fst e))) (snd (fst e)) @
               (if length (snd z) < length rest
                then replaceFrom p n replacement (fst z) (snd z) else snd z)))"
  by pat_completeness auto
termination
  by (relation "measure (\<lambda>(p, n, replacement, b, rest). length rest)") auto

declare replaceFrom.simps [simp del]

definition replace :: "pattern \<Rightarrow> nat \<Rightarrow> string \<Rightarrow> string \<Rightarrow> string" where
  "replace p n replacement text = replaceFrom p n replacement [] text"

section \<open>Prompt quality analyzer\<close>

datatype QualityIssueType =
  Clarity | Specificity | Context | Structure | Completeness | Tone | Technical

datatype Severity = Low | Medium | High

record QualityIssue =
  issue_type :: QualityIssueType
  severity :: Severity
  explanation :: string
  suggestion :: string

record PromptQualityFeedback =
  score :: int
  issues :: "QualityIssue list"
  strengths :: "string list"
  overallFeedback :: string

text \<open>
  The patterns of \<open>qualityPatterns\<close> that the analyzer uses (the \<open>tone\<close> and
  \<open>technical\<close> groups are used nowhere). In the class \<open>[\<dots>]\<close> of currency signs only
  the pound and the yen sign are code units below 256. The \<open>goals\<close>, \<open>constraints\<close> and
  \<open>audience\<close> arrays hold one pattern each.
\<close>

definition clarity_vague :: "RegExp list" where
  "clarity_vague =
     [re_gi (seqs [WordB, alts [Str ''something'', Str ''somehow'', Str ''thing'', Str ''stuff'',
                             Seq (Str ''etc'') (Opt (Chr CHR ''.''))], WordB]),
      re_gi (seqs [WordB, words [''good'', ''nice'', ''great'', ''better'', ''best'', ''awesome'',
                              ''amazing''], WordB, Look True (Str '' practice'')]),
      re_gi (seqs [WordB, words [''many'', ''multiple'', ''various'', ''several'', ''few'', ''some''],
                WordB, Look True (Str '' of'')])]"

definition clarity_ambiguous :: "RegExp list" where
  "clarity_ambiguous =
     [re_gi (seqs [WordB, words [''it'', ''they'', ''them'', ''those'', ''these'', ''this'', ''that''],
                WordB, Look True (words ['' is'', '' are'', '' were'', '' was''])]),
      re_gi (seqs [WordB, words [''he'', ''she'', ''his'', ''her'', ''their'', ''its''],
                WordB, Look True (words ['' is'', '' are'', '' were'', '' was''])])]"

definition specificity_lacking :: "RegExp list" where
  "specificity_lacking =
     [re_gi (seqs [LookBehind True digit, WordB,
                words [''large'', ''small'', ''big'', ''tiny'', ''huge'', ''enormous''], WordB]),
      re_gi (boundedWords [''quickly'', ''slowly'', ''fast'', ''rapid'', ''soon'', ''recent'']),
      re_gi (boundedWords [''often'', ''sometimes'', ''frequently'', ''occasionally'', ''rarely''])]"

definition specificity_measures :: "RegExp list" where
  "specificity_measures =
     [re_gi (seqs [Plus digit, Star space,
                words [''%'', ''percent'', ''px'', ''em'', ''rem'', ''seconds'', ''minutes'', ''hours'',
                       ''days'', ''weeks'', ''months'', ''years'']]),
      re_gi (alts [Seq (Chr CHR ''$'') (Plus digit),
                Seq (Cls False [CChar (CHR 0xA3), CChar (CHR 0xA5)]) (Plus digit),
                seqs [Plus digit, Plus space, words [''dollars'', ''euros'', ''pounds'', ''yen'']]]),
      re_gi (seqs [WordB, Plus digit, Star space, words [''kb'', ''mb'', ''gb'', ''tb''], WordB])]"

definition context_missing :: "RegExp list" where
  "context_missing =
     [re_i (seqs [Bol,
                   Look True (seqs [LazyStar Dot, WordB,
                      words [''for'', ''to use in'', ''context'', ''background'', ''situation'',
                             ''scenario'', ''setting'', ''environment''], WordB]),
                   Rep 0 (Some 50) True Dot, Eol])]"

definition context_defined :: "RegExp list" where
  "context_defined =
     [re_i (seqs [WordB, words [''for'', ''to use in''], space,
                   Rep 5 (Some 50) True (notChar CHR ''.''), Look False (Alt (Chr CHR ''.'') Eol)]),
      re_i (seqs [WordB, words [''context'', ''background'', ''situation'', ''scenario''],
                   Star space, Chr CHR '':'', Star space,
                   Rep 5 (Some 100) True (notChar CHR ''.''), Look False (Alt (Chr CHR ''.'') Eol)])]"

definition structure_sections :: "RegExp list" where
  "structure_sections =
     [re_gi (seqs [WordB, words [''section'', ''part'', ''chapter'', ''segment'', ''module'',
                              ''component'', ''phase'', ''step''], Star space, Plus digit, WordB]),
      re_gm (seqs [WordB, Plus digit, Chr CHR ''.'', Plus space, Plus wordChar]),
      re_gi (boundedWords [''firstly'', ''secondly'', ''thirdly'', ''finally'', ''subsequently'',
                        ''moreover'', ''furthermore''])]"

definition structure_formatting :: "RegExp list" where
  "structure_formatting =
     [re_gm (seqs [Chr CHR ''-'', Plus space, Plus wordChar]),
      re_gm (seqs [Chr CHR ''*'', Plus space, Plus wordChar]),
      re_gm (seqs [Plus digit, Chr CHR ''.'', Plus space, Plus wordChar])]"

definition completeness_goals :: RegExp where
  "completeness_goals =
     re_gi (boundedWords [''goal'', ''objective'', ''aim'', ''purpose'', ''target'', ''intention'',
                       ''outcome''])"

definition completeness_constraints :: RegExp where
  "completeness_constraints =
     re_gi (boundedWords [''constraint'', ''limitation'', ''restriction'', ''boundary'',
                       ''requirement'', ''must not'', ''should not'', ''avoid''])"

definition completeness_audience :: RegExp where
  "completeness_audience =
     re_gi (boundedWords [''audience'', ''reader'', ''viewer'', ''user'', ''customer'', ''client'',
                       ''target market'', ''demographic''])"


text \<open>
  The three completeness patterns carry the \<open>g\<close> flag and are module-level objects
  that the analyzer calls \<open>test\<close> on: what they remember between calls, \<open>lastIndex\<close>,
  is the state of the analyzer. Every other pattern is either used through
  \<open>String.prototype.match\<close>, \<open>matchAll\<close> or an \<open>exec\<close> loop run to its end, which leave
  \<open>lastIndex\<close> at 0, or has no \<open>g\<close> flag.
\<close>

record RegexState =
  goalsLastIndex :: nat
  constraintsLastIndex :: nat
  audienceLastIndex :: nat

definition initialRegexState :: RegexState where
  "initialRegexState = \<lparr>goalsLastIndex = 0, constraintsLastIndex = 0, audienceLastIndex = 0\<rparr>"

definition testGoals :: "RegexState \<Rightarrow> string \<Rightarrow> bool \<times> RegexState" where
  "testGoals st text =
     (let (found, idx) = testFrom completeness_goals (goalsLastIndex st) text
      in (found, st\<lparr>goalsLastIndex := idx\<rparr>))"

definition testConstraints :: "RegexState \<Rightarrow> string \<Rightarrow> bool \<times> RegexState" where
  "testConstraints st text =
     (let (found, idx) = testFrom completeness_constraints (constraintsLastIndex st) text
      in (found, st\<lparr>constraintsLastIndex := idx\<rparr>))"

definition testAudience :: "RegexState \<Rightarrow> string \<Rightarrow> bool \<times> RegexState" where
  "testAudience st text =
     (let (found, idx) = testFrom completeness_audience (audienceLastIndex st) text
      in (found, st\<lparr>audienceLastIndex := idx\<rparr>))"

text \<open>\<open>patterns.some(pattern => pattern.test(text))\<close> for patterns without the \<open>g\<close> flag.\<close>

definition someTest :: "RegExp list \<Rightarrow> string \<Rightarrow> bool" where
  "someTest patterns text = list_ex (\<lambda>p. test p text) patterns"

definition countAll :: "RegExp list \<Rightarrow> string \<Rightarrow> nat" where
  "countAll patterns text = sum_list (map (\<lambda>p. matchCount p text) patterns)"

text \<open>
  Numbers are IEEE doubles in the code. Here they are rationals: products and sums are
  exact, and \<open>Math.round\<close> rounds halves up.
\<close>

definition mathRound :: "rat \<Rightarrow> int" where
  "mathRound x = \<lfloor>x + 1 / 2\<rfloor>"

definition calculateAspectScore :: "string \<Rightarrow> RegExp list \<Rightarrow> bool \<Rightarrow> rat" where
  "calculateAspectScore text patterns positive =
     (let matches = countAll patterns text
      in if positive then min 100 (of_nat matches * 20)
         else max 0 (100 - of_nat matches * 20))"

definition wordCount :: "string \<Rightarrow> nat" where
  "wordCount text = length (splitWhiteSpace text)"

definition quote :: string where
  "quote = [CHR 0x22]"

definition apostrophe :: string where
  "apostrophe = [CHR 0x27]"

definition pushIf :: "bool \<Rightarrow> 'a \<Rightarrow> 'a list" where
  "pushIf c x = (if c then [x] else [])"

definition identifyIssues :: "RegexState \<Rightarrow> string \<Rightarrow> QualityIssue list \<times> RegexState" where
  "identifyIssues st text =
     (let words = wordCount text;
          vagueMatches = countAll clarity_vague text;
          ambiguousMatches = countAll clarity_ambiguous text;
          lacksSpecificsCount = countAll specificity_lacking text;
          hasMeasuresCount = countAll specificity_measures text;
          missingContextMatch = someTest context_missing text;
          hasContextMatch = someTest context_defined text;
          hasSectionsCount = countAll structure_sections text;
          hasFormattingCount = countAll structure_formatting text;
          (hasGoals, st1) = testGoals st text;
          (hasConstraints, st2) = testConstraints st1 text;
          (hasAudience, st3) = testAudience st2 text
      in (pushIf (0 < vagueMatches)
            \<lparr>issue_type = Clarity,
             severity = (if 3 < vagueMatches then High else Medium),
             explanation = ''Your prompt contains vague or imprecise language.'',
             suggestion = ''Replace vague terms with specific, measurable descriptions. For example, use ''
               @ quote @ ''increase conversion by 15%'' @ quote @ '' instead of ''
               @ quote @ ''make it better'' @ quote @ ''.''\<rparr> @
          pushIf (0 < ambiguousMatches)
            \<lparr>issue_type = Clarity,
             severity = (if 3 < ambiguousMatches then High else Medium),
             explanation = ''Your prompt contains potentially ambiguous pronouns that could cause confusion.'',
             suggestion = ''Replace pronouns like '' @ quote @ ''it'' @ quote @ '', '' @ quote
               @ ''they'' @ quote @ '' with the specific nouns they refer to.''\<rparr> @
          pushIf (2 < lacksSpecificsCount \<and> hasMeasuresCount = 0)
            \<lparr>issue_type = Specificity,
             severity = Medium,
             explanation = ''Your prompt uses general descriptors without specific measurements or criteria.'',
             suggestion = ''Add concrete numbers, percentages, dimensions, or time frames to clarify your expectations.''\<rparr> @
          pushIf (missingContextMatch \<and> \<not> hasContextMatch \<and> words < 50)
            \<lparr>issue_type = Context,
             severity = High,
             explanation = ''Your prompt lacks context about the purpose or background of the request.'',
             suggestion = ''Add information about why you need this, where it will be used, or what problem it solves.''\<rparr> @
          pushIf (50 < words \<and> hasSectionsCount = 0 \<and> hasFormattingCount = 0)
            \<lparr>issue_type = Structure,
             severity = Medium,
             explanation = ''Your prompt is long but lacks clear structure or formatting.'',
             suggestion = ''Break down your request into numbered sections, bullet points, or clear paragraphs with headings.''\<rparr> @
          pushIf (\<not> hasGoals \<and> 20 < words)
            \<lparr>issue_type = Completeness,
             severity = Medium,
             explanation = ''Your prompt doesn'' @ apostrophe @ ''t clearly state the goal or objective.'',
             suggestion = ''Add a sentence about what you want to achieve or the purpose of this request.''\<rparr> @
          pushIf (\<not> hasConstraints \<and> 30 < words)
            \<lparr>issue_type = Completeness,
             severity = Low,
             explanation = ''Your prompt doesn'' @ apostrophe @ ''t mention any constraints or limitations.'',
             suggestion = ''Consider adding boundaries like word count, format requirements, or things to avoid.''\<rparr> @
          pushIf (\<not> hasAudience \<and> 40 < words)
            \<lparr>issue_type = Completeness,
             severity = Low,
             explanation = ''Your prompt doesn'' @ apostrophe @ ''t specify the target audience or reader.'',
             suggestion = ''Mention who the content is for to help tailor the tone and complexity appropriately.''\<rparr>,
          st3))"

definition identifyStrengths :: "RegexState \<Rightarrow> string \<Rightarrow> string list \<times> RegexState" where
  "identifyStrengths st text =
     (let words = wordCount text;
          hasSectionsCount = countAll structure_sections text;
          hasFormattingCount = countAll structure_formatting text;
          hasMeasuresCount = countAll specificity_measures text;
          hasContextMatch = someTest context_defined text;
          (hasGoals, st1) = testGoals st text;
          (hasConstraints, st2) = testConstraints st1 text;
          (hasAudience, st3) = testAudience st2 text
      in (pushIf (0 < hasSectionsCount \<or> 0 < hasFormattingCount)
            ''Good structure with clear sections or formatting'' @
          pushIf (0 < hasMeasuresCount) ''Includes specific measurements or criteria'' @
          pushIf hasContextMatch ''Provides clear context or background information'' @
          pushIf hasGoals ''Clearly states the goal or objective'' @
          pushIf hasConstraints ''Includes constraints or boundaries'' @
          pushIf hasAudience ''Specifies the target audience'' @
          (if 10 < words \<and> words < 20 then [''Concise and focused'']
           else if 20 \<le> words \<and> words \<le> 100
             then [''Good level of detail without being excessive'']
           else if 100 < words then [''Comprehensive with substantial detail'']
           else []),
          st3))"

definition generateOverallFeedback :: "int \<Rightarrow> nat \<Rightarrow> string" where
  "generateOverallFeedback sc issueCount =
     (if 90 \<le> sc then ''Excellent prompt! Very clear, specific, and well-structured.''
      else if 75 \<le> sc then
        ''Good prompt with clear intent. A few minor improvements could make it even better.''
      else if 60 \<le> sc then
        ''Decent prompt that communicates the basic idea, but could benefit from more specificity and structure.''
      else if 40 \<le> sc then
        ''Your prompt needs improvement in '' @ showNat issueCount
          @ '' areas. Consider adding more context and specific details.''
      else ''This prompt requires significant revision. Consider addressing the issues listed and providing much more context and specificity.'')"

text \<open>The five aspect scores of \<open>calculateOverallScore\<close>, and their weighted sum.\<close>

definition clarityScore :: "string \<Rightarrow> rat" where
  "clarityScore text = calculateAspectScore text (clarity_vague @ clarity_ambiguous) False"

definition specificityScore :: "string \<Rightarrow> rat" where
  "specificityScore text =
     calculateAspectScore text specificity_lacking False * (4 / 10) +
     calculateAspectScore text specificity_measures True * (6 / 10)"

definition contextScore :: "string \<Rightarrow> rat" where
  "contextScore text = (if someTest context_defined text then 80 else 40)"

definition structureScore :: "string \<Rightarrow> rat" where
  "structureScore text =
     calculateAspectScore text structure_sections True * (5 / 10) +
     calculateAspectScore text structure_formatting True * (5 / 10)"

definition completenessScore :: "bool \<Rightarrow> bool \<Rightarrow> bool \<Rightarrow> rat" where
  "completenessScore hasGoals hasConstraints hasAudience =
     (if hasGoals then 40 else 0) + (if hasConstraints then 30 else 0) +
     (if hasAudience then 30 else 0)"

definition weightedScore :: "rat \<Rightarrow> rat \<Rightarrow> rat \<Rightarrow> rat \<Rightarrow> rat \<Rightarrow> rat" where
  "weightedScore clarity specificity context structure completeness =
     clarity * (25 / 100) + specificity * (25 / 100) + context * (2 / 10) +
     structure * (15 / 100) + completeness * (15 / 100)"

definition calculateOverallScore :: "RegexState \<Rightarrow> string \<Rightarrow> int \<times> RegexState" where
  "calculateOverallScore st text =
     (let (hasGoals, st1) = testGoals st text;
          (hasConstraints, st2) = testConstraints st1 text;
          (hasAudience, st3) = testAudience st2 text
      in (mathRound (weightedScore (clarityScore text) (specificityScore text) (contextScore text)
                       (structureScore text)
                       (completenessScore hasGoals hasConstraints hasAudience)),
          st3))"

definition analyzePromptQuality :: "RegexState \<Rightarrow> string \<Rightarrow> PromptQualityFeedback \<times> RegexState" where
  "analyzePromptQuality st text =
     (let (found, st1) = identifyIssues st text;
          (strong, st2) = identifyStrengths st1 text;
          (sc, st3) = calculateOverallScore st2 text
      in (\<lparr>score = sc, issues = found, strengths = strong,
           overallFeedback = generateOverallFeedback sc (length found)\<rparr>, st3))"

text \<open>
  The state of the three patterns when \<open>analyzePromptQuality\<close> calls
  \<open>calculateOverallScore\<close>, and what the three tests find there.
\<close>

definition scoringState :: "RegexState \<Rightarrow> string \<Rightarrow> RegexState" where
  "scoringState st text = snd (identifyStrengths (snd (identifyIssues st text)) text)"

definition detections :: "RegexState \<Rightarrow> string \<Rightarrow> bool \<times> bool \<times> bool" where
  "detections st text =
     (fst (testGoals st text), fst (testConstraints st text), fst (testAudience st text))"

section \<open>Prompt enhancement engine\<close>

datatype SpecificityLevel = SpecLow | SpecMedium | SpecHigh

record EnhancedPrompt =
  original :: string
  enhanced :: string
  wordCount_original :: nat
  wordCount_enhanced :: nat
  specificity :: SpecificityLevel

definition enhancementTemplates_context :: "string list" where
  "enhancementTemplates_context =
     [''Provide context about the project/situation where this will be used'',
      ''Include background information on the topic'',
      ''Specify the intended audience for this content'',
      ''Clarify the purpose of this request'']"

definition enhancementTemplates_structure :: "string list" where
  "enhancementTemplates_structure =
     [''Break this down into numbered steps'',
      ''Organize this into sections with headings'',
      ''Use bullet points to list out key requirements'',
      ''Include both examples and counter-examples'']"

definition enhancementTemplates_details :: "string list" where
  "enhancementTemplates_details =
     [''Include specific metrics or measurements'',
      ''Add technical specifications'',
      ''Describe visual elements in detail'',
      ''Mention required formats and dimensions'']"

fun roleSpecificEnhancements :: "UserRole \<Rightarrow> string list" where
  "roleSpecificEnhancements Writer =
     [''Include character development guidelines'',
      ''Specify narrative style (first-person, third-person, etc.)'',
      ''Define the pacing and structure of the content'',
      ''Request specific literary devices or techniques'']"
| "roleSpecificEnhancements Developer =
     [''Specify programming language and environment'',
      ''Include performance requirements'',
      ''Define API specifications or interfaces'',
      ''Request code comments and documentation style'']"
| "roleSpecificEnhancements Designer =
     [''Specify color schemes and visual styling'',
      ''Include brand guidelines to follow'',
      ''Define target devices and screen sizes'',
      ''Request specific file formats and resolutions'']"
| "roleSpecificEnhancements Marketer =
     [''Define target audience demographics'',
      ''Specify call-to-action requirements'',
      ''Include brand voice guidelines'',
      ''Request SEO considerations and keywords'']"

definition topicKeywords :: "(string \<times> string list) list" where
  "topicKeywords =
     [(''technology'', [''code'', ''app'', ''website'', ''software'', ''tech'', ''program'', ''develop'',
                       ''algorithm'']),
      (''business'', [''brand'', ''market'', ''company'', ''startup'', ''product'', ''customer'', ''client'',
                     ''strategy'']),
      (''creative'', [''design'', ''story'', ''write'', ''art'', ''create'', ''content'', ''visual'',
                     ''brand'']),
      (''education'', [''learn'', ''teach'', ''course'', ''explain'', ''student'', ''concept'',
                      ''understand''])]"

definition detectTopics :: "string \<Rightarrow> string list" where
  "detectTopics input =
     (let lowercaseInput = toLowerCase input
      in map fst (filter (\<lambda>(topic, keywords). list_ex (includesStr lowercaseInput) keywords)
                    topicKeywords))"

definition specificTerms :: RegExp where
  "specificTerms = re_i (words [''specific'', ''exactly'', ''precise'', ''detailed''])"

definition measurements :: RegExp where
  "measurements =
     re_i (seqs [Plus digit, Star space,
                 words [''px'', ''em'', ''rem'', ''cm'', ''mm'', ''%'', ''seconds'', ''minutes'']])"

definition calculateSpecificity :: "string \<Rightarrow> SpecificityLevel" where
  "calculateSpecificity text =
     (let words = length (splitWhiteSpace text);
          hasSpecificTerms = test specificTerms text;
          hasMeasurements = test measurements text
      in if (15 < words \<and> hasSpecificTerms) \<or> hasMeasurements then SpecHigh
         else if 8 < words then SpecMedium
         else SpecLow)"

definition countWords :: "string \<Rightarrow> nat" where
  "countWords text = length (filter (\<lambda>w. w \<noteq> []) (splitWhiteSpace text))"

definition bullets :: "string list \<Rightarrow> string" where
  "bullets es = join ''\<newline>'' (map (\<lambda>e. ''- '' @ e) es)"

definition sections :: "string list" where
  "sections =
     [''1. Clear context and background information'',
      ''2. Specific details and requirements'',
      ''3. Desired format and structure'',
      ''4. Style and tone guidelines'',
      ''5. Examples or references if applicable'']"

definition enhancePrompt :: "string \<Rightarrow> UserRole \<Rightarrow> bool \<Rightarrow> EnhancedPrompt" where
  "enhancePrompt originalText role shouldAddSections =
     (let trimmedPrompt = trim originalText
      in if trimmedPrompt = [] then
           \<lparr>original = [], enhanced = ''Please provide a prompt to enhance.'',
            wordCount_original = 0, wordCount_enhanced = 7, specificity = SpecLow\<rparr>
         else
           (let detectedTopics = detectTopics trimmedPrompt;
                originalWords = countWords trimmedPrompt;
                enhancedText =
                  (if originalWords < 5 then
                     ''Provide a detailed and comprehensive ''
                       @ (if detectedTopics \<noteq> [] then join ''/'' detectedTopics @ '' '' else [])
                       @ trimmedPrompt @ '' that includes:\<newline>\<newline>''
                       @ (if shouldAddSections then join ''\<newline>'' sections else [])
                       @ (let roleEnhancements = take 2 (roleSpecificEnhancements role)
                          in if roleEnhancements \<noteq> []
                             then ''\<newline>\<newline>Also include:\<newline>'' @ bullets roleEnhancements
                             else [])
                   else if originalWords < 15 then
                     trimmedPrompt @ ''\<newline>\<newline>Please include:\<newline>''
                       @ bullets (take 1 enhancementTemplates_context
                                  @ take 1 enhancementTemplates_structure
                                  @ take 2 enhancementTemplates_details
                                  @ take 2 (roleSpecificEnhancements role))
                   else
                     trimmedPrompt @ ''\<newline>\<newline>Additional requirements:\<newline>''
                       @ bullets (take 3 (roleSpecificEnhancements role))
                       @ ''\<newline>\<newline>Ensure the output is comprehensive, well-structured, and aligned with professional standards for this type of content.'')
            in \<lparr>original = originalText, enhanced = enhancedText,
                wordCount_original = originalWords,
                wordCount_enhanced = countWords enhancedText,
                specificity = calculateSpecificity enhancedText\<rparr>))"

section \<open>Template manager\<close>

record TemplateVariable =
  var_id :: string
  var_name :: string
  var_description :: string
  defaultValue :: string
  required :: bool

record PromptTemplate =
  template_id :: string
  template_name :: string
  template_description :: string
  template_createdAt :: Date
  template_updatedAt :: Date
  template_userId :: nat
  template_role :: UserRole
  category :: string
  tags :: "string list"
  content :: string
  variables :: "TemplateVariable list"
  usageCount :: nat
  isPublic :: bool
  version :: nat
  previousVersionId :: "string option"

record CreateTemplateInput =
  input_name :: string
  input_description :: string
  input_userId :: nat
  input_role :: UserRole
  input_category :: string
  input_tags :: "string list"
  input_content :: string
  input_isPublic :: bool

record TemplateVariableValue =
  value_id :: string
  value_text :: string

text \<open>
  \<open>generateId\<close> draws on \<open>Math.random\<close>. The ids it returns are a parameter: \<open>gen k\<close> is
  what the call number \<open>k\<close> (from 0) of an operation returns.

  \<open>variableRegex\<close> is \<open>/\{\{([^}]+)\}\}/g\<close>; the text of its group is the match
  without the two braces on each side.
\<close>

definition variableRegex :: RegExp where
  "variableRegex = re_g (seqs [Str ''{{'', Plus (notChar CHR ''}''), Str ''}}''])"

definition groupText :: "cursor \<times> cursor \<Rightarrow> string" where
  "groupText mt = (let whole = matchedText (fst mt) (snd mt) in take (length whole - 4) (drop 2 whole))"

fun newVariables :: "(nat \<Rightarrow> string) \<Rightarrow> string list \<Rightarrow> string list \<Rightarrow> TemplateVariable list" where
  "newVariables gen variableNames [] = []"
| "newVariables gen variableNames (n # ns) =
     (if n \<in> set variableNames then newVariables gen variableNames ns
      else \<lparr>var_id = gen (length variableNames), var_name = n,
             var_description = ''Value for '' @ n, defaultValue = [], required = True\<rparr>
           # newVariables gen (variableNames @ [n]) ns)"

definition extractVariablesFromContent :: "(nat \<Rightarrow> string) \<Rightarrow> string \<Rightarrow> TemplateVariable list" where
  "extractVariablesFromContent gen text =
     newVariables gen []
       (map (\<lambda>mt. trim (groupText mt)) (allMatches (fl variableRegex) (rx variableRegex) [] text))"

definition createTemplate :: "(nat \<Rightarrow> string) \<Rightarrow> Date \<Rightarrow> CreateTemplateInput \<Rightarrow> PromptTemplate" where
  "createTemplate gen now input =
     (let vars = extractVariablesFromContent gen (input_content input)
      in \<lparr>template_id = gen (length vars),
          template_name = input_name input,
          template_description = input_description input,
          template_createdAt = now,
          template_updatedAt = now,
          template_userId = input_userId input,
          template_role = input_role input,
          category = input_category input,
          tags = input_tags input,
          content = input_content input,
          variables = vars,
          usageCount = 0,
          isPublic = input_isPublic input,
          version = 1,
          previousVersionId = None\<rparr>)"

text \<open>
  \<open>applyTemplate\<close>. The map of values is filled in the order of the list, so the last
  value given for an id stays. \<open>valueMap.get(variable.id) || variable.defaultValue\<close>
  takes the default for a missing value and for the empty string.

  \<open>new RegExp(`\\{\\{${variable.name}\\}\\}`, 'g')\<close> escapes the braces and reads
  the name as pattern syntax. When the pattern is not well formed the constructor
  throws a \<open>SyntaxError\<close> and so does \<open>applyTemplate\<close> (\<open>Inl InvalidPattern\<close>).
  \<open>Inl PatternNotModelled\<close> is the answer for a name with a group that \<open>compile\<close>
  does not model.
\<close>

definition valueMap :: "TemplateVariableValue list \<Rightarrow> string \<Rightarrow> string option" where
  "valueMap variableValues = map_of (rev (map (\<lambda>v. (value_id v, value_text v)) variableValues))"

definition chosenValue :: "TemplateVariableValue list \<Rightarrow> TemplateVariable \<Rightarrow> string" where
  "chosenValue variableValues variable =
     (case valueMap variableValues (var_id variable) of
        None \<Rightarrow> defaultValue variable
      | Some v \<Rightarrow> if v = [] then defaultValue variable else v)"

datatype template_error = InvalidPattern | PatternNotModelled

definition variablePattern :: "string \<Rightarrow> compiled" where
  "variablePattern name =
     compile ([CHR 0x5C, CHR ''{'', CHR 0x5C, CHR ''{''] @ name @
              [CHR 0x5C, CHR ''}'', CHR 0x5C, CHR ''}''])"

definition applyVariable ::
  "TemplateVariableValue list \<Rightarrow> template_error + string \<Rightarrow> TemplateVariable \<Rightarrow> template_error + string" where
  "applyVariable variableValues result variable =
     (case result of
        Inl e \<Rightarrow> Inl e
      | Inr text \<Rightarrow>
          (case variablePattern (var_name variable) of
             SyntaxError \<Rightarrow> Inl InvalidPattern
           | NotModelled \<Rightarrow> Inl PatternNotModelled
           | Compiled p n \<Rightarrow> Inr (replace p n (chosenValue variableValues variable) text)))"

definition applyTemplate :: "PromptTemplate \<Rightarrow> TemplateVariableValue list \<Rightarrow> template_error + string" where
  "applyTemplate template variableValues =
     foldl (applyVariable variableValues) (Inr (content template)) (variables template)"

text \<open>A text contains a token when the pattern of the variables matches somewhere in it.\<close>

definition containsToken :: "string \<Rightarrow> bool" where
  "containsToken text = test variableRegex text"

text \<open>
  Example values: the ids of the variables, a template with one placeholder written
  with spaces inside the braces, a template with two placeholders, the same template
  with defaults for its variables, and values.
\<close>

definition exampleIds :: "nat \<Rightarrow> string" where
  "exampleIds k = ''id'' @ showNat k"

definition templateInput :: "string \<Rightarrow> CreateTemplateInput" where
  "templateInput text =
     \<lparr>input_name = ''greeting'', input_description = ''a greeting'', input_userId = 1,
      input_role = Writer, input_category = ''mail'', input_tags = [],
      input_content = text, input_isPublic = False\<rparr>"

definition paddedGreeting :: PromptTemplate where
  "paddedGreeting = createTemplate exampleIds day1 (templateInput ''Dear {{ name }}'')"

definition greeting :: PromptTemplate where
  "greeting = createTemplate exampleIds day1
                (templateInput ''Dear {{name}}, welcome to {{place}}. Yours, {{name}}'')"



definition supplied :: "string \<Rightarrow> string \<Rightarrow> TemplateVariableValue" where
  "supplied i v = \<lparr>value_id = i, value_text = v\<rparr>"

section \<open>Properties of the store and the routes\<close>

subsection \<open>Unfolding sets for evaluation\<close>

lemmas storage_defs =
  newMemStorage_def getUser_def getUserByClerkId_def createUser_def updateUserRole_def
  resetUserPromptUsage_def incrementUserPromptUsage_def getPromptById_def createPrompt_def
  deletePrompt_def orZero_def numOrNull_def strOrNull_def Let_def

lemmas route_defs =
  post_users_clerk_def post_users_onboarding_def get_users_me_def post_prompts_enhance_def
  post_prompts_save_def get_prompts_history_def get_prompt_def delete_prompt_def
  get_stats_usage_def checkDailyLimit_def isSameDay_def FREE_TIER_DAILY_LIMIT_def
  noClerkId_def headerValue_def respond_def lookupPrompt_def ownedPrompt_def

lemmas example_defs =
  utc_def day1_def day2_def endOfDay1_def startOfDay2_def steady_def acrossMidnight_def
  logoBody_def signUp_def enhanceOnDay1_def enhanceAcrossMidnight_def saveOnDay1_def
  logoInsert_def logoPrompt_def someUser_def

subsection \<open>The invariant of the store\<close>

lemma list_all_update:
  "list_all P al \<Longrightarrow> P (k, v) \<Longrightarrow> list_all P (AList.update k v al)"
  by (induction al) auto

lemma list_all_delete:
  "list_all P al \<Longrightarrow> list_all P (AList.delete k al)"
  by (induction al) (auto simp: AList.delete_eq)

lemma list_all_counter:
  "list_all (\<lambda>(k, u). f u = k \<and> k < n) al \<Longrightarrow> list_all (\<lambda>(k, u). f u = k \<and> k < Suc n) al"
  by (induction al) auto

lemma inv_lookup_user:
  "storage_inv s \<Longrightarrow> getUser s uid = Some u \<Longrightarrow> user_id u = uid \<and> uid < userIdCounter s"
  unfolding storage_inv_def getUser_def
  by (auto dest!: map_of_SomeD simp: list_all_iff)

lemma inv_lookup_prompt:
  "storage_inv s \<Longrightarrow> getPromptById s k = Some p \<Longrightarrow> prompt_id p = k \<and> k < promptIdCounter s"
  unfolding storage_inv_def getPromptById_def
  by (auto dest!: map_of_SomeD simp: list_all_iff)

lemma inv_new: "storage_inv newMemStorage"
  by (simp add: storage_inv_def newMemStorage_def)

lemma inv_createUser: "storage_inv s \<Longrightarrow> storage_inv (snd (createUser now s iu))"
  unfolding storage_inv_def createUser_def
  by (simp add: Let_def distinct_update list_all_update list_all_counter)

lemma inv_createPrompt: "storage_inv s \<Longrightarrow> storage_inv (snd (createPrompt now s ip))"
  unfolding storage_inv_def createPrompt_def
  by (simp add: Let_def distinct_update list_all_update list_all_counter)

lemma inv_deletePrompt: "storage_inv s \<Longrightarrow> storage_inv (deletePrompt s pid)"
  unfolding storage_inv_def deletePrompt_def
  by (simp add: distinct_delete list_all_delete)

lemma inv_user_update:
  assumes "storage_inv s" "getUser s uid = Some u" "user_id u' = user_id u"
  shows "storage_inv (s\<lparr>users := AList.update uid u' (users s)\<rparr>)"
  using assms inv_lookup_user[OF assms(1,2)]
  unfolding storage_inv_def
  by (simp add: distinct_update list_all_update)

lemma inv_updateUserRole:
  "storage_inv s \<Longrightarrow> updateUserRole s uid r = Inr (u, s') \<Longrightarrow> storage_inv s'"
  unfolding updateUserRole_def
  by (auto simp: Let_def split: option.splits intro!: inv_user_update)

lemma inv_reset:
  "storage_inv s \<Longrightarrow> resetUserPromptUsage now s uid = Inr s' \<Longrightarrow> storage_inv s'"
  unfolding resetUserPromptUsage_def
  by (auto simp: Let_def split: option.splits intro!: inv_user_update)

lemma inv_increment:
  "storage_inv s \<Longrightarrow> incrementUserPromptUsage now s uid = Inr s' \<Longrightarrow> storage_inv s'"
  unfolding incrementUserPromptUsage_def
  by (auto simp: Let_def split: option.splits intro!: inv_user_update)

lemma inv_exec_op: "storage_inv s \<Longrightarrow> storage_inv (exec_op now op s)"
  by (cases op)
     (auto split: sum.splits intro: inv_createUser inv_createPrompt inv_deletePrompt
        inv_updateUserRole inv_reset inv_increment)

lemma inv_exec_ops: "storage_inv s \<Longrightarrow> storage_inv (exec_ops ops s)"
  by (induction ops arbitrary: s) (auto simp: inv_exec_op)


lemma inv_createUser': "createUser now s iu = (u, s') \<Longrightarrow> storage_inv s \<Longrightarrow> storage_inv s'"
  using inv_createUser[of s now iu] by simp

lemma inv_createPrompt': "createPrompt now s ip = (p, s') \<Longrightarrow> storage_inv s \<Longrightarrow> storage_inv s'"
  using inv_createPrompt[of s now ip] by simp

lemma inv_handle: "storage_inv s \<Longrightarrow> storage_inv (snd (handle clock s hdr req))"
proof (cases req)
  case (PostUsersClerk b)
  assume "storage_inv s"
  then show ?thesis using PostUsersClerk
    by (auto simp: post_users_clerk_def split: option.splits prod.splits dest: inv_createUser')
next
  case (PostUsersOnboarding b)
  assume "storage_inv s"
  then show ?thesis using PostUsersOnboarding
    by (auto simp: post_users_onboarding_def split: option.splits sum.splits dest: inv_updateUserRole)
next
  case (PostPromptsEnhance b)
  assume "storage_inv s"
  then show ?thesis using PostPromptsEnhance
    by (auto simp: post_prompts_enhance_def checkDailyLimit_def Let_def
          split: option.splits sum.splits prod.splits QuotaCheck.splits if_splits
          dest: inv_reset inv_increment inv_createPrompt')
next
  case (PostPromptsSave b)
  assume "storage_inv s"
  then show ?thesis using PostPromptsSave
    by (auto simp: post_prompts_save_def split: option.splits prod.splits dest: inv_createPrompt')
next
  case (DeletePromptReq i)
  assume "storage_inv s"
  then show ?thesis using DeletePromptReq
    by (auto simp: delete_prompt_def inv_deletePrompt split: option.splits)
qed (auto simp: get_users_me_def get_prompts_history_def get_prompt_def get_stats_usage_def
       split: option.splits)

lemma inv_serve: "storage_inv s \<Longrightarrow> storage_inv (serve reqs s)"
  by (induction reqs arbitrary: s) (auto simp: inv_handle)


lemma nondelete_keeps_prompt:
  assumes "storage_inv s" "getPromptById s k = Some p" "\<not> isDelete op"
  shows "getPromptById (exec_op now op s) k = Some p"
proof -
  have "k < promptIdCounter s" using inv_lookup_prompt[OF assms(1,2)] by simp
  then show ?thesis using assms(2,3)
    by (cases op)
       (auto simp: getPromptById_def createUser_def updateUserRole_def resetUserPromptUsage_def
          incrementUserPromptUsage_def createPrompt_def Let_def update_conv'
          split: option.splits sum.splits)
qed

lemma gone_createPrompt: "createPrompt now s ip = (p, s') \<Longrightarrow> gone k s \<Longrightarrow> gone k s'"
  unfolding gone_def using inv_createPrompt'[of now s ip p s']
  by (auto simp: createPrompt_def getPromptById_def Let_def update_conv')

lemma gone_users:
  "gone k s \<Longrightarrow> storage_inv s' \<Longrightarrow> prompts s' = prompts s \<Longrightarrow> promptIdCounter s' = promptIdCounter s
    \<Longrightarrow> gone k s'"
  by (simp add: gone_def getPromptById_def)

lemma gone_createUser:
  assumes "createUser now s iu = (u, s')" "gone k s" shows "gone k s'"
proof (rule gone_users[OF assms(2)])
  show "storage_inv s'" using assms inv_createUser' by (auto simp: gone_def)
qed (use assms(1) in \<open>auto simp: createUser_def Let_def\<close>)

lemma gone_updateUserRole:
  assumes "updateUserRole s uid r = Inr (u, s')" "gone k s" shows "gone k s'"
proof (rule gone_users[OF assms(2)])
  show "storage_inv s'" using assms inv_updateUserRole by (auto simp: gone_def)
qed (use assms(1) in \<open>auto simp: updateUserRole_def Let_def split: option.splits\<close>)

lemma gone_reset:
  assumes "resetUserPromptUsage now s uid = Inr s'" "gone k s" shows "gone k s'"
proof (rule gone_users[OF assms(2)])
  show "storage_inv s'" using assms inv_reset by (auto simp: gone_def)
qed (use assms(1) in \<open>auto simp: resetUserPromptUsage_def Let_def split: option.splits\<close>)

lemma gone_increment:
  assumes "incrementUserPromptUsage now s uid = Inr s'" "gone k s" shows "gone k s'"
proof (rule gone_users[OF assms(2)])
  show "storage_inv s'" using assms inv_increment by (auto simp: gone_def)
qed (use assms(1) in \<open>auto simp: incrementUserPromptUsage_def Let_def split: option.splits\<close>)

lemma gone_deletePrompt: "gone k s \<Longrightarrow> gone k (deletePrompt s j)"
  unfolding gone_def using inv_deletePrompt[of s j]
  by (auto simp: deletePrompt_def getPromptById_def delete_conv')

lemma gone_handle: "gone k s \<Longrightarrow> gone k (snd (handle clock s hdr req))"
proof (cases req)
  case (PostUsersClerk b)
  assume "gone k s"
  then show ?thesis using PostUsersClerk
    by (auto simp: post_users_clerk_def split: option.splits prod.splits dest: gone_createUser)
next
  case (PostUsersOnboarding b)
  assume "gone k s"
  then show ?thesis using PostUsersOnboarding
    by (auto simp: post_users_onboarding_def split: option.splits sum.splits dest: gone_updateUserRole)
next
  case (PostPromptsEnhance b)
  assume "gone k s"
  then show ?thesis using PostPromptsEnhance
    by (auto simp: post_prompts_enhance_def checkDailyLimit_def Let_def
          split: option.splits sum.splits prod.splits QuotaCheck.splits if_splits
          dest: gone_reset gone_increment gone_createPrompt)
next
  case (PostPromptsSave b)
  assume "gone k s"
  then show ?thesis using PostPromptsSave
    by (auto simp: post_prompts_save_def split: option.splits prod.splits dest: gone_createPrompt)
next
  case (DeletePromptReq i)
  assume "gone k s"
  then show ?thesis using DeletePromptReq
    by (auto simp: delete_prompt_def gone_deletePrompt split: option.splits)
qed (auto simp: get_users_me_def get_prompts_history_def get_prompt_def get_stats_usage_def
       split: option.splits)

lemma gone_serve: "gone k s \<Longrightarrow> gone k (serve reqs s)"
  by (induction reqs arbitrary: s) (auto simp: gone_handle)

lemma sinceCutoff_subset: "set (sinceCutoff cutoff clock k ps) \<subseteq> set ps"
  by (induction ps arbitrary: k) (auto split: option.splits)

lemma history_subset:
  "set (getPromptsByUserId clock s uid limitDays) \<subseteq> snd ` set (prompts s)"
  by (auto simp: getPromptsByUserId_def Let_def split: option.splits
       dest!: subsetD[OF sinceCutoff_subset])

lemma gone_history:
  assumes "gone k s" "p \<in> set (getPromptsByUserId clock s uid limitDays)"
  shows "prompt_id p \<noteq> k"
proof
  assume eq: "prompt_id p = k"
  from assms(2) history_subset obtain j where j: "(j, p) \<in> set (prompts s)" by fastforce
  from assms(1) have inv: "storage_inv s" and none: "map_of (prompts s) k = None"
    by (simp_all add: gone_def getPromptById_def)
  from inv j have "prompt_id p = j" by (auto simp: storage_inv_def list_all_iff)
  with eq j have "(k, p) \<in> set (prompts s)" by simp
  with none show False by (metis map_of_eq_None_iff fst_conv image_eqI)
qed

lemma delete_prompt_ok:
  assumes "delete_prompt s hdr promptId = (resp, s')" and "status resp = 200"
  shows "\<exists>i p0. promptId = Some i \<and> 0 \<le> i \<and> getPromptById s (nat i) = Some p0 \<and>
            s' = deletePrompt s (nat i)"
proof (cases "noClerkId hdr")
  case True
  with assms show ?thesis by (auto simp add: delete_prompt_def respond_def)
next
  case False
  show ?thesis
  proof (cases "getUserByClerkId s (headerValue hdr)")
    case None
    with False assms show ?thesis by (auto simp add: delete_prompt_def respond_def)
  next
    case (Some user)
    show ?thesis
    proof (cases "ownedPrompt s user promptId")
      case None
      with False Some assms show ?thesis by (auto simp add: delete_prompt_def respond_def)
    next
      case (Some p0)
      then obtain i where i: "promptId = Some i" "0 \<le> i" "getPromptById s (nat i) = Some p0"
        by (auto simp: ownedPrompt_def lookupPrompt_def split: if_splits option.splits)
      moreover have "s' = deletePrompt s (nat i)"
        using False \<open>getUserByClerkId s (headerValue hdr) = Some user\<close> Some assms(1) i(1)
        by (simp add: delete_prompt_def)
      ultimately show ?thesis by blast
    qed
  qed
qed

lemma stored_user:
  assumes "storage_inv s" "getUserByClerkId s c = Some u"
  shows "getUser s (user_id u) = Some u"
proof -
  from assms(2) have "u \<in> set (map snd (users s))"
    by (auto simp: getUserByClerkId_def find_Some_iff)
  then obtain k where k: "(k, u) \<in> set (users s)" by auto
  with assms(1) have "user_id u = k" by (auto simp: storage_inv_def list_all_iff)
  moreover from assms(1) have "distinct (map fst (users s))" by (simp add: storage_inv_def)
  ultimately show ?thesis using k by (simp add: getUser_def)
qed

lemma enhance_refused:
  assumes "getUserByClerkId s c = Some u" "c \<noteq> []" "plan u = Free"
      and "lastPromptDate u = Some d" "isSameDay (clock 0) d" "10 \<le> orZero (promptsUsedToday u)"
  shows "post_prompts_enhance clock s (Some c) (Some b) =
           (respond 402 (LimitReached ''Free tier daily limit reached'' 10), s)"
  using assms
  by (simp add: post_prompts_enhance_def noClerkId_def headerValue_def checkDailyLimit_def
        FREE_TIER_DAILY_LIMIT_def)

subsection \<open>Counting the enhancements of a day\<close>

lemma isSameDay_sym: "isSameDay a b \<Longrightarrow> isSameDay b a"
  by (simp add: isSameDay_def)

lemma isSameDay_trans: "isSameDay a b \<Longrightarrow> isSameDay b c \<Longrightarrow> isSameDay a c"
  by (simp add: isSameDay_def)

lemma found_key:
  assumes "list_all (\<lambda>(k, u). user_id u = k) al" "find P (map snd al) = Some u"
  shows "(user_id u, u) \<in> set al"
proof -
  from assms(2) have "u \<in> set (map snd al)" by (auto simp: find_Some_iff)
  then obtain k where "(k, u) \<in> set al" by auto
  with assms(1) show ?thesis by (auto simp: list_all_iff)
qed

lemma find_update_users:
  assumes "distinct (map fst al)" "list_all (\<lambda>(k, u). user_id u = k) al"
      and "map_of al k = Some v" "user_id v' = k" "P v' = P v"
  shows "find P (map snd (AList.update k v' al)) =
           (case find P (map snd al) of
              None \<Rightarrow> None
            | Some u \<Rightarrow> if user_id u = k then Some v' else Some u)"
  using assms
proof (induction al)
  case Nil
  then show ?case by simp
next
  case (Cons a al)
  obtain j w where a: "a = (j, w)" by (cases a)
  from Cons.prems(2) a have inv: "list_all (\<lambda>(k, u). user_id u = k) al" and w: "user_id w = j"
    by simp_all
  show ?case
  proof (cases "j = k")
    case True
    with Cons.prems a have wv: "w = v" by simp
    from True Cons.prems(1) a have notin: "k \<notin> fst ` set al" by simp
    show ?thesis
    proof (cases "P v")
      case True
      then show ?thesis using \<open>j = k\<close> a wv Cons.prems(5) w by simp
    next
      case False
      have "\<And>u. find P (map snd al) = Some u \<Longrightarrow> user_id u \<noteq> k"
        using found_key[OF inv] notin by (metis fst_conv image_eqI)
      then show ?thesis using False \<open>j = k\<close> a wv Cons.prems(5)
        by (auto split: option.splits)
    qed
  next
    case False
    from False Cons.prems a have m: "map_of al k = Some v" by simp
    from Cons.prems(1) have d: "distinct (map fst al)" by simp
    have ih: "find P (map snd (AList.update k v' al)) =
           (case find P (map snd al) of
              None \<Rightarrow> None
            | Some u \<Rightarrow> if user_id u = k then Some v' else Some u)"
      by (rule Cons.IH[OF d inv m Cons.prems(4,5)])
    show ?thesis using False a w ih by (auto split: option.splits)
  qed
qed


lemma find_append_Some: "find P xs = Some u \<Longrightarrow> find P (xs @ ys) = Some u"
  by (induction xs) auto

lemma update_fresh: "k \<notin> fst ` set al \<Longrightarrow> AList.update k v al = al @ [(k, v)]"
  by (induction al) auto

lemma counter_fresh: "storage_inv s \<Longrightarrow> userIdCounter s \<notin> fst ` set (users s)"
  by (auto simp: storage_inv_def list_all_iff)

lemma inv_users: "storage_inv s \<Longrightarrow>
  distinct (map fst (users s)) \<and> list_all (\<lambda>(k, u). user_id u = k) (users s)"
  by (auto simp: storage_inv_def list_all_iff)

lemma lookup_after_user_update:
  assumes "storage_inv s" "getUserByClerkId s c' = Some v" "getUserByClerkId s c = Some u"
      and "users s' = AList.update (user_id v) v' (users s)"
      and "user_id v' = user_id v" "clerkId v' = clerkId v"
  shows "getUserByClerkId s' c = (if c' = c then Some v' else Some u)"
proof -
  have g: "map_of (users s) (user_id v) = Some v"
    using stored_user[OF assms(1,2)] by (simp add: getUser_def)
  have f: "find (\<lambda>x. clerkId x = Some c) (map snd (AList.update (user_id v) v' (users s))) =
           (case find (\<lambda>x. clerkId x = Some c) (map snd (users s)) of
              None \<Rightarrow> None
            | Some x \<Rightarrow> if user_id x = user_id v then Some v' else Some x)"
    using inv_users[OF assms(1)] g assms(5,6)
    by (intro find_update_users) auto
  have cv: "clerkId v = Some c'" and cu: "clerkId u = Some c"
    using assms(2,3) by (auto simp: getUserByClerkId_def find_Some_iff)
  have same: "user_id u = user_id v \<longleftrightarrow> c' = c"
  proof
    assume "user_id u = user_id v"
    moreover have "map_of (users s) (user_id u) = Some u"
      using stored_user[OF assms(1,3)] by (simp add: getUser_def)
    ultimately have "Some u = Some v" using g by metis
    then show "c' = c" using cv cu by simp
  next
    assume "c' = c"
    then show "user_id u = user_id v" using assms(2,3) by simp
  qed
  show ?thesis using f assms(3,4) same by (simp add: getUserByClerkId_def)
qed

lemma enhance_accepted:
  assumes "storage_inv s" "getUserByClerkId s c' = Some v" "c' \<noteq> []"
      and "\<not> (plan v = Free \<and> (\<exists>d. lastPromptDate v = Some d \<and> isSameDay (clock 0) d) \<and>
              10 \<le> orZero (promptsUsedToday v))"
  shows "\<exists>s' j. post_prompts_enhance clock s (Some c') (Some b) =
           (respond 200 (EnhanceSaved (promptIdCounter s) (body_originalPrompt b)
              (body_enhancedPrompt b)), s') \<and>
           users s' = AList.update (user_id v)
             (v\<lparr>promptsUsedToday :=
                  Some (if plan v = Free \<and>
                           (case lastPromptDate v of None \<Rightarrow> True
                            | Some d \<Rightarrow> \<not> isSameDay (clock 0) d)
                        then 1 else orZero (promptsUsedToday v) + 1),
                lastPromptDate := Some (clock j)\<rparr>) (users s)"
proof (cases "plan v = Free \<and>
              (case lastPromptDate v of None \<Rightarrow> True | Some d \<Rightarrow> \<not> isSameDay (clock 0) d)")
  case True
  have g: "getUser s (user_id v) = Some v" by (rule stored_user[OF assms(1,2)])
  let ?u1 = "v\<lparr>promptsUsedToday := Some 0, lastPromptDate := Some (clock 1)\<rparr>"
  let ?s1 = "s\<lparr>users := AList.update (user_id v) ?u1 (users s)\<rparr>"
  have chk: "checkDailyLimit clock s v = Proceed 2 ?s1"
    using True g by (simp add: checkDailyLimit_def resetUserPromptUsage_def)
  have g1: "getUser ?s1 (user_id v) = Some ?u1" by (simp add: getUser_def update_conv')
  let ?u2 = "?u1\<lparr>promptsUsedToday := Some 1, lastPromptDate := Some (clock 2)\<rparr>"
  let ?s2 = "?s1\<lparr>users := AList.update (user_id v) ?u2 (users ?s1)\<rparr>"
  have inc: "incrementUserPromptUsage (clock 2) ?s1 (user_id v) = Inr ?s2"
    using g1 by (simp add: incrementUserPromptUsage_def orZero_def)
  have "post_prompts_enhance clock s (Some c') (Some b) =
           (respond 200 (EnhanceSaved (promptIdCounter s) (body_originalPrompt b)
              (body_enhancedPrompt b)), snd (post_prompts_enhance clock s (Some c') (Some b))) \<and>
        users (snd (post_prompts_enhance clock s (Some c') (Some b))) =
           AList.update (user_id v)
             (v\<lparr>promptsUsedToday := Some 1, lastPromptDate := Some (clock 2)\<rparr>) (users s)"
    using assms(2,3) chk inc
    by (simp add: post_prompts_enhance_def noClerkId_def headerValue_def createPrompt_def Let_def)
  then show ?thesis using True by auto
next
  case False
  have g: "getUser s (user_id v) = Some v" by (rule stored_user[OF assms(1,2)])
  define k :: nat where "k = (if plan v = Free then 1 else 0)"
  have chk: "checkDailyLimit clock s v = Proceed k s"
    using False assms(4)
    by (auto simp: checkDailyLimit_def FREE_TIER_DAILY_LIMIT_def k_def split: option.splits)
  let ?u2 = "v\<lparr>promptsUsedToday := Some (orZero (promptsUsedToday v) + 1),
               lastPromptDate := Some (clock k)\<rparr>"
  let ?s2 = "s\<lparr>users := AList.update (user_id v) ?u2 (users s)\<rparr>"
  have inc: "incrementUserPromptUsage (clock k) s (user_id v) = Inr ?s2"
    using g by (simp add: incrementUserPromptUsage_def)
  have n: "(if plan v = Free \<and>
               (case lastPromptDate v of None \<Rightarrow> True | Some d \<Rightarrow> \<not> isSameDay (clock 0) d)
            then 1 else orZero (promptsUsedToday v) + 1) = orZero (promptsUsedToday v) + 1"
    using False by (rule if_not_P)
  have "post_prompts_enhance clock s (Some c') (Some b) =
           (respond 200 (EnhanceSaved (promptIdCounter s) (body_originalPrompt b)
              (body_enhancedPrompt b)), snd (post_prompts_enhance clock s (Some c') (Some b))) \<and>
        users (snd (post_prompts_enhance clock s (Some c') (Some b))) =
           AList.update (user_id v) ?u2 (users s)"
    using assms(2,3) chk inc
    by (simp add: post_prompts_enhance_def noClerkId_def headerValue_def createPrompt_def Let_def)
  then show ?thesis unfolding n by blast
qed

lemma lookup_same_users: "users s' = users s \<Longrightarrow> getUserByClerkId s' c = getUserByClerkId s c"
  by (simp add: getUserByClerkId_def)

lemma status_respond: "status (respond n b) = n"
  by (simp add: respond_def)

lemma enhance_lookup:
  assumes "storage_inv s" "getUserByClerkId s c = Some u" "c \<noteq> []"
  shows "\<exists>u'. getUserByClerkId (snd (post_prompts_enhance t s hdr b)) c = Some u' \<and>
           plan u' = plan u \<and>
           (if hdr = Some c \<and> status (fst (post_prompts_enhance t s hdr b)) = 200
            then promptsUsedToday u' =
                   Some (if plan u = Free \<and>
                            (case lastPromptDate u of None \<Rightarrow> True
                             | Some d \<Rightarrow> \<not> isSameDay (t 0) d)
                         then 1 else orZero (promptsUsedToday u) + 1) \<and>
                 (\<exists>j. lastPromptDate u' = Some (t j))
            else promptsUsedToday u' = promptsUsedToday u \<and>
                 lastPromptDate u' = lastPromptDate u)"
proof (cases b)
  case None
  then show ?thesis using assms(2)
    by (simp add: post_prompts_enhance_def status_respond)
next
  case (Some body)
  show ?thesis
  proof (cases "noClerkId hdr")
    case True
    then have "hdr \<noteq> Some c" using assms(3) by (auto simp: noClerkId_def)
    then show ?thesis using Some True assms(2)
      by (simp add: post_prompts_enhance_def)
  next
    case False
    then obtain c' where h: "hdr = Some c'" and ne: "c' \<noteq> []"
      by (auto simp: noClerkId_def split: option.splits)
    show ?thesis
    proof (cases "getUserByClerkId s c'")
      case None
      then show ?thesis using Some False h assms(2)
        by (simp add: post_prompts_enhance_def headerValue_def status_respond)
    next
      case (Some v)
      note v = Some
      show ?thesis
      proof (cases "plan v = Free \<and> (\<exists>d. lastPromptDate v = Some d \<and> isSameDay (t 0) d) \<and>
                    10 \<le> orZero (promptsUsedToday v)")
        case True
        have "post_prompts_enhance t s (Some c') (Some body) =
                (respond 402 (LimitReached ''Free tier daily limit reached'' 10), s)"
          using v ne True enhance_refused[where clock = t] by blast
        then show ?thesis using \<open>b = Some body\<close> h assms(2) by (simp add: status_respond)
      next
        case False
        from enhance_accepted[where clock = t, OF assms(1) v ne False, of body]
        obtain s' j where r: "post_prompts_enhance t s (Some c') (Some body) =
             (respond 200 (EnhanceSaved (promptIdCounter s) (body_originalPrompt body)
                (body_enhancedPrompt body)), s')"
          and us: "users s' = AList.update (user_id v)
             (v\<lparr>promptsUsedToday :=
                  Some (if plan v = Free \<and>
                           (case lastPromptDate v of None \<Rightarrow> True
                            | Some d \<Rightarrow> \<not> isSameDay (t 0) d)
                        then 1 else orZero (promptsUsedToday v) + 1),
                lastPromptDate := Some (t j)\<rparr>) (users s)"
          by blast
        let ?v' = "v\<lparr>promptsUsedToday :=
                  Some (if plan v = Free \<and>
                           (case lastPromptDate v of None \<Rightarrow> True
                            | Some d \<Rightarrow> \<not> isSameDay (t 0) d)
                        then 1 else orZero (promptsUsedToday v) + 1),
                lastPromptDate := Some (t j)\<rparr>"
        have l: "getUserByClerkId s' c = (if c' = c then Some ?v' else Some u)"
          by (rule lookup_after_user_update[OF assms(1) v assms(2) us]) simp_all
        show ?thesis
        proof (cases "c' = c")
          case True
          then have "v = u" using v assms(2) by simp
          then show ?thesis using True l r h \<open>b = Some body\<close>
            by (auto simp add: status_respond)
        next
          case False
          then show ?thesis using l r h \<open>b = Some body\<close>
            by (simp add: status_respond)
        qed
      qed
    qed
  qed
qed

lemma onboarding_lookup:
  assumes "storage_inv s" "getUserByClerkId s c = Some u"
  shows "\<exists>u'. getUserByClerkId (snd (post_users_onboarding s b)) c = Some u' \<and>
           plan u' = plan u \<and> promptsUsedToday u' = promptsUsedToday u \<and>
           lastPromptDate u' = lastPromptDate u"
proof (cases b)
  case None
  then show ?thesis using assms(2) by (simp add: post_users_onboarding_def)
next
  case (Some body)
  show ?thesis
  proof (cases "getUserByClerkId s (body_userId body)")
    case None
    then show ?thesis using Some assms(2) by (simp add: post_users_onboarding_def)
  next
    case (Some v)
    have g: "getUser s (user_id v) = Some v" by (rule stored_user[OF assms(1) Some])
    let ?v' = "v\<lparr>user_role := Some (body_role body)\<rparr>"
    let ?s' = "s\<lparr>users := AList.update (user_id v) ?v' (users s)\<rparr>"
    have r: "snd (post_users_onboarding s b) = ?s'"
      using \<open>b = Some body\<close> Some g
      by (simp add: post_users_onboarding_def updateUserRole_def Let_def)
    have l: "getUserByClerkId ?s' c = (if body_userId body = c then Some ?v' else Some u)"
      by (rule lookup_after_user_update[OF assms(1) Some assms(2)]) simp_all
    show ?thesis
    proof (cases "body_userId body = c")
      case True
      then have "v = u" using Some assms(2) by simp
      then show ?thesis using True l r by simp
    next
      case False
      then show ?thesis using l r by simp
    qed
  qed
qed

lemma clerk_lookup:
  assumes "storage_inv s" "getUserByClerkId s c = Some u"
  shows "getUserByClerkId (snd (post_users_clerk t s b)) c = Some u"
proof (cases b)
  case None
  then show ?thesis using assms(2) by (simp add: post_users_clerk_def)
next
  case (Some body)
  show ?thesis
  proof (cases "getUserByClerkId s (body_clerkId body)")
    case None
    have "find (\<lambda>x. clerkId x = Some c) (map snd (users s) @ [w]) = Some u" for w
      using assms(2) by (simp add: getUserByClerkId_def find_append_Some)
    then show ?thesis
      using Some None counter_fresh[OF assms(1)]
      by (simp add: post_users_clerk_def createUser_def getUserByClerkId_def update_fresh Let_def)
  next
    case (Some v)
    then show ?thesis using \<open>b = Some body\<close> assms(2) by (simp add: post_users_clerk_def)
  qed
qed

lemma save_users: "users (snd (post_prompts_save t s hdr b)) = users s"
  by (simp add: post_prompts_save_def createPrompt_def Let_def
           split: option.splits prod.splits)

lemma delete_users: "users (snd (delete_prompt s hdr i)) = users s"
  by (simp add: delete_prompt_def deletePrompt_def Let_def split: option.splits)

lemma handle_lookup:
  assumes "storage_inv s" "getUserByClerkId s c = Some u" "c \<noteq> []"
  shows "\<exists>u'. getUserByClerkId (snd (handle t s hdr req)) c = Some u' \<and>
           plan u' = plan u \<and>
           (if hdr = Some c \<and> isEnhance req \<and> status (fst (handle t s hdr req)) = 200
            then promptsUsedToday u' =
                   Some (if plan u = Free \<and>
                            (case lastPromptDate u of None \<Rightarrow> True
                             | Some d \<Rightarrow> \<not> isSameDay (t 0) d)
                         then 1 else orZero (promptsUsedToday u) + 1) \<and>
                 (\<exists>j. lastPromptDate u' = Some (t j))
            else promptsUsedToday u' = promptsUsedToday u \<and>
                 lastPromptDate u' = lastPromptDate u)"
proof (cases req)
  case (PostUsersClerk b)
  then show ?thesis using clerk_lookup[OF assms(1,2)] by simp
next
  case (PostUsersOnboarding b)
  then show ?thesis using onboarding_lookup[OF assms(1,2)] by simp
next
  case GetUsersMe
  then show ?thesis using assms(2) by (simp add: get_users_me_def split: option.splits)
next
  case (PostPromptsEnhance b)
  then show ?thesis using enhance_lookup[OF assms] by simp
next
  case (PostPromptsSave b)
  then show ?thesis using assms(2) lookup_same_users[OF save_users] by simp
next
  case GetPromptsHistory
  then show ?thesis using assms(2)
    by (simp add: get_prompts_history_def Let_def split: option.splits)
next
  case (GetPrompt i)
  then show ?thesis using assms(2) by (simp add: get_prompt_def split: option.splits)
next
  case (DeletePromptReq i)
  then show ?thesis using assms(2) lookup_same_users[OF delete_users] by simp
next
  case GetStatsUsage
  then show ?thesis using assms(2)
    by (simp add: get_stats_usage_def Let_def split: option.splits)
qed

lemma usedToday_initial:
  "storage_inv s \<Longrightarrow> getUserByClerkId s c = Some u \<Longrightarrow> plan u = Free \<Longrightarrow> usedToday c today 0 s"
  by (simp add: usedToday_def)

lemma usedToday_step:
  assumes "usedToday c today n s" "\<And>j. isSameDay (t j) today" "c \<noteq> []"
  shows "usedToday c today
           (n + (if hdr = Some c \<and> isEnhance req \<and> status (fst (handle t s hdr req)) = 200
                 then 1 else 0))
           (snd (handle t s hdr req))"
proof -
  define k where "k \<longleftrightarrow> hdr = Some c \<and> isEnhance req \<and> status (fst (handle t s hdr req)) = 200"
  define s' where "s' = snd (handle t s hdr req)"
  from assms(1) obtain u where inv: "storage_inv s" and u: "getUserByClerkId s c = Some u"
    and free: "plan u = Free" and n: "n \<le> orZero (promptsUsedToday u)"
    and d: "n = 0 \<or> (case lastPromptDate u of None \<Rightarrow> False | Some d \<Rightarrow> isSameDay today d)"
    by (auto simp: usedToday_def split: option.splits)
  have inv': "storage_inv s'"
    unfolding s'_def using inv_handle[OF inv, of t hdr req] by simp
  from handle_lookup[OF inv u assms(3), of t hdr req]
  obtain u' where l: "getUserByClerkId s' c = Some u'"
    and p: "plan u' = plan u"
    and e: "if k
            then promptsUsedToday u' =
                   Some (if plan u = Free \<and>
                            (case lastPromptDate u of None \<Rightarrow> True
                             | Some d \<Rightarrow> \<not> isSameDay (t 0) d)
                         then 1 else orZero (promptsUsedToday u) + 1) \<and>
                 (\<exists>j. lastPromptDate u' = Some (t j))
            else promptsUsedToday u' = promptsUsedToday u \<and>
                 lastPromptDate u' = lastPromptDate u"
    unfolding k_def s'_def by blast
  have "usedToday c today (n + (if k then 1 else 0)) s'"
  proof (cases k)
    case False
    then show ?thesis using inv' l p e free n d by (simp add: usedToday_def)
  next
    case True
    from True e obtain j where stamp: "lastPromptDate u' = Some (t j)" by auto
    have today: "isSameDay today (t j)" using assms(2) by (simp add: isSameDay_sym)
    show ?thesis
    proof (cases "case lastPromptDate u of None \<Rightarrow> True | Some d \<Rightarrow> \<not> isSameDay (t 0) d")
      case False
      then show ?thesis using True inv' l p e free n today stamp
        by (simp add: usedToday_def orZero_def)
    next
      case reset: True
      have "n = 0"
      proof (rule ccontr)
        assume "n \<noteq> 0"
        then obtain d' where "lastPromptDate u = Some d'" "isSameDay today d'"
          using d by (auto split: option.splits)
        then show False using reset assms(2)[of 0] isSameDay_trans by auto
      qed
      then show ?thesis using True reset inv' l p e free today stamp
        by (simp add: usedToday_def orZero_def)
    qed
  qed
  then show ?thesis unfolding k_def s'_def .
qed

lemma usedToday_serve:
  assumes "usedToday c today n s"
      and "\<And>r j. r \<in> set reqs \<Longrightarrow> isSameDay (fst r j) today" and "c \<noteq> []"
  shows "usedToday c today (n + acceptedEnhancements c reqs s) (serve reqs s)"
  using assms
proof (induction reqs arbitrary: n s)
  case Nil
  then show ?case by simp
next
  case (Cons r reqs)
  obtain t hdr req where r: "r = (t, hdr, req)" by (cases r) auto
  from Cons.prems(2)[of r] r have t: "\<And>j. isSameDay (t j) today" by simp
  have rest: "\<And>r j. r \<in> set reqs \<Longrightarrow> isSameDay (fst r j) today"
    using Cons.prems(2) by simp
  let ?k = "if hdr = Some c \<and> isEnhance req \<and> status (fst (handle t s hdr req)) = 200
            then 1 else (0::nat)"
  have "usedToday c today (n + ?k) (snd (handle t s hdr req))"
    by (rule usedToday_step[OF Cons.prems(1) t Cons.prems(3)])
  from Cons.IH[OF this rest Cons.prems(3)] show ?case using r by (simp add: add.assoc)
qed

lemma usedToday_refuses:
  assumes "usedToday c today n s" "10 \<le> n" "c \<noteq> []" "isSameDay (t 0) today"
  shows "post_prompts_enhance t s (Some c) (Some b) =
           (respond 402 (LimitReached ''Free tier daily limit reached'' 10), s)"
proof -
  from assms(1,2) obtain u d where u: "getUserByClerkId s c = Some u" "plan u = Free"
    "10 \<le> orZero (promptsUsedToday u)" "lastPromptDate u = Some d" and d: "isSameDay today d"
    by (auto simp: usedToday_def split: option.splits)
  have "isSameDay (t 0) d" using assms(4) d by (rule isSameDay_trans)
  then show ?thesis using u assms(3) enhance_refused[where clock = t] by blast
qed

text \<open>
  What the daily limit does as long as no request is served across midnight. Take a
  free-tier user of a store reached from the constructor by any requests, and let any
  requests follow whose clocks all read one calendar day. Once 10 of the user's
  \<open>POST /api/prompts/enhance\<close> requests among them have been accepted, a further such
  request that starts on that day is answered 402 and leaves the store as it is; one
  that starts on another calendar day is accepted, and the counter stands at 1
  afterwards.
\<close>

lemma limit_within_one_day:
  assumes "s0 = serve before newMemStorage"
      and "getUserByClerkId s0 c = Some u0" and "c \<noteq> []" and "plan u0 = Free"
      and "\<And>r j. r \<in> set reqs \<Longrightarrow> isSameDay (fst r j) today"
      and "10 \<le> acceptedEnhancements c reqs s0"
      and "s = serve reqs s0"
  shows "(isSameDay (t 0) today \<longrightarrow>
            post_prompts_enhance t s (Some c) (Some b) =
              (respond 402 (LimitReached ''Free tier daily limit reached'' 10), s))
       \<and> (\<not> isSameDay (later 0) today
            \<longrightarrow> (\<exists>s' u'. post_prompts_enhance later s (Some c) (Some b) =
                    (respond 200 (EnhanceSaved (promptIdCounter s) (body_originalPrompt b)
                       (body_enhancedPrompt b)), s') \<and>
                  getUserByClerkId s' c = Some u' \<and> promptsUsedToday u' = Some 1))"
proof -
  have inv0: "storage_inv s0" unfolding assms(1) by (rule inv_serve[OF inv_new])
  have "usedToday c today 0 s0" by (rule usedToday_initial[OF inv0 assms(2,4)])
  from usedToday_serve[OF this assms(5,3)]
  have used: "usedToday c today (acceptedEnhancements c reqs s0) s"
    unfolding assms(7) by simp
  from used assms(6) obtain u d where inv: "storage_inv s"
    and u: "getUserByClerkId s c = Some u" and free: "plan u = Free"
    and last: "lastPromptDate u = Some d" and d: "isSameDay today d"
    by (auto simp: usedToday_def split: option.splits)
  have refused: "post_prompts_enhance t s (Some c) (Some b) =
           (respond 402 (LimitReached ''Free tier daily limit reached'' 10), s)"
    if "isSameDay (t 0) today"
    using used assms(6,3) that by (rule usedToday_refuses)
  have accepted: "\<exists>s' u'. post_prompts_enhance later s (Some c) (Some b) =
                    (respond 200 (EnhanceSaved (promptIdCounter s) (body_originalPrompt b)
                       (body_enhancedPrompt b)), s') \<and>
                  getUserByClerkId s' c = Some u' \<and> promptsUsedToday u' = Some 1"
    if other: "\<not> isSameDay (later 0) today"
  proof -
    have nd: "\<not> isSameDay (later 0) d"
      using other d isSameDay_sym isSameDay_trans by blast
    then have new: "plan u = Free \<and>
        (case lastPromptDate u of None \<Rightarrow> True | Some d \<Rightarrow> \<not> isSameDay (later 0) d)"
      using free last by simp
    then have no: "\<not> (plan u = Free \<and> (\<exists>d. lastPromptDate u = Some d \<and> isSameDay (later 0) d) \<and>
              10 \<le> orZero (promptsUsedToday u))"
      using last nd by simp
    from enhance_accepted[where clock = later, OF inv u assms(3) no, of b]
    obtain s' j where r: "post_prompts_enhance later s (Some c) (Some b) =
             (respond 200 (EnhanceSaved (promptIdCounter s) (body_originalPrompt b)
                (body_enhancedPrompt b)), s')"
      and us: "users s' = AList.update (user_id u)
             (u\<lparr>promptsUsedToday :=
                  Some (if plan u = Free \<and>
                           (case lastPromptDate u of None \<Rightarrow> True
                            | Some d \<Rightarrow> \<not> isSameDay (later 0) d)
                        then 1 else orZero (promptsUsedToday u) + 1),
                lastPromptDate := Some (later j)\<rparr>) (users s)"
      by blast
    let ?u' = "u\<lparr>promptsUsedToday :=
                  Some (if plan u = Free \<and>
                           (case lastPromptDate u of None \<Rightarrow> True
                            | Some d \<Rightarrow> \<not> isSameDay (later 0) d)
                        then 1 else orZero (promptsUsedToday u) + 1),
                lastPromptDate := Some (later j)\<rparr>"
    have "getUserByClerkId s' c = (if c = c then Some ?u' else Some u)"
      by (rule lookup_after_user_update[OF inv u u us]) simp_all
    then have l: "getUserByClerkId s' c = Some ?u'" by simp
    have one: "promptsUsedToday ?u' = Some 1" using new by simp
    show ?thesis using r l one by auto
  qed
  show ?thesis using refused accepted by blast
qed

subsection \<open>Claims about the store and the routes\<close>

text \<open>
  Claim C8. A stored prompt is immutable except for deletion: in a store reached from the
  constructor by any operations, a prompt row found under an id is found there unchanged
  (all its fields) after any further storage operations none of which is \<open>deletePrompt\<close>.
\<close>

theorem prompt_immutable_except_delete:
  assumes "getPromptById (exec_ops before newMemStorage) k = Some p"
      and "list_all (\<lambda>(now, op). \<not> isDelete op) ops"
  shows "getPromptById (exec_ops ops (exec_ops before newMemStorage)) k = Some p"
proof -
  have "storage_inv s \<Longrightarrow> getPromptById s k = Some p \<Longrightarrow> getPromptById (exec_ops ops s) k = Some p" for s
    using assms(2)
  proof (induction ops arbitrary: s)
    case Nil
    then show ?case by simp
  next
    case (Cons a ops)
    obtain now op where a: "a = (now, op)" by (cases a)
    with Cons.prems have nd: "\<not> isDelete op" and rest: "list_all (\<lambda>(now, op). \<not> isDelete op) ops"
      by auto
    have "getPromptById (exec_op now op s) k = Some p"
      using nondelete_keeps_prompt[OF Cons.prems(1,2) nd] .
    moreover have "storage_inv (exec_op now op s)" using Cons.prems(1) by (rule inv_exec_op)
    ultimately show ?case using Cons.IH[OF _ _ rest] a by simp
  qed
  then show ?thesis using assms(1) inv_exec_ops[OF inv_new] by blast
qed

theorem prompt_immutable_except_delete_witness:
  "getPromptById (exec_ops [(day1, CreatePrompt logoInsert)] newMemStorage) 1 = Some logoPrompt
   \<and> getPromptById
         (exec_ops [(day2, CreateUser someUser), (day2, CreatePrompt logoInsert),
                    (day2, IncrementUserPromptUsage 1), (day2, UpdateUserRole 1 Writer),
                    (day2, ResetUserPromptUsage 1)]
            (exec_ops [(day1, CreatePrompt logoInsert)] newMemStorage)) 1 = Some logoPrompt"
proof -
  have h1: "getPromptById (exec_ops [(day1, CreatePrompt logoInsert)] newMemStorage) 1
              = Some logoPrompt"
    by (simp add: storage_defs example_defs)
  have h2: "list_all (\<lambda>(now, op). \<not> isDelete op)
              [(day2, CreateUser someUser), (day2, CreatePrompt logoInsert),
               (day2, IncrementUserPromptUsage 1), (day2, UpdateUserRole 1 Writer),
               (day2, ResetUserPromptUsage 1)]"
    by simp
  from prompt_immutable_except_delete[OF h1 h2] h1 show ?thesis by simp
qed

text \<open>
  Claim C3. After a successful \<open>DELETE /api/prompts/:id\<close> (status 200), in a store reached
  from the constructor by any requests, the history of any user, with or without a day
  limit and after any later requests, holds no prompt with that id.
\<close>

theorem deleted_prompt_not_in_history:
  assumes "status (fst (delete_prompt (serve before newMemStorage) hdr promptId)) = 200"
  shows "\<forall>p \<in> set (getPromptsByUserId clock
                     (serve later (snd (delete_prompt (serve before newMemStorage) hdr promptId)))
                     uid limitDays).
           Some (int (prompt_id p)) \<noteq> promptId"
proof -
  let ?s = "serve before newMemStorage"
  let ?s' = "snd (delete_prompt ?s hdr promptId)"
  have inv: "storage_inv ?s" by (rule inv_serve[OF inv_new])
  have "delete_prompt ?s hdr promptId = (fst (delete_prompt ?s hdr promptId), ?s')" by simp
  from delete_prompt_ok[OF this assms] obtain i p0 where
    i: "promptId = Some i" "0 \<le> i" "getPromptById ?s (nat i) = Some p0"
    and s': "?s' = deletePrompt ?s (nat i)" by blast
  have "nat i < promptIdCounter ?s" using inv_lookup_prompt[OF inv i(3)] by simp
  then have "gone (nat i) ?s'" unfolding s' gone_def using inv_deletePrompt[OF inv]
    by (simp add: deletePrompt_def getPromptById_def delete_conv')
  then have g: "gone (nat i) (serve later ?s')" by (rule gone_serve)
  show ?thesis
  proof
    fix p assume "p \<in> set (getPromptsByUserId clock (serve later ?s') uid limitDays)"
    from gone_history[OF g this] show "Some (int (prompt_id p)) \<noteq> promptId"
      using i by auto
  qed
qed

theorem deleted_prompt_not_in_history_witness:
  "status (fst (delete_prompt (serve [signUp, saveOnDay1, saveOnDay1] newMemStorage)
                  (Some ''c1'') (Some 1))) = 200
   \<and> map prompt_id (getPromptsByUserId (steady day2) (serve [saveOnDay1] (snd (delete_prompt
         (serve [signUp, saveOnDay1, saveOnDay1] newMemStorage) (Some ''c1'') (Some 1)))) 1 (Some 7))
       = [2, 3]
   \<and> list_all (\<lambda>p. Some (int (prompt_id p)) \<noteq> Some 1)
       (getPromptsByUserId (steady day2) (serve [saveOnDay1] (snd (delete_prompt
         (serve [signUp, saveOnDay1, saveOnDay1] newMemStorage) (Some ''c1'') (Some 1)))) 1 (Some 7))"
proof -
  have ok: "status (fst (delete_prompt (serve [signUp, saveOnDay1, saveOnDay1] newMemStorage)
                  (Some ''c1'') (Some 1))) = 200"
    by (simp add: storage_defs route_defs example_defs saveOnDay1_def)
  have ids: "map prompt_id (getPromptsByUserId (steady day2) (serve [saveOnDay1] (snd (delete_prompt
         (serve [signUp, saveOnDay1, saveOnDay1] newMemStorage) (Some ''c1'') (Some 1)))) 1 (Some 7))
       = [2, 3]"
    by (simp add: storage_defs route_defs example_defs saveOnDay1_def getPromptsByUserId_def
          createdTime_def notBefore_def)
  from deleted_prompt_not_in_history[OF ok, of "steady day2" "[saveOnDay1]" 1 "Some 7"] ok ids
  show ?thesis by (simp add: list_all_iff)
qed

text \<open>
  Claim C1: a free-tier user is refused with 402 after 10 enhancements in the calendar
  day, and a request on a later calendar day is accepted again because the counter is
  reset first. The code misses this when a request is served across midnight. The user
  \<open>c1\<close> signs up and sends ten enhancement requests that all arrive on day 1; the
  handler of the tenth reads \<open>today\<close> in the last millisecond of day 1 and stamps the
  row, in \<open>incrementUserPromptUsage\<close>, in the first millisecond of day 2. All ten are
  accepted, the row then holds the counter 10 with the last use on day 2, and the
  user's first request of day 2 finds the last use on its own day, resets nothing and
  is answered 402.
\<close>

theorem midnight_request_blocks_next_day:
  "list_all (\<lambda>r. isSameDay (fst r 0) day1) (replicate 9 enhanceOnDay1 @ [enhanceAcrossMidnight])
   \<and> acceptedEnhancements ''c1'' (replicate 9 enhanceOnDay1 @ [enhanceAcrossMidnight])
        (serve [signUp] newMemStorage) = 10
   \<and> map_option promptsUsedToday
        (getUserByClerkId (serve (signUp # replicate 9 enhanceOnDay1 @ [enhanceAcrossMidnight])
           newMemStorage) ''c1'') = Some (Some 10)
   \<and> map_option lastPromptDate
        (getUserByClerkId (serve (signUp # replicate 9 enhanceOnDay1 @ [enhanceAcrossMidnight])
           newMemStorage) ''c1'') = Some (Some startOfDay2)
   \<and> \<not> isSameDay day2 day1
   \<and> handle (steady day2)
        (serve (signUp # replicate 9 enhanceOnDay1 @ [enhanceAcrossMidnight]) newMemStorage)
        (Some ''c1'') (PostPromptsEnhance (Some logoBody))
       = (respond 402 (LimitReached ''Free tier daily limit reached'' 10),
          serve (signUp # replicate 9 enhanceOnDay1 @ [enhanceAcrossMidnight]) newMemStorage)"
proof -
  let ?start = "serve [signUp] newMemStorage"
  let ?reqs = "replicate 9 enhanceOnDay1 @ [enhanceAcrossMidnight]"
  let ?s = "serve (signUp # ?reqs) newMemStorage"
  let ?u = "\<lparr>user_id = 1, username = ''a@b.co'', password = [], clerkId = Some ''c1'',
             user_role = None, plan = Free, promptsUsedToday = Some 10,
             lastPromptDate = Some startOfDay2, user_createdAt = Some day1\<rparr>"
  have days: "list_all (\<lambda>r. isSameDay (fst r 0) day1) ?reqs"
    by (simp add: eval_nat_numeral isSameDay_def example_defs)
  have n: "acceptedEnhancements ''c1'' ?reqs ?start = 10"
    by (simp add: eval_nat_numeral storage_defs route_defs example_defs)
  have u: "getUserByClerkId ?s ''c1'' = Some ?u"
    by (simp add: eval_nat_numeral storage_defs route_defs example_defs)
  have other: "\<not> isSameDay day2 day1"
    by (simp add: isSameDay_def example_defs)
  have same: "isSameDay (steady day2 0) startOfDay2"
    by (simp add: isSameDay_def example_defs)
  have r: "handle (steady day2) ?s (Some ''c1'') (PostPromptsEnhance (Some logoBody)) =
             (respond 402 (LimitReached ''Free tier daily limit reached'' 10), ?s)"
    unfolding handle.simps
    by (rule enhance_refused[where clock = "steady day2", OF u _ _ _ same]) (simp_all add: orZero_def)
  have used: "map_option promptsUsedToday (getUserByClerkId ?s ''c1'') = Some (Some 10)"
    unfolding u by simp
  have last: "map_option lastPromptDate (getUserByClerkId ?s ''c1'') = Some (Some startOfDay2)"
    unfolding u by simp
  from days n used last other r show ?thesis by blast
qed

text \<open>
  Claim C6, as stated: every request without the \<open>x-clerk-user-id\<close> header is answered
  401. It fails for \<open>POST /api/prompts/enhance\<close>, which serves anonymous requests.
\<close>

theorem missing_header_not_always_401:
  "\<not> (\<forall>clock s hdr req. noClerkId hdr \<longrightarrow> status (fst (handle clock s hdr req)) = 401)"
proof
  assume a: "\<forall>clock s hdr req. noClerkId hdr \<longrightarrow> status (fst (handle clock s hdr req)) = 401"
  have "noClerkId None" by (simp add: noClerkId_def)
  with a have "status (fst (handle (steady day1) newMemStorage None (PostPromptsEnhance (Some logoBody)))) = 401"
    by blast
  then show False by (simp add: post_prompts_enhance_def noClerkId_def respond_def)
qed

text \<open>
  Claim C6, amended. A request without the header (or with an empty one) is answered 401,
  the store unchanged, by \<open>GET /api/users/me\<close>, \<open>POST /api/prompts/save\<close> (with a body
  that parses), \<open>GET /api/prompts/history\<close>, \<open>GET\<close> and \<open>DELETE /api/prompts/:id\<close> and
  \<open>GET /api/stats/usage\<close>; \<open>POST /api/prompts/enhance\<close> (with a body that parses)
  answers it 200 with the two prompts of the body and stores nothing.
\<close>

theorem missing_header_responses:
  assumes "noClerkId hdr"
  shows "get_users_me s hdr = (respond 401 (Message ''Unauthorized''), s)
       \<and> post_prompts_save clock s hdr (Some b) = (respond 401 (Message ''Unauthorized''), s)
       \<and> get_prompts_history clock s hdr = (respond 401 (Message ''Unauthorized''), s)
       \<and> get_prompt s hdr promptId = (respond 401 (Message ''Unauthorized''), s)
       \<and> delete_prompt s hdr promptId = (respond 401 (Message ''Unauthorized''), s)
       \<and> get_stats_usage clock s hdr = (respond 401 (Message ''Unauthorized''), s)
       \<and> post_prompts_enhance clock s hdr (Some b) =
           (respond 200 (EnhanceAnonymous (body_originalPrompt b) (body_enhancedPrompt b)), s)"
  using assms
  by (simp add: get_users_me_def post_prompts_save_def get_prompts_history_def get_prompt_def
        delete_prompt_def get_stats_usage_def post_prompts_enhance_def)

theorem missing_header_responses_witness:
  "noClerkId None
   \<and> get_users_me newMemStorage None = (respond 401 (Message ''Unauthorized''), newMemStorage)
   \<and> post_prompts_save (steady day1) newMemStorage None (Some logoBody)
       = (respond 401 (Message ''Unauthorized''), newMemStorage)
   \<and> get_prompts_history (steady day1) newMemStorage None
       = (respond 401 (Message ''Unauthorized''), newMemStorage)
   \<and> get_prompt newMemStorage None (Some 1) = (respond 401 (Message ''Unauthorized''), newMemStorage)
   \<and> delete_prompt newMemStorage None (Some 1)
       = (respond 401 (Message ''Unauthorized''), newMemStorage)
   \<and> get_stats_usage (steady day1) newMemStorage None
       = (respond 401 (Message ''Unauthorized''), newMemStorage)
   \<and> post_prompts_enhance (steady day1) newMemStorage None (Some logoBody)
       = (respond 200 (EnhanceAnonymous (body_originalPrompt logoBody)
            (body_enhancedPrompt logoBody)), newMemStorage)"
proof -
  have h: "noClerkId None" by (simp add: noClerkId_def)
  from missing_header_responses[OF h, of newMemStorage "steady day1" logoBody "Some 1"] h
  show ?thesis by simp
qed

section \<open>Properties of the quality analyzer\<close>

subsection \<open>The state of the patterns\<close>

lemma testGoals_other [simp]:
  "constraintsLastIndex (snd (testGoals st text)) = constraintsLastIndex st"
  "audienceLastIndex (snd (testGoals st text)) = audienceLastIndex st"
  by (simp_all add: testGoals_def split_def Let_def)

lemma testConstraints_other [simp]:
  "goalsLastIndex (snd (testConstraints st text)) = goalsLastIndex st"
  "audienceLastIndex (snd (testConstraints st text)) = audienceLastIndex st"
  by (simp_all add: testConstraints_def split_def Let_def)

lemma testAudience_other [simp]:
  "goalsLastIndex (snd (testAudience st text)) = goalsLastIndex st"
  "constraintsLastIndex (snd (testAudience st text)) = constraintsLastIndex st"
  by (simp_all add: testAudience_def split_def Let_def)

lemma testConstraints_after_goals:
  "fst (testConstraints (snd (testGoals st text)) text) = fst (testConstraints st text)"
  by (simp add: testConstraints_def split_def Let_def)

lemma testAudience_after_others:
  "fst (testAudience (snd (testConstraints (snd (testGoals st text)) text)) text)
     = fst (testAudience st text)"
  by (simp add: testAudience_def split_def Let_def)

lemma calculateOverallScore_eq:
  "fst (calculateOverallScore st text) =
     mathRound (weightedScore (clarityScore text) (specificityScore text) (contextScore text)
       (structureScore text)
       (completenessScore (fst (testGoals st text)) (fst (testConstraints st text))
          (fst (testAudience st text))))"
  by (simp add: calculateOverallScore_def split_def Let_def testConstraints_after_goals
        testAudience_after_others)

lemma analyze_score:
  "score (fst (analyzePromptQuality st text)) =
     fst (calculateOverallScore (scoringState st text) text)"
  by (simp add: analyzePromptQuality_def scoringState_def split_def Let_def)

subsection \<open>Bounds\<close>

lemma aspect_bounds:
  "0 \<le> calculateAspectScore text patterns positive"
  "calculateAspectScore text patterns positive \<le> 100"
  by (simp_all add: calculateAspectScore_def Let_def)

lemma clarity_bounds: "0 \<le> clarityScore text" "clarityScore text \<le> 100"
  by (simp_all add: clarityScore_def aspect_bounds)

lemma specificity_bounds: "0 \<le> specificityScore text" "specificityScore text \<le> 100"
proof -
  let ?a = "calculateAspectScore text specificity_lacking False"
  let ?b = "calculateAspectScore text specificity_measures True"
  have a: "0 \<le> ?a" "?a \<le> 100" and b: "0 \<le> ?b" "?b \<le> 100" by (rule aspect_bounds)+
  show "0 \<le> specificityScore text" using a b by (simp add: specificityScore_def)
  show "specificityScore text \<le> 100" using a b unfolding specificityScore_def by linarith
qed

lemma context_bounds: "0 \<le> contextScore text" "contextScore text \<le> 100"
  by (simp_all add: contextScore_def)

lemma structure_bounds: "0 \<le> structureScore text" "structureScore text \<le> 100"
proof -
  let ?a = "calculateAspectScore text structure_sections True"
  let ?b = "calculateAspectScore text structure_formatting True"
  have a: "0 \<le> ?a" "?a \<le> 100" and b: "0 \<le> ?b" "?b \<le> 100" by (rule aspect_bounds)+
  show "0 \<le> structureScore text" using a b by (simp add: structureScore_def)
  show "structureScore text \<le> 100" using a b unfolding structureScore_def by linarith
qed

lemma completeness_bounds:
  "0 \<le> completenessScore g c a" "completenessScore g c a \<le> 100"
  by (simp_all add: completenessScore_def)

lemma weighted_bounds:
  assumes "0 \<le> c" "c \<le> 100" "0 \<le> s" "s \<le> 100" "0 \<le> x" "x \<le> 100"
      and "0 \<le> t" "t \<le> 100" "0 \<le> k" "k \<le> 100"
  shows "0 \<le> weightedScore c s x t k" "weightedScore c s x t k \<le> 100"
  using assms unfolding weightedScore_def by linarith+

lemma mathRound_bounds:
  assumes "0 \<le> x" "x \<le> 100"
  shows "0 \<le> mathRound x" "mathRound x \<le> 100"
proof -
  show "0 \<le> mathRound x" using assms(1) by (simp add: mathRound_def)
  have "x + 1 / 2 < 101" using assms(2) by linarith
  then have "\<lfloor>x + 1 / 2\<rfloor> < 101" by (simp add: floor_less_iff)
  then show "mathRound x \<le> 100" by (simp add: mathRound_def)
qed

lemma mathRound_mono: "x \<le> y \<Longrightarrow> mathRound x \<le> mathRound y"
  by (simp add: mathRound_def floor_mono)

text \<open>
  Claim C7. For every text, and whatever the patterns remember from earlier calls, the
  score of \<open>analyzePromptQuality\<close> lies between 0 and 100. It is the rounded weighted sum
  of the five aspect scores, with the weights 0.25, 0.25, 0.2, 0.15 and 0.15, which add
  up to 1, and each aspect score lies between 0 and 100.
\<close>

theorem quality_score_in_range:
  "0 \<le> score (fst (analyzePromptQuality st text))
   \<and> score (fst (analyzePromptQuality st text)) \<le> 100
   \<and> (\<exists>hasGoals hasConstraints hasAudience.
         score (fst (analyzePromptQuality st text)) =
           mathRound (clarityScore text * (25 / 100) + specificityScore text * (25 / 100) +
                      contextScore text * (2 / 10) + structureScore text * (15 / 100) +
                      completenessScore hasGoals hasConstraints hasAudience * (15 / 100))
         \<and> 0 \<le> completenessScore hasGoals hasConstraints hasAudience
         \<and> completenessScore hasGoals hasConstraints hasAudience \<le> 100)
   \<and> 0 \<le> clarityScore text \<and> clarityScore text \<le> 100
   \<and> 0 \<le> specificityScore text \<and> specificityScore text \<le> 100
   \<and> 0 \<le> contextScore text \<and> contextScore text \<le> 100
   \<and> 0 \<le> structureScore text \<and> structureScore text \<le> 100
   \<and> (25 / 100 + 25 / 100 + 2 / 10 + 15 / 100 + 15 / 100 = (1 :: rat))"
proof -
  let ?st = "scoringState st text"
  let ?k = "completenessScore (fst (testGoals ?st text)) (fst (testConstraints ?st text))
              (fst (testAudience ?st text))"
  let ?w = "weightedScore (clarityScore text) (specificityScore text) (contextScore text)
              (structureScore text) ?k"
  have eq: "score (fst (analyzePromptQuality st text)) = mathRound ?w"
    by (simp add: analyze_score calculateOverallScore_eq)
  have w: "0 \<le> ?w" "?w \<le> 100"
    by (rule weighted_bounds clarity_bounds specificity_bounds context_bounds structure_bounds
          completeness_bounds)+
  have r: "0 \<le> mathRound ?w" "mathRound ?w \<le> 100" using mathRound_bounds[OF w] by simp_all
  have ex: "\<exists>hasGoals hasConstraints hasAudience.
         score (fst (analyzePromptQuality st text)) =
           mathRound (clarityScore text * (25 / 100) + specificityScore text * (25 / 100) +
                      contextScore text * (2 / 10) + structureScore text * (15 / 100) +
                      completenessScore hasGoals hasConstraints hasAudience * (15 / 100))
         \<and> 0 \<le> completenessScore hasGoals hasConstraints hasAudience
         \<and> completenessScore hasGoals hasConstraints hasAudience \<le> 100"
    using eq completeness_bounds unfolding weightedScore_def by blast
  show ?thesis
    using eq r ex clarity_bounds specificity_bounds context_bounds structure_bounds by simp
qed

subsection \<open>Vague terms and the score\<close>

lemma countAll_append: "countAll (ps @ qs) text = countAll ps text + countAll qs text"
  by (simp add: countAll_def)

lemma negative_aspect_antitone:
  "countAll ps t \<le> countAll ps t' \<Longrightarrow>
   calculateAspectScore t' ps False \<le> calculateAspectScore t ps False"
  by (simp add: calculateAspectScore_def Let_def)

lemma weighted_mono_clarity:
  "c' \<le> c \<Longrightarrow> weightedScore c' s x t k \<le> weightedScore c s x t k"
  by (simp add: weightedScore_def)

subsection \<open>The analyzer on three texts\<close>

text \<open>
  What the patterns find in \<open>for\<close>, \<open>for stuff\<close> and \<open>for stuff etc\<close>, each fact evaluated
  on its own.
\<close>

lemma vague_for: "countAll clarity_vague ''for'' = 0"
  by code_simp

lemma ambiguous_for: "countAll clarity_ambiguous ''for'' = 0"
  by code_simp

lemma lacking_for: "countAll specificity_lacking ''for'' = 0"
  by code_simp

lemma measures_for: "countAll specificity_measures ''for'' = 0"
  by code_simp

lemma sections_for: "countAll structure_sections ''for'' = 0"
  by code_simp

lemma formatting_for: "countAll structure_formatting ''for'' = 0"
  by code_simp

lemma context_for: "someTest context_defined ''for'' = False"
  by code_simp

lemma goals_for: "testFrom completeness_goals 0 ''for'' = (False, 0)"
  by code_simp

lemma constraints_for: "testFrom completeness_constraints 0 ''for'' = (False, 0)"
  by code_simp

lemma audience_for: "testFrom completeness_audience 0 ''for'' = (False, 0)"
  by code_simp

lemma vague_for_stuff: "countAll clarity_vague ''for stuff'' = 1"
  by code_simp

lemma ambiguous_for_stuff: "countAll clarity_ambiguous ''for stuff'' = 0"
  by code_simp

lemma lacking_for_stuff: "countAll specificity_lacking ''for stuff'' = 0"
  by code_simp

lemma measures_for_stuff: "countAll specificity_measures ''for stuff'' = 0"
  by code_simp

lemma sections_for_stuff: "countAll structure_sections ''for stuff'' = 0"
  by code_simp

lemma formatting_for_stuff: "countAll structure_formatting ''for stuff'' = 0"
  by code_simp

lemma context_for_stuff: "someTest context_defined ''for stuff'' = True"
  by code_simp

lemma goals_for_stuff: "testFrom completeness_goals 0 ''for stuff'' = (False, 0)"
  by code_simp

lemma constraints_for_stuff: "testFrom completeness_constraints 0 ''for stuff'' = (False, 0)"
  by code_simp

lemma audience_for_stuff: "testFrom completeness_audience 0 ''for stuff'' = (False, 0)"
  by code_simp

lemma vague_for_stuff_etc: "countAll clarity_vague ''for stuff etc'' = 2"
  by code_simp

lemma ambiguous_for_stuff_etc: "countAll clarity_ambiguous ''for stuff etc'' = 0"
  by code_simp

lemma lacking_for_stuff_etc: "countAll specificity_lacking ''for stuff etc'' = 0"
  by code_simp

lemma measures_for_stuff_etc: "countAll specificity_measures ''for stuff etc'' = 0"
  by code_simp

lemma sections_for_stuff_etc: "countAll structure_sections ''for stuff etc'' = 0"
  by code_simp

lemma formatting_for_stuff_etc: "countAll structure_formatting ''for stuff etc'' = 0"
  by code_simp

lemma context_for_stuff_etc: "someTest context_defined ''for stuff etc'' = True"
  by code_simp

lemma goals_for_stuff_etc: "testFrom completeness_goals 0 ''for stuff etc'' = (False, 0)"
  by code_simp

lemma constraints_for_stuff_etc: "testFrom completeness_constraints 0 ''for stuff etc'' = (False, 0)"
  by code_simp

lemma audience_for_stuff_etc: "testFrom completeness_audience 0 ''for stuff etc'' = (False, 0)"
  by code_simp

lemma issues_state:
  "snd (identifyIssues st text) =
     snd (testAudience (snd (testConstraints (snd (testGoals st text)) text)) text)"
  by (simp add: identifyIssues_def split_def Let_def)

lemma strengths_state:
  "snd (identifyStrengths st text) =
     snd (testAudience (snd (testConstraints (snd (testGoals st text)) text)) text)"
  by (simp add: identifyStrengths_def split_def Let_def)

lemma nothing_detected:
  assumes "testFrom completeness_goals 0 text = (False, 0)"
      and "testFrom completeness_constraints 0 text = (False, 0)"
      and "testFrom completeness_audience 0 text = (False, 0)"
  shows "scoringState initialRegexState text = initialRegexState"
    and "detections initialRegexState text = (False, False, False)"
proof -
  have g: "testGoals initialRegexState text = (False, initialRegexState)"
    using assms(1) by (simp add: testGoals_def initialRegexState_def)
  have c: "testConstraints initialRegexState text = (False, initialRegexState)"
    using assms(2) by (simp add: testConstraints_def initialRegexState_def)
  have a: "testAudience initialRegexState text = (False, initialRegexState)"
    using assms(3) by (simp add: testAudience_def initialRegexState_def)
  show "scoringState initialRegexState text = initialRegexState"
    by (simp add: scoringState_def issues_state strengths_state g c a)
  show "detections initialRegexState text = (False, False, False)"
    by (simp add: detections_def g c a)
qed

lemma score_from_counts:
  assumes "scoringState st text = st'"
      and "detections st' text = (hasGoals, hasConstraints, hasAudience)"
      and "countAll clarity_vague text = v" and "countAll clarity_ambiguous text = a"
      and "countAll specificity_lacking text = l" and "countAll specificity_measures text = ms"
      and "someTest context_defined text = cx"
      and "countAll structure_sections text = sc" and "countAll structure_formatting text = fm"
  shows "score (fst (analyzePromptQuality st text)) =
           mathRound (weightedScore (max 0 (100 - of_nat (v + a) * 20))
             (max 0 (100 - of_nat l * 20) * (4 / 10) + min 100 (of_nat ms * 20) * (6 / 10))
             (if cx then 80 else 40)
             (min 100 (of_nat sc * 20) * (5 / 10) + min 100 (of_nat fm * 20) * (5 / 10))
             (completenessScore hasGoals hasConstraints hasAudience))"
  using assms
  by (simp add: analyze_score calculateOverallScore_eq detections_def clarityScore_def
        specificityScore_def contextScore_def structureScore_def calculateAspectScore_def
        countAll_append Let_def)

lemma score_for: "score (fst (analyzePromptQuality initialRegexState ''for'')) = 43"
  using score_from_counts[OF nothing_detected[OF goals_for constraints_for audience_for]
          vague_for ambiguous_for lacking_for measures_for context_for sections_for formatting_for]
  by (simp add: weightedScore_def completenessScore_def mathRound_def floor_eq_iff)

lemma score_for_stuff: "score (fst (analyzePromptQuality initialRegexState ''for stuff'')) = 46"
  using score_from_counts[OF nothing_detected[OF goals_for_stuff constraints_for_stuff
            audience_for_stuff]
          vague_for_stuff ambiguous_for_stuff lacking_for_stuff measures_for_stuff
          context_for_stuff sections_for_stuff formatting_for_stuff]
  by (simp add: weightedScore_def completenessScore_def mathRound_def floor_eq_iff)

lemma score_for_stuff_etc:
  "score (fst (analyzePromptQuality initialRegexState ''for stuff etc'')) = 41"
  using score_from_counts[OF nothing_detected[OF goals_for_stuff_etc constraints_for_stuff_etc
            audience_for_stuff_etc]
          vague_for_stuff_etc ambiguous_for_stuff_etc lacking_for_stuff_etc
          measures_for_stuff_etc context_for_stuff_etc sections_for_stuff_etc
          formatting_for_stuff_etc]
  by (simp add: weightedScore_def completenessScore_def mathRound_def floor_eq_iff)

text \<open>
  Claim C4, as stated: injecting vague-term matches into a text never increases the
  score. Appending the vague term \<open>stuff\<close> to the text \<open>for\<close> adds a match of the vague
  patterns, and with it a match of the context pattern (\<open>for\<close> followed by at least five
  characters): the clarity score falls by 20, the context score rises by 40, and the
  score rises from 43 to 46.
\<close>

theorem vague_injection_can_raise_score:
  "''for stuff'' = ''for'' @ '' stuff''
   \<and> countAll clarity_vague ''for'' < countAll clarity_vague ''for stuff''
   \<and> score (fst (analyzePromptQuality initialRegexState ''for''))
       < score (fst (analyzePromptQuality initialRegexState ''for stuff''))"
  by (simp add: vague_for vague_for_stuff score_for score_for_stuff)

text \<open>
  Claim C4, amended. The clarity aspect score never increases with the number of matches
  of the vague patterns, and the score of \<open>analyzePromptQuality\<close> does not increase from
  a text to a text with at least as many such matches as long as the other measurements
  agree on the two texts: the numbers of matches of the ambiguous, lacking, measures,
  sections and formatting patterns, the outcome of the context test, and what the goal,
  constraint and audience tests find when the score is computed.
\<close>

theorem score_antitone_in_vague_matches:
  assumes "countAll clarity_vague t \<le> countAll clarity_vague t'"
      and "countAll clarity_ambiguous t = countAll clarity_ambiguous t'"
      and "countAll specificity_lacking t = countAll specificity_lacking t'"
      and "countAll specificity_measures t = countAll specificity_measures t'"
      and "someTest context_defined t = someTest context_defined t'"
      and "countAll structure_sections t = countAll structure_sections t'"
      and "countAll structure_formatting t = countAll structure_formatting t'"
      and "detections (scoringState st t) t = detections (scoringState st' t') t'"
  shows "calculateAspectScore t' clarity_vague False \<le> calculateAspectScore t clarity_vague False
       \<and> score (fst (analyzePromptQuality st' t')) \<le> score (fst (analyzePromptQuality st t))"
proof -
  have "countAll (clarity_vague @ clarity_ambiguous) t
          \<le> countAll (clarity_vague @ clarity_ambiguous) t'"
    using assms(1,2) by (simp add: countAll_append)
  then have c: "clarityScore t' \<le> clarityScore t"
    unfolding clarityScore_def by (rule negative_aspect_antitone)
  have s: "specificityScore t' = specificityScore t"
    using assms(3,4) by (simp add: specificityScore_def calculateAspectScore_def)
  have x: "contextScore t' = contextScore t"
    using assms(5) by (simp add: contextScore_def)
  have u: "structureScore t' = structureScore t"
    using assms(6,7) by (simp add: structureScore_def calculateAspectScore_def)
  have d: "fst (testGoals (scoringState st' t') t') = fst (testGoals (scoringState st t) t)"
          "fst (testConstraints (scoringState st' t') t') = fst (testConstraints (scoringState st t) t)"
          "fst (testAudience (scoringState st' t') t') = fst (testAudience (scoringState st t) t)"
    using assms(8) by (simp_all add: detections_def)
  have "score (fst (analyzePromptQuality st' t')) \<le> score (fst (analyzePromptQuality st t))"
    unfolding analyze_score calculateOverallScore_eq s x u d
    by (intro mathRound_mono weighted_mono_clarity c)
  moreover have "calculateAspectScore t' clarity_vague False \<le> calculateAspectScore t clarity_vague False"
    using assms(1) by (rule negative_aspect_antitone)
  ultimately show ?thesis by simp
qed

theorem score_antitone_in_vague_matches_witness:
  "countAll clarity_vague ''for stuff'' \<le> countAll clarity_vague ''for stuff etc''
   \<and> countAll clarity_ambiguous ''for stuff'' = countAll clarity_ambiguous ''for stuff etc''
   \<and> countAll specificity_lacking ''for stuff'' = countAll specificity_lacking ''for stuff etc''
   \<and> countAll specificity_measures ''for stuff'' = countAll specificity_measures ''for stuff etc''
   \<and> someTest context_defined ''for stuff'' = someTest context_defined ''for stuff etc''
   \<and> countAll structure_sections ''for stuff'' = countAll structure_sections ''for stuff etc''
   \<and> countAll structure_formatting ''for stuff'' = countAll structure_formatting ''for stuff etc''
   \<and> detections (scoringState initialRegexState ''for stuff'') ''for stuff''
       = detections (scoringState initialRegexState ''for stuff etc'') ''for stuff etc''
   \<and> calculateAspectScore ''for stuff etc'' clarity_vague False
       \<le> calculateAspectScore ''for stuff'' clarity_vague False
   \<and> score (fst (analyzePromptQuality initialRegexState ''for stuff etc''))
       \<le> score (fst (analyzePromptQuality initialRegexState ''for stuff''))"
proof -
  have h1: "countAll clarity_vague ''for stuff'' \<le> countAll clarity_vague ''for stuff etc''"
    by (simp add: vague_for_stuff vague_for_stuff_etc)
  have h2: "countAll clarity_ambiguous ''for stuff'' = countAll clarity_ambiguous ''for stuff etc''"
    by (simp add: ambiguous_for_stuff ambiguous_for_stuff_etc)
  have h3: "countAll specificity_lacking ''for stuff'' = countAll specificity_lacking ''for stuff etc''"
    by (simp add: lacking_for_stuff lacking_for_stuff_etc)
  have h4: "countAll specificity_measures ''for stuff'' = countAll specificity_measures ''for stuff etc''"
    by (simp add: measures_for_stuff measures_for_stuff_etc)
  have h5: "someTest context_defined ''for stuff'' = someTest context_defined ''for stuff etc''"
    by (simp add: context_for_stuff context_for_stuff_etc)
  have h6: "countAll structure_sections ''for stuff'' = countAll structure_sections ''for stuff etc''"
    by (simp add: sections_for_stuff sections_for_stuff_etc)
  have h7: "countAll structure_formatting ''for stuff'' = countAll structure_formatting ''for stuff etc''"
    by (simp add: formatting_for_stuff formatting_for_stuff_etc)
  have h8: "detections (scoringState initialRegexState ''for stuff'') ''for stuff''
       = detections (scoringState initialRegexState ''for stuff etc'') ''for stuff etc''"
    by (simp add: nothing_detected[OF goals_for_stuff constraints_for_stuff audience_for_stuff]
          nothing_detected[OF goals_for_stuff_etc constraints_for_stuff_etc audience_for_stuff_etc])
  from score_antitone_in_vague_matches[OF h1 h2 h3 h4 h5 h6 h7 h8] h1 h2 h3 h4 h5 h6 h7 h8
  show ?thesis by simp
qed

section \<open>Properties of the enhancement engine\<close>

subsection \<open>Counting words\<close>

lemma splitFrom_count:
  "(inSeparator \<longrightarrow> piece = []) \<Longrightarrow>
   length (filter (\<lambda>w. w \<noteq> []) (splitFrom inSeparator piece s))
     = wordStarts (piece \<noteq> []) s + (if piece \<noteq> [] then 1 else 0)"
  by (induction s arbitrary: inSeparator piece) auto

lemma countWords_wordStarts: "countWords s = wordStarts False s"
  using splitFrom_count[of False "[]" s] by (simp add: countWords_def splitWhiteSpace_def)

lemma wordStarts_separator:
  "isWhiteSpace c \<Longrightarrow> wordStarts b (a @ c # s) = wordStarts b a + wordStarts False s"
  by (induction a arbitrary: b) auto

lemma wordStarts_positive:
  "\<exists>x \<in> set s. \<not> isWhiteSpace x \<Longrightarrow> 0 < wordStarts False s"
  by (induction s) auto

lemma wordStarts_dropWhile:
  "wordStarts False (dropWhile isWhiteSpace s) = wordStarts False s"
  by (induction s) auto

lemma wordStarts_trailing:
  "list_all isWhiteSpace w \<Longrightarrow> wordStarts b (s @ w) = wordStarts b s"
proof (induction s arbitrary: b)
  case Nil
  then show ?case by (induction w arbitrary: b) auto
next
  case (Cons c s)
  then show ?case by simp
qed

lemma countWords_trim: "countWords (trim s) = countWords s"
proof -
  let ?d = "dropWhile isWhiteSpace s"
  have split: "?d = rev (dropWhile isWhiteSpace (rev ?d)) @ rev (takeWhile isWhiteSpace (rev ?d))"
    by (metis rev_append rev_rev_ident takeWhile_dropWhile_id)
  have ws: "list_all isWhiteSpace (rev (takeWhile isWhiteSpace (rev ?d)))"
    by (simp add: list_all_iff) (metis set_takeWhileD)
  have "wordStarts False (trim s) = wordStarts False ?d"
    using wordStarts_trailing[OF ws, of False "rev (dropWhile isWhiteSpace (rev ?d))"] split
    by (simp add: trim_def)
  then show ?thesis by (simp add: countWords_wordStarts wordStarts_dropWhile)
qed

lemma countWords_embedded:
  assumes "A = [] \<or> isWhiteSpace (last A)"
      and "isWhiteSpace c"
      and "\<exists>x \<in> set B. \<not> isWhiteSpace x"
  shows "countWords t < countWords (A @ t @ c # B)"
proof -
  have tail: "wordStarts False (t @ c # B) = wordStarts False t + wordStarts False B"
    using assms(2) by (rule wordStarts_separator)
  have pos: "0 < wordStarts False B" using assms(3) by (rule wordStarts_positive)
  show ?thesis
  proof (cases "A = []")
    case True
    then show ?thesis using tail pos by (simp add: countWords_wordStarts)
  next
    case False
    then obtain A0 a where A: "A = A0 @ [a]" by (metis rev_exhaust)
    with assms(1) have "isWhiteSpace a" by simp
    then have "wordStarts False (A0 @ a # (t @ c # B))
                 = wordStarts False A0 + wordStarts False (t @ c # B)"
      by (rule wordStarts_separator)
    then show ?thesis using tail pos A by (simp add: countWords_wordStarts)
  qed
qed

subsection \<open>The three shapes of the enhanced text\<close>

lemma enhanced_short:
  assumes "trim t \<noteq> []" "countWords (trim t) < 5"
  shows "enhanced (enhancePrompt t role s) =
           (''Provide a detailed and comprehensive ''
              @ (if detectTopics (trim t) \<noteq> [] then join ''/'' (detectTopics (trim t)) @ '' '' else []))
           @ trim t @ CHR '' '' #
           (''that includes:\<newline>\<newline>''
              @ (if s then join ''\<newline>'' sections else [])
              @ (if take 2 (roleSpecificEnhancements role) \<noteq> []
                 then ''\<newline>\<newline>Also include:\<newline>'' @ bullets (take 2 (roleSpecificEnhancements role))
                 else []))"
  using assms by (simp add: enhancePrompt_def Let_def)

lemma enhanced_medium:
  assumes "trim t \<noteq> []" "\<not> countWords (trim t) < 5" "countWords (trim t) < 15"
  shows "enhanced (enhancePrompt t role s) =
           [] @ trim t @ CHR 0x0A #
           (''\<newline>Please include:\<newline>''
              @ bullets (take 1 enhancementTemplates_context
                         @ take 1 enhancementTemplates_structure
                         @ take 2 enhancementTemplates_details
                         @ take 2 (roleSpecificEnhancements role)))"
  using assms by (simp add: enhancePrompt_def Let_def)

lemma enhanced_long:
  assumes "trim t \<noteq> []" "\<not> countWords (trim t) < 5" "\<not> countWords (trim t) < 15"
  shows "enhanced (enhancePrompt t role s) =
           [] @ trim t @ CHR 0x0A #
           (''\<newline>Additional requirements:\<newline>''
              @ bullets (take 3 (roleSpecificEnhancements role))
              @ ''\<newline>\<newline>Ensure the output is comprehensive, well-structured, and aligned with professional standards for this type of content.'')"
  using assms by (simp add: enhancePrompt_def Let_def)

lemma enhanced_counts:
  assumes "trim t \<noteq> []"
  shows "wordCount_original (enhancePrompt t role s) = countWords (trim t)"
    and "wordCount_enhanced (enhancePrompt t role s) = countWords (enhanced (enhancePrompt t role s))"
  using assms by (simp_all add: enhancePrompt_def Let_def)

lemma space_is_white: "isWhiteSpace CHR '' ''" "isWhiteSpace (CHR 0x0A)"
  by (simp_all add: isWhiteSpace_def)

lemma letter_not_white: "\<not> isWhiteSpace CHR ''t''" "\<not> isWhiteSpace CHR ''P''" "\<not> isWhiteSpace CHR ''A''"
  by (simp_all add: isWhiteSpace_def)

text \<open>
  Claim C9. For every prompt that is not only white space, every role and either value of
  \<open>shouldAddSections\<close>, the enhanced text has strictly more words than the prompt, and
  so do the two word counts of the result, which are the word counts of the prompt
  and of the enhanced text.
\<close>

theorem enhancement_adds_words:
  assumes "trim originalText \<noteq> []"
  shows "countWords originalText
           < countWords (enhanced (enhancePrompt originalText role shouldAddSections))
       \<and> wordCount_original (enhancePrompt originalText role shouldAddSections)
           < wordCount_enhanced (enhancePrompt originalText role shouldAddSections)
       \<and> wordCount_original (enhancePrompt originalText role shouldAddSections)
           = countWords originalText
       \<and> wordCount_enhanced (enhancePrompt originalText role shouldAddSections)
           = countWords (enhanced (enhancePrompt originalText role shouldAddSections))"
proof -
  let ?r = "enhancePrompt originalText role shouldAddSections"
  let ?t = "trim originalText"
  have more: "countWords ?t < countWords (enhanced ?r)"
  proof (cases "countWords ?t < 5")
    case True
    show ?thesis
      unfolding enhanced_short[OF assms True]
      by (rule countWords_embedded) (auto simp: space_is_white letter_not_white)
  next
    case False
    show ?thesis
    proof (cases "countWords ?t < 15")
      case True
      show ?thesis
        unfolding enhanced_medium[OF assms False True]
        by (rule countWords_embedded) (auto simp: space_is_white letter_not_white)
    next
      case F2: False
      show ?thesis
        unfolding enhanced_long[OF assms False F2]
        by (rule countWords_embedded) (auto simp: space_is_white letter_not_white)
    qed
  qed
  then show ?thesis
    using enhanced_counts[OF assms, of role shouldAddSections] by (simp add: countWords_trim)
qed

lemma trim_logo: "trim ''  a logo '' = ''a logo''"
  by code_simp

theorem enhancement_adds_words_witness:
  "trim ''  a logo '' \<noteq> []
   \<and> countWords ''  a logo ''
       < countWords (enhanced (enhancePrompt ''  a logo '' Designer True))
   \<and> wordCount_original (enhancePrompt ''  a logo '' Designer True)
       < wordCount_enhanced (enhancePrompt ''  a logo '' Designer True)"
proof -
  have h: "trim ''  a logo '' \<noteq> []" by (simp add: trim_logo)
  from enhancement_adds_words[OF h, of Designer True] h show ?thesis by simp
qed

subsection \<open>Determinism\<close>





section \<open>Properties of the template manager\<close>

subsection \<open>The example templates\<close>

lemma paddedGreeting_variables:
  "variables paddedGreeting =
     [\<lparr>var_id = ''id0'', var_name = ''name'', var_description = ''Value for name'',
       defaultValue = [], required = True\<rparr>]"
  by code_simp

lemma paddedGreeting_content: "content paddedGreeting = ''Dear {{ name }}''"
  by (simp add: paddedGreeting_def createTemplate_def templateInput_def Let_def)

lemma paddedGreeting_applied:
  "applyTemplate paddedGreeting [supplied ''id0'' ''Ann''] = Inr ''Dear {{ name }}''"
  by code_simp

lemma padded_token: "containsToken ''Dear {{ name }}''"
  by code_simp



text \<open>
  Written without spaces inside the braces, the placeholders are replaced, and the
  name of a variable is read as a pattern: the variable \<open>a.b\<close> also takes the place of
  \<open>{{axb}}\<close>.
\<close>

lemma greeting_applied:
  "applyTemplate greeting [supplied ''id0'' ''Ann'', supplied ''id1'' ''Rome'']
     = Inr ''Dear Ann, welcome to Rome. Yours, Ann''"
  by code_simp

lemma greeting_result_has_no_token:
  "\<not> containsToken ''Dear Ann, welcome to Rome. Yours, Ann''"
  by code_simp

lemma name_is_read_as_pattern:
  "applyTemplate (createTemplate exampleIds day1 (templateInput ''Hi {{a.b}} and {{axb}}''))
     [supplied ''id0'' ''X'', supplied ''id1'' ''Y'']
     = Inr ''Hi X and X''"
  by code_simp

subsection \<open>Claims about the template manager\<close>

text \<open>
  Claim C2: when a value is supplied for every variable of a template, the text that
  \<open>applyTemplate\<close> returns contains no \<open>{{...}}\<close> token. The code misses this for a
  placeholder written with spaces inside the braces. \<open>extractVariablesFromContent\<close>
  trims the name, so the template \<open>Dear {{ name }}\<close> has the one variable \<open>name\<close>;
  \<open>applyTemplate\<close> looks for \<open>{{name}}\<close>, finds nothing to replace, and returns the
  content with its token although the value \<open>Ann\<close> is supplied for the variable.
\<close>

theorem padded_placeholder_keeps_token:
  "map var_name (variables paddedGreeting) = [''name'']
   \<and> map var_id (variables paddedGreeting) = [''id0'']
   \<and> content paddedGreeting = ''Dear {{ name }}''
   \<and> applyTemplate paddedGreeting [supplied ''id0'' ''Ann''] = Inr ''Dear {{ name }}''
   \<and> containsToken ''Dear {{ name }}''"
  by (simp add: paddedGreeting_variables paddedGreeting_content paddedGreeting_applied
        padded_token)

subsection \<open>Empty values\<close>











end
